theory Spec2Isabelle
  imports Main "HOL-Library.Word" "HOL-Library.AList"
begin

section \<open>Outcomes of running Go code\<close>

text \<open>
  A Go function of the evaluator either returns, panics (a failed type assertion, an
  index out of range, a method call on a nil interface, the explicit \<open>panic\<close> of
  \<open>Evaluate\<close>) or keeps running (\<open>for { }\<close>). The model runs on fuel:
  \<open>OutOfFuel\<close> says that the given fuel did not suffice, \<open>Panic\<close> that the Go code
  panicked, \<open>Ret\<close> that it returned.
\<close>

datatype 'a outcome = OutOfFuel | Panic string | Ret 'a

fun bind :: "'a outcome \<Rightarrow> ('a \<Rightarrow> 'b outcome) \<Rightarrow> 'b outcome" where
  "bind OutOfFuel f = OutOfFuel"
| "bind (Panic m) f = Panic m"
| "bind (Ret a) f = f a"

text \<open>
  What one pass through the body of a Go \<open>for ... range\<close> loop does to the enclosing
  function: it executes a \<open>return\<close> (\<open>Returned\<close>), or the loop goes on with the
  loop-carried variables (\<open>Proceed\<close>).
\<close>

datatype ('r, 'a) flow = Returned 'r | Proceed 'a

section \<open>Values (package object)\<close>

type_synonym ref = nat

text \<open>
  \<open>object.Object\<close> is a Go interface. \<open>NoObject\<close> is Go's nil interface value (no
  object at all), which is not \<open>object.Nil\<close>, the nil value of the language
  (\<open>ONil\<close>). Functions and builtins are pointers (\<open>*object.Function\<close>,
  \<open>*object.Builtin\<close>): the model keeps the address. \<open>*object.Control\<close> has the
  keywords break, continue and return. Integers and floats are 64 bits wide; a float is
  kept as its bit pattern. Every other kind of value (lists, maps, iterators, ...) is an
  address with the kind's name.
\<close>

datatype obj =
    NoObject
  | ONil
  | OBool bool
  | OInt "64 word"
  | OFloat "64 word"
  | OString string
  | OError string
  | OBreak
  | OContinue
  | OReturn obj
  | OFunction ref
  | OBuiltin ref
  | OOther string ref

text \<open>\<open>Control.Keyword()\<close>, for the control objects.\<close>

fun Keyword :: "obj \<Rightarrow> string" where
  "Keyword OBreak = ''break''"
| "Keyword OContinue = ''continue''"
| "Keyword (OReturn v) = ''return''"
| "Keyword other = []"

text \<open>
  Modelled from the spec: \<open>object.IsError\<close> (package object, not in src), the test
  by which "the evaluator can recognize an Error signal"; Go's nil interface is no error.
\<close>

fun IsError :: "obj \<Rightarrow> bool" where
  "IsError (OError m) = True"
| "IsError other = False"

subsection \<open>Builtins (object/builtin.go)\<close>

text \<open>
  \<open>module\<close> is a pointer to a module, of which only \<open>Name().value\<close> is read:
  \<open>None\<close> is the nil pointer. \<open>fn\<close> is a Go function value, kept as the address
  of its code.
\<close>

record Builtin =
  b_fn :: ref
  b_name :: string
  b_module :: "string option"
  b_moduleName :: string
  b_isErrorHandler :: bool
  b_doc :: "ref option"

text \<open>\<open>func (b *Builtin) Key() string\<close>\<close>

definition Key :: "Builtin \<Rightarrow> string" where
  "Key b =
     (if b_module b = None \<and> b_moduleName b = [] then b_name b
      else if b_moduleName b \<noteq> [] then b_moduleName b @ ''.'' @ b_name b
      else case b_module b of
             Some m \<Rightarrow> m @ ''.'' @ b_name b
           | None \<Rightarrow> b_name b)"

text \<open>
  \<open>func (b *Builtin) Equals(other Object) Object\<close>: \<open>b == other\<close> compares the
  pointer \<open>b\<close> with an interface value, which holds when \<open>other\<close> is a
  \<open>*Builtin\<close> and is the same pointer. The receiver is the address of the builtin.
\<close>

definition Builtin_Equals :: "ref \<Rightarrow> obj \<Rightarrow> obj" where
  "Builtin_Equals b other = (if OBuiltin b = other then OBool True else OBool False)"

text \<open>\<open>NewBuiltin\<close> and \<open>NewNoopBuiltin\<close>: the struct they build (the caller gets its address).\<close>

definition NewBuiltin :: "string \<Rightarrow> ref \<Rightarrow> Builtin" where
  "NewBuiltin name fn =
     \<lparr>b_fn = fn, b_name = name, b_module = None, b_moduleName = [],
      b_isErrorHandler = False, b_doc = None\<rparr>"

definition NewNoopBuiltin :: "string \<Rightarrow> string option \<Rightarrow> ref \<Rightarrow> Builtin" where
  "NewNoopBuiltin name module noop =
     \<lparr>b_fn = noop, b_name = name, b_module = module,
      b_moduleName = (case module of Some m \<Rightarrow> m | None \<Rightarrow> []),
      b_isErrorHandler = False, b_doc = None\<rparr>"

section \<open>Syntax nodes (package ast, read through its accessors)\<close>

text \<open>
  The evaluator reads nodes through accessor methods; a node of the model holds what
  its accessors return. \<open>ANone\<close> is the nil node (an absent \<open>Init()\<close>, \<open>Post()\<close>,
  \<open>Alternative()\<close>, \<open>Value()\<close> or template expression). A \<open>For\<close> holds
  \<open>Init()\<close>, \<open>Condition()\<close>, \<open>Consequence()\<close>, \<open>Post()\<close>,
  \<open>IsSimpleLoop()\<close> and \<open>IsIteratorLoop()\<close>; a \<open>String\<close> holds \<open>Value()\<close>,
  the fragments of \<open>Template()\<close> (\<open>None\<close> for a nil template) and
  \<open>TemplateExpressions()\<close>; a switch choice holds \<open>IsDefault()\<close>,
  \<open>Expressions()\<close> and \<open>Block()\<close>. \<open>AOther\<close> stands for the sixteen node types
  that \<open>Evaluate\<close> hands to methods that are not in src (Program, Prefix, Postfix,
  Infix, Ternary, In, Index, Slice, Import, Const, Assign, Func, GetAttr, List, Map,
  Set), with the type's name, its literal (operator or name) and its children;
  \<open>AUnknown\<close> is a node of a type that the switch of \<open>Evaluate\<close> does not list.
\<close>

datatype fragment = Fragment (IsVariable: bool) (FragValue: string)

datatype node =
    ANone
  | ANil
  | AInt "64 word"
  | AFloat "64 word"
  | ABool bool
  | AString string "fragment list option" "node list"
  | AIdent string
  | AVar string node
  | AMultiVar "string list" node
  | AIf node node node
  | AFor node node node node bool bool
  | ASwitch node "choice list"
  | APipe "node list"
  | AControl string node
  | ARange node
  | ACall node "node list"
  | AObjectCall node node
  | ABlock "node list"
  | AOther string string "node list"
  | AUnknown string
and choice = Choice (IsDefault: bool) (Expressions: "node list") (Block: node)

section \<open>Scopes (package scope)\<close>

type_synonym scope_id = nat

text \<open>
  Modelled from the spec: the scope package is not in src. A scope is "a mapping from
  name to value plus an optional parent link"; scopes are shared and mutated in place,
  so they live in an arena indexed by handle, and a \<open>*scope.Scope\<close> is a handle. An
  entry holds the value and whether the name is a constant.
\<close>

record scope =
  sc_name :: string
  sc_parent :: "scope_id option"
  sc_entries :: "(string \<times> obj \<times> bool) list"

section \<open>The state that evaluation passes along\<close>

text \<open>
  \<open>scopes\<close> is the arena of scopes. \<open>ctx_err\<close> is the cancellation token:
  \<open>None\<close> while \<open>ctx.Done()\<close> is open, and the cause \<open>ctx.Err()\<close> once the context
  is cancelled (its text, as \<open>object.NewError\<close> keeps it). \<open>world\<close> is everything
  else that the code outside src owns and mutates: execution stacks, iterators, the
  console, the values behind the addresses.
\<close>

record 'w state =
  scopes :: "scope list"
  ctx_err :: "string option"
  world :: 'w

text \<open>
  Modelled from the spec: \<open>NewChild\<close> makes a scope whose parent is the receiver;
  \<open>Clear()\<close> "removes all entries in exactly one scope without severing the parent
  link"; \<open>declare(name, value, isConst) -> ok|AlreadyDeclaredError\<close> "always targets
  the local scope only". A handle outside the arena does not occur in the Go program
  (a \<open>*Scope\<close> always points to a scope); the model leaves the arena as it is there.
\<close>

definition NewChild :: "scope_id \<Rightarrow> string \<Rightarrow> 'w state \<Rightarrow> scope_id \<times> 'w state" where
  "NewChild s name st =
     (length (scopes st),
      st\<lparr>scopes := scopes st @ [\<lparr>sc_name = name, sc_parent = Some s, sc_entries = []\<rparr>]\<rparr>)"

definition Clear :: "scope_id \<Rightarrow> 'w state \<Rightarrow> 'w state" where
  "Clear s st =
     (if s < length (scopes st)
      then st\<lparr>scopes := (scopes st)[s := (scopes st ! s)\<lparr>sc_entries := []\<rparr>]\<rparr>
      else st)"

definition Declare :: "scope_id \<Rightarrow> string \<Rightarrow> obj \<Rightarrow> bool \<Rightarrow> 'w state \<Rightarrow> string + 'w state" where
  "Declare s name v isConst st =
     (if s < length (scopes st)
      then (if name \<in> fst ` set (sc_entries (scopes st ! s))
            then Inl (''AlreadyDeclaredError: '' @ name)
            else Inr (st\<lparr>scopes := (scopes st)[s := (scopes st ! s)
                         \<lparr>sc_entries := sc_entries (scopes st ! s) @ [(name, v, isConst)]\<rparr>]\<rparr>))
      else Inr st)"

section \<open>The evaluator (core/evaluator/evaluator.go)\<close>

record Breakpoint =
  File :: string
  Line :: int
  Disabled :: bool
  Trace :: bool
  Stop :: bool

record Opts =
  Importer :: "ref option"
  DisableDefaultBuiltins :: bool
  Builtins :: "ref list"
  Breakpoints :: "Breakpoint list"

text \<open>
  The maps of the evaluator are association lists with one pair per key. The values of
  \<open>breakpoints\<close> are pointers (\<open>*Breakpoint\<close>): \<open>bp_heap\<close> holds the Breakpoint
  variables that these pointers point to. \<open>stack\<close> is the address of the execution
  stack, which lives in the world.
\<close>

record Evaluator =
  importer :: "ref option"
  builtins :: "(string \<times> ref) list"
  stack :: ref
  breakpoints :: "(string \<times> ref) list"
  bp_heap :: "(ref \<times> Breakpoint) list"

subsection \<open>What the evaluator needs from code that is not in src\<close>

type_synonym 'w result = "(obj \<times> 'w state) outcome"

type_synonym 'w eval = "Evaluator \<Rightarrow> node \<Rightarrow> scope_id \<Rightarrow> 'w state \<Rightarrow> 'w result"

text \<open>
  The methods and packages below are called by the code in src and are not in src.
  They are parameters of the model: every theorem holds for all of them. A method of
  the evaluator that evaluates sub-nodes gets \<open>e.Evaluate\<close> as its first argument.
  \<^item> \<open>x_IsTruthy\<close>, \<open>x_Type\<close>, \<open>x_Inspect\<close>: the methods \<open>IsTruthy()\<close>,
    \<open>Type()\<close> and \<open>Inspect()\<close> of an object; \<open>x_Equals\<close>: \<open>object.Equals\<close>.
  \<^item> \<open>x_isIterator\<close>, \<open>x_isContainer\<close>: the type assertions
    \<open>.(object.Iterator)\<close> and \<open>.(object.Container)\<close>; \<open>x_Next\<close>: \<open>iterator.Next()\<close>,
    \<open>None\<close> when it is exhausted and the entry's \<open>Key()\<close> and \<open>Value()\<close>
    otherwise; \<open>x_Iter\<close>: \<open>container.Iter()\<close>.
  \<^item> \<open>x_isStatement\<close>: the type assertion \<open>node.(ast.Statement)\<close>; \<open>x_Token\<close>:
    file and line number of the start position of the statement's token.
  \<^item> \<open>x_stackNew\<close>, \<open>x_TrackStatement\<close>: \<open>stack.New()\<close> and
    \<open>Stack.TrackStatement\<close>; \<open>x_console\<close>: what \<open>trackExecution\<close> prints and
    reads at an enabled breakpoint.
  \<^item> \<open>x_GlobalBuiltins\<close>: \<open>GlobalBuiltins()\<close>; \<open>x_builtin\<close>: the struct behind the
    address of a builtin.
  \<^item> \<open>x_eval\<close>: the eval methods of the evaluator that are not in src
    (\<open>evalProgram\<close>, \<open>evalInfixExpression\<close>, \<open>evalIdentifier\<close>,
    \<open>evalVarStatement\<close>, \<open>evalCallExpression\<close>, ...), by the node they are called on;
    \<open>x_evalBlockStatement\<close>, \<open>x_evalExpressions\<close>, \<open>x_applyFunction\<close>,
    \<open>x_evalObjectCall\<close>: the methods of these names.
  \<^item> \<open>x_fmt_v\<close>: what \<open>%v\<close> prints for \<open>callExpr.Function\<close>.
\<close>

record 'w externals =
  x_IsTruthy :: "obj \<Rightarrow> bool"
  x_Equals :: "obj \<Rightarrow> obj \<Rightarrow> bool"
  x_Type :: "obj \<Rightarrow> string"
  x_Inspect :: "obj \<Rightarrow> string"
  x_isIterator :: "obj \<Rightarrow> bool"
  x_Next :: "obj \<Rightarrow> 'w state \<Rightarrow> (obj \<times> obj) option \<times> 'w state"
  x_isContainer :: "obj \<Rightarrow> bool"
  x_Iter :: "obj \<Rightarrow> 'w state \<Rightarrow> obj \<times> 'w state"
  x_isStatement :: "node \<Rightarrow> bool"
  x_Token :: "node \<Rightarrow> string \<times> int"
  x_stackNew :: "'w state \<Rightarrow> ref \<times> 'w state"
  x_TrackStatement :: "ref \<Rightarrow> node \<Rightarrow> scope_id \<Rightarrow> 'w state \<Rightarrow> 'w state"
  x_console :: "Evaluator \<Rightarrow> Breakpoint \<Rightarrow> string \<Rightarrow> 'w state \<Rightarrow> 'w state"
  x_GlobalBuiltins :: "ref list"
  x_builtin :: "ref \<Rightarrow> Builtin"
  x_eval :: "'w eval \<Rightarrow> Evaluator \<Rightarrow> node \<Rightarrow> scope_id \<Rightarrow> 'w state \<Rightarrow> 'w result"
  x_evalBlockStatement :: "'w eval \<Rightarrow> Evaluator \<Rightarrow> node \<Rightarrow> scope_id \<Rightarrow> 'w state \<Rightarrow> 'w result"
  x_evalExpressions ::
    "'w eval \<Rightarrow> Evaluator \<Rightarrow> node list \<Rightarrow> scope_id \<Rightarrow> 'w state \<Rightarrow> (obj list \<times> 'w state) outcome"
  x_applyFunction ::
    "'w eval \<Rightarrow> Evaluator \<Rightarrow> scope_id \<Rightarrow> obj \<Rightarrow> obj list \<Rightarrow> 'w state \<Rightarrow> 'w result"
  x_evalObjectCall ::
    "'w eval \<Rightarrow> Evaluator \<Rightarrow> scope_id \<Rightarrow> obj \<Rightarrow> string \<Rightarrow> obj list \<Rightarrow> 'w state \<Rightarrow> 'w result"
  x_fmt_v :: "node \<Rightarrow> string"

text \<open>
  A method call on Go's nil interface value panics; on an object it is the object's
  method.
\<close>

definition IsTruthy :: "'w externals \<Rightarrow> obj \<Rightarrow> bool outcome" where
  "IsTruthy X ob =
     (if ob = NoObject then Panic ''nil pointer dereference'' else Ret (x_IsTruthy X ob))"

definition TypeOf :: "'w externals \<Rightarrow> obj \<Rightarrow> string outcome" where
  "TypeOf X ob =
     (if ob = NoObject then Panic ''nil pointer dereference'' else Ret (x_Type X ob))"

definition Inspect :: "'w externals \<Rightarrow> obj \<Rightarrow> string outcome" where
  "Inspect X ob =
     (if ob = NoObject then Panic ''nil pointer dereference'' else Ret (x_Inspect X ob))"

subsection \<open>Formatting with \<open>%d\<close>\<close>

definition digit :: "nat \<Rightarrow> char" where
  "digit d = ''0123456789'' ! d"

fun show_nat :: "nat \<Rightarrow> string" where
  "show_nat n =
     (if n < 10 then [digit n]
      else show_nat (n div 10) @ [digit (n mod 10)])"

declare show_nat.simps [simp del]

definition show_int :: "int \<Rightarrow> string" where
  "show_int i = (if i < 0 then ''-'' @ show_nat (nat (- i)) else show_nat (nat i))"

subsection \<open>\<open>New\<close> and \<open>GetBreakpoint\<close>\<close>

text \<open>\<open>fmt.Sprintf("%s:%d", file, line)\<close>, the key of the breakpoint table.\<close>

definition bp_key :: "string \<Rightarrow> int \<Rightarrow> string" where
  "bp_key file line = file @ '':'' @ show_int line"

text \<open>
  \<open>for _, b := range opts.Breakpoints { e.breakpoints[...] = &b }\<close>. The code was
  written for Go before 1.22 (its import paths are those of the tamarin module, which
  was renamed before Go 1.22 existed): there a range loop has one variable \<open>b\<close> for
  all its iterations. Each iteration assigns the next element to \<open>b\<close> and stores the
  address of \<open>b\<close> under the key. \<open>b_var\<close> is that address in \<open>bp_heap\<close>; the loop
  carries the map and the heap.
\<close>

definition b_var :: ref where
  "b_var = 0"

fun breakpoints_loop ::
  "Breakpoint list \<Rightarrow> (string \<times> ref) list \<times> (ref \<times> Breakpoint) list
     \<Rightarrow> (string \<times> ref) list \<times> (ref \<times> Breakpoint) list" where
  "breakpoints_loop [] (m, h) = (m, h)"
| "breakpoints_loop (x # xs) (m, h) =
     (let h' = AList.update b_var x h;
          m' = AList.update (bp_key (File x) (Line x)) b_var m
      in breakpoints_loop xs (m', h'))"

text \<open>The two loops of \<open>New\<close> that register builtins: \<open>e.builtins[b.Key()] = b\<close>.\<close>

fun builtins_loop :: "'w externals \<Rightarrow> ref list \<Rightarrow> (string \<times> ref) list \<Rightarrow> (string \<times> ref) list" where
  "builtins_loop X [] m = m"
| "builtins_loop X (b # bs) m = builtins_loop X bs (AList.update (Key (x_builtin X b)) b m)"

definition New :: "'w externals \<Rightarrow> Opts \<Rightarrow> 'w state \<Rightarrow> Evaluator \<times> 'w state" where
  "New X opts st =
     (let (stk, st1) = x_stackNew X st;
          m0 = (if \<not> DisableDefaultBuiltins opts
                then builtins_loop X (x_GlobalBuiltins X) [] else []);
          m1 = builtins_loop X (Builtins opts) m0;
          (bps, h) = breakpoints_loop (Breakpoints opts) ([], [])
      in (\<lparr>importer = Importer opts, builtins = m1, stack = stk,
            breakpoints = bps, bp_heap = h\<rparr>, st1))"

text \<open>\<open>Opts{}\<close>, the zero value.\<close>

definition Opts_zero :: Opts where
  "Opts_zero =
     \<lparr>Importer = None, DisableDefaultBuiltins = False, Builtins = [], Breakpoints = []\<rparr>"

text \<open>
  \<open>GetBreakpoint\<close> returns a pointer and whether the key was found; \<open>deref\<close> reads
  the Breakpoint that a pointer of the evaluator points to.
\<close>

definition GetBreakpoint :: "Evaluator \<Rightarrow> string \<times> int \<Rightarrow> ref option \<times> bool" where
  "GetBreakpoint e tok =
     (if length (breakpoints e) = 0 then (None, False)
      else case map_of (breakpoints e) (bp_key (fst tok) (snd tok)) of
             Some b \<Rightarrow> (Some b, True)
           | None \<Rightarrow> (None, False))"

definition deref :: "Evaluator \<Rightarrow> ref \<Rightarrow> Breakpoint option" where
  "deref e b = map_of (bp_heap e) b"

text \<open>
  \<open>trackExecution\<close> always returns nil, so it is a change of the state: the statement
  is tracked on the stack and, at an enabled breakpoint, the console is used.
\<close>

definition trackExecution :: "'w externals \<Rightarrow> Evaluator \<Rightarrow> node \<Rightarrow> scope_id \<Rightarrow> 'w state \<Rightarrow> 'w state" where
  "trackExecution X e statement s st =
     (let st1 = x_TrackStatement X (stack e) statement s st;
          tok = x_Token X statement
      in case GetBreakpoint e tok of
           (Some b, True) \<Rightarrow>
             (case deref e b of
                Some bp \<Rightarrow>
                  if \<not> Disabled bp then x_console X e bp (bp_key (fst tok) (snd tok)) st1
                  else st1
              | None \<Rightarrow> st1)
         | other \<Rightarrow> st1)"

section \<open>Control constructs (the second unnamed source file)\<close>

text \<open>
  In each function \<open>ev\<close> is \<open>e.Evaluate\<close>, the recursive call into the dispatcher
  (with the fuel that is left); \<open>ctx\<close> is in the state.
\<close>

text \<open>\<open>evalIf\<close>, on \<open>Condition()\<close>, \<open>Consequence()\<close> and \<open>Alternative()\<close>.\<close>

definition evalIf ::
  "'w externals \<Rightarrow> 'w eval \<Rightarrow> Evaluator \<Rightarrow> node \<Rightarrow> node \<Rightarrow> node \<Rightarrow> scope_id \<Rightarrow> 'w state \<Rightarrow> 'w result" where
  "evalIf X ev e cond conseq alt s st =
     bind (ev e cond s st) (\<lambda>(condition, st1).
       if IsError condition then Ret (condition, st1)
       else bind (IsTruthy X condition) (\<lambda>truthy.
         if truthy then ev e conseq s st1
         else if alt \<noteq> ANone then ev e alt s st1
         else Ret (ONil, st1)))"

text \<open>
  The loop \<open>forLoop\<close> of \<open>evalSimpleForLoop\<close>; \<open>latestValue\<close> is its loop-carried
  variable. One unit of fuel is one iteration.
\<close>

primrec forLoop_simple ::
  "'w externals \<Rightarrow> nat \<Rightarrow> 'w eval \<Rightarrow> Evaluator \<Rightarrow> node \<Rightarrow> scope_id \<Rightarrow> obj \<Rightarrow> 'w state \<Rightarrow> 'w result" where
  "forLoop_simple X 0 ev e conseq s latestValue st = OutOfFuel"
| "forLoop_simple X (Suc k) ev e conseq s latestValue st =
     (let st1 = Clear s st in
      bind (ev e conseq s st1) (\<lambda>(result, st2).
        case result of
          OError m \<Rightarrow> Ret (result, st2)
        | OBreak \<Rightarrow> Ret (latestValue, st2)
        | OContinue \<Rightarrow> forLoop_simple X k ev e conseq s latestValue st2
        | OReturn v \<Rightarrow> Ret (result, st2)
        | other \<Rightarrow> forLoop_simple X k ev e conseq s result st2))"

definition evalSimpleForLoop ::
  "'w externals \<Rightarrow> nat \<Rightarrow> 'w eval \<Rightarrow> Evaluator \<Rightarrow> node \<Rightarrow> scope_id \<Rightarrow> 'w state \<Rightarrow> 'w result" where
  "evalSimpleForLoop X k ev e conseq s st = forLoop_simple X k ev e conseq s ONil st"

text \<open>
  The loop \<open>forLoop\<close> of \<open>evalIteratorForLoop\<close>. \<open>names\<close> has one or two elements
  (checked before the loop).
\<close>

primrec forLoop_iter ::
  "'w externals \<Rightarrow> nat \<Rightarrow> 'w eval \<Rightarrow> Evaluator \<Rightarrow> string list \<Rightarrow> node \<Rightarrow> scope_id \<Rightarrow> obj
     \<Rightarrow> obj \<Rightarrow> 'w state \<Rightarrow> 'w result" where
  "forLoop_iter X 0 ev e names conseq s iterator latestValue st = OutOfFuel"
| "forLoop_iter X (Suc k) ev e names conseq s iterator latestValue st =
     (let st1 = Clear s st;
          (entry, st2) = x_Next X iterator st1
      in case entry of
           None \<Rightarrow> Ret (latestValue, st2)
         | Some (key, val) \<Rightarrow>
             (case Declare s (names ! 0) key False st2 of
                Inl err \<Rightarrow> Ret (OError err, st2)
              | Inr st3 \<Rightarrow>
                  (case (if length names > 1 then Declare s (names ! 1) val False st3
                         else Inr st3) of
                     Inl err \<Rightarrow> Ret (OError err, st3)
                   | Inr st4 \<Rightarrow>
                       bind (ev e conseq s st4) (\<lambda>(rt, st5).
                         case rt of
                           OError m \<Rightarrow> Ret (rt, st5)
                         | OBreak \<Rightarrow> Ret (latestValue, st5)
                         | OReturn v \<Rightarrow> Ret (rt, st5)
                         | OContinue \<Rightarrow>
                             forLoop_iter X k ev e names conseq s iterator latestValue st5
                         | other \<Rightarrow>
                             forLoop_iter X k ev e names conseq s iterator rt st5))))"

text \<open>
  \<open>evalIteratorForLoop\<close>, on \<open>Condition()\<close> and \<open>Consequence()\<close>. The type switch
  on the condition yields the bound names and the iterated expression.
\<close>

definition evalIteratorForLoop ::
  "'w externals \<Rightarrow> nat \<Rightarrow> 'w eval \<Rightarrow> Evaluator \<Rightarrow> node \<Rightarrow> node \<Rightarrow> scope_id \<Rightarrow> 'w state \<Rightarrow> 'w result" where
  "evalIteratorForLoop X k ev e cond conseq s st =
     (case (case cond of
              AVar name expr \<Rightarrow> Some ([name], expr)
            | AMultiVar names expr \<Rightarrow> Some (names, expr)
            | other \<Rightarrow> None) of
        None \<Rightarrow> Ret (OError ''eval error: invalid for loop condition'', st)
      | Some (names, iterExpr) \<Rightarrow>
          if length names < 1 \<or> length names > 2
          then Ret (OError ''eval error: invalid for loop condition'', st)
          else bind (ev e iterExpr s st) (\<lambda>(iterObj, st1).
            if IsError iterObj then Ret (iterObj, st1)
            else if iterObj \<noteq> NoObject \<and> x_isIterator X iterObj
            then forLoop_iter X k ev e names conseq s iterObj ONil st1
            else bind (TypeOf X iterObj) (\<lambda>t.
              Ret (OError (''eval error: cannot iterate over '' @ t), st1))))"

text \<open>
  The loop \<open>forLoop\<close> of \<open>evalFor\<close> (the condition form). A \<open>continue\<close> of the body
  leaves the inner switch with \<open>latestValue\<close> as it is, and the post statement runs.
\<close>

primrec forLoop_cond ::
  "'w externals \<Rightarrow> nat \<Rightarrow> 'w eval \<Rightarrow> Evaluator \<Rightarrow> node \<Rightarrow> node \<Rightarrow> node \<Rightarrow> scope_id \<Rightarrow> scope_id
     \<Rightarrow> obj \<Rightarrow> 'w state \<Rightarrow> 'w result" where
  "forLoop_cond X 0 ev e cond conseq post forScope loopScope latestValue st = OutOfFuel"
| "forLoop_cond X (Suc k) ev e cond conseq post forScope loopScope latestValue st =
     (let st1 = Clear loopScope st in
      bind (ev e cond forScope st1) (\<lambda>(condition, st2).
        if IsError condition then Ret (condition, st2)
        else bind (IsTruthy X condition) (\<lambda>truthy.
          if truthy then
            bind (ev e conseq loopScope st2) (\<lambda>(rt, st3).
              case rt of
                OError m \<Rightarrow> Ret (rt, st3)
              | OBreak \<Rightarrow> Ret (latestValue, st3)
              | OReturn v \<Rightarrow> Ret (rt, st3)
              | other \<Rightarrow>
                  (let latestValue' = (if rt = OContinue then latestValue else rt) in
                   if post \<noteq> ANone then
                     bind (ev e post forScope st3) (\<lambda>(res, st4).
                       if IsError res then Ret (res, st4)
                       else forLoop_cond X k ev e cond conseq post forScope loopScope
                              latestValue' st4)
                   else forLoop_cond X k ev e cond conseq post forScope loopScope
                          latestValue' st3))
          else Ret (latestValue, st2))))"

text \<open>
  \<open>evalFor\<close>, on \<open>Init()\<close>, \<open>Condition()\<close>, \<open>Consequence()\<close>, \<open>Post()\<close>,
  \<open>IsSimpleLoop()\<close> and \<open>IsIteratorLoop()\<close>.
\<close>

definition evalFor ::
  "'w externals \<Rightarrow> nat \<Rightarrow> 'w eval \<Rightarrow> Evaluator \<Rightarrow> node \<Rightarrow> node \<Rightarrow> node \<Rightarrow> node \<Rightarrow> bool \<Rightarrow> bool
     \<Rightarrow> scope_id \<Rightarrow> 'w state \<Rightarrow> 'w result" where
  "evalFor X k ev e init cond conseq post isSimple isIterator s st =
     (let (forScope, sta) = NewChild s ''for'' st;
          (loopScope, stb) = NewChild forScope ''for-loop'' sta
      in bind (if init \<noteq> ANone
               then bind (ev e init forScope stb) (\<lambda>(res, st1).
                      if IsError res then Ret (Returned res, st1) else Ret (Proceed (), st1))
               else Ret (Proceed (), stb)) (\<lambda>(r, st1).
           case r of
             Returned res \<Rightarrow> Ret (res, st1)
           | Proceed u \<Rightarrow>
               if isSimple then evalSimpleForLoop X k ev e conseq loopScope st1
               else if isIterator then evalIteratorForLoop X k ev e cond conseq loopScope st1
               else forLoop_cond X k ev e cond conseq post forScope loopScope ONil st1))"

text \<open>
  \<open>evalSwitch\<close>. The inner loop runs over the expressions of one choice: it returns
  from \<open>evalSwitch\<close> (an error, or the block of the choice on a match) or ends without
  a match.
\<close>

primrec switch_expressions ::
  "'w externals \<Rightarrow> 'w eval \<Rightarrow> Evaluator \<Rightarrow> obj \<Rightarrow> node \<Rightarrow> node list \<Rightarrow> scope_id \<Rightarrow> 'w state
     \<Rightarrow> ((obj, unit) flow \<times> 'w state) outcome" where
  "switch_expressions X ev e v block [] s st = Ret (Proceed (), st)"
| "switch_expressions X ev e v block (val # vals) s st =
     bind (ev e val s st) (\<lambda>(out, st1).
       if IsError out then Ret (Returned out, st1)
       else if x_Equals X v out then
         bind (x_evalBlockStatement X ev e block s st1) (\<lambda>(res, st2). Ret (Returned res, st2))
       else switch_expressions X ev e v block vals s st1)"

text \<open>The first loop over \<open>se.Choices()\<close>.\<close>

primrec switch_choices ::
  "'w externals \<Rightarrow> 'w eval \<Rightarrow> Evaluator \<Rightarrow> obj \<Rightarrow> choice list \<Rightarrow> scope_id \<Rightarrow> 'w state
     \<Rightarrow> ((obj, unit) flow \<times> 'w state) outcome" where
  "switch_choices X ev e v [] s st = Ret (Proceed (), st)"
| "switch_choices X ev e v (opt # opts) s st =
     (if IsDefault opt then switch_choices X ev e v opts s st
      else bind (switch_expressions X ev e v (Block opt) (Expressions opt) s st) (\<lambda>(r, st1).
             case r of
               Returned res \<Rightarrow> Ret (Returned res, st1)
             | Proceed u \<Rightarrow> switch_choices X ev e v opts s st1))"

text \<open>The second loop over \<open>se.Choices()\<close>: the first default choice, if there is one.\<close>

primrec switch_default ::
  "'w externals \<Rightarrow> 'w eval \<Rightarrow> Evaluator \<Rightarrow> choice list \<Rightarrow> scope_id \<Rightarrow> 'w state \<Rightarrow> 'w result" where
  "switch_default X ev e [] s st = Ret (ONil, st)"
| "switch_default X ev e (opt # opts) s st =
     (if IsDefault opt then x_evalBlockStatement X ev e (Block opt) s st
      else switch_default X ev e opts s st)"

definition evalSwitch ::
  "'w externals \<Rightarrow> 'w eval \<Rightarrow> Evaluator \<Rightarrow> node \<Rightarrow> choice list \<Rightarrow> scope_id \<Rightarrow> 'w state \<Rightarrow> 'w result" where
  "evalSwitch X ev e subject choices s st =
     bind (ev e subject s st) (\<lambda>(v, st1).
       if IsError v then Ret (v, st1)
       else bind (switch_choices X ev e v choices s st1) (\<lambda>(r, st2).
         case r of
           Returned res \<Rightarrow> Ret (res, st2)
         | Proceed u \<Rightarrow> switch_default X ev e choices s st2))"

text \<open>
  \<open>prependObject\<close>: append nil, shift the elements one place up with \<open>copy\<close>, and
  store the object at index 0.
\<close>

definition prependObject :: "obj list \<Rightarrow> obj \<Rightarrow> obj list" where
  "prependObject slice0 ob =
     (let slice1 = slice0 @ [NoObject];
          slice2 = take 1 slice1 @ take (length slice1 - 1) slice1
      in slice2[0 := ob])"

text \<open>
  The arguments of a call stage of a pipe: nil for a call without arguments, and
  otherwise what \<open>evalExpressions\<close> returns, where a list of one error makes
  \<open>evalPipe\<close> return that error.
\<close>

definition pipe_arguments ::
  "'w externals \<Rightarrow> 'w eval \<Rightarrow> Evaluator \<Rightarrow> node list \<Rightarrow> scope_id \<Rightarrow> 'w state
     \<Rightarrow> ((obj, obj list) flow \<times> 'w state) outcome" where
  "pipe_arguments X ev e arguments s st =
     (if length arguments > 0 then
        bind (x_evalExpressions X ev e arguments s st) (\<lambda>(args, st1).
          if length args = 1 \<and> IsError (args ! 0) then Ret (Returned (args ! 0), st1)
          else Ret (Proceed args, st1))
      else Ret (Proceed [], st))"

text \<open>
  One pass through the body of the loop of \<open>evalPipe\<close> over \<open>exprs[1:]\<close>, at index
  \<open>i\<close> with the stage \<open>expr\<close>: it returns from \<open>evalPipe\<close>, or goes on with a new
  \<open>nextArg\<close>.
\<close>

definition pipe_stage ::
  "'w externals \<Rightarrow> 'w eval \<Rightarrow> Evaluator \<Rightarrow> nat \<Rightarrow> node \<Rightarrow> scope_id \<Rightarrow> obj \<Rightarrow> 'w state
     \<Rightarrow> ((obj, obj) flow \<times> 'w state) outcome" where
  "pipe_stage X ev e i expr s nextArg st =
     (case expr of
        ACall fnode arguments \<Rightarrow>
          bind (ev e fnode s st) (\<lambda>(function, st1).
            if IsError function then Ret (Returned function, st1)
            else bind (pipe_arguments X ev e arguments s st1) (\<lambda>(r, st2).
              case r of
                Returned err \<Rightarrow> Ret (Returned err, st2)
              | Proceed args \<Rightarrow>
                  (let args' = (if nextArg \<noteq> NoObject then prependObject args nextArg
                                else args) in
                   bind (x_applyFunction X ev e s function args' st2) (\<lambda>(res, st3).
                     if IsError res then Ret (Returned res, st3)
                     else Ret (Proceed res, st3)))))
      | AObjectCall onode cnode \<Rightarrow>
          bind (ev e onode s st) (\<lambda>(ob, st1).
            if IsError ob then Ret (Returned ob, st1)
            else case cnode of
              ACall fnode arguments \<Rightarrow>
                bind (pipe_arguments X ev e arguments s st1) (\<lambda>(r, st2).
                  case r of
                    Returned err \<Rightarrow> Ret (Returned err, st2)
                  | Proceed args \<Rightarrow>
                      (let args' = (if nextArg \<noteq> NoObject then prependObject args nextArg
                                    else args) in
                       case fnode of
                         AIdent method \<Rightarrow>
                           bind (x_evalObjectCall X ev e s ob method args' st2) (\<lambda>(res, st3).
                             if IsError res then Ret (Returned res, st3)
                             else Ret (Proceed res, st3))
                       | other \<Rightarrow>
                           Ret (Returned (OError (''invalid function in pipe expression: ''
                                  @ x_fmt_v X fnode)), st2)))
            | other \<Rightarrow> Panic ''interface conversion: ast.Node is not *ast.Call'')
      | other \<Rightarrow>
          bind (ev e expr s st) (\<lambda>(ob, st1).
            if IsError ob then Ret (Returned ob, st1)
            else if (case ob of OFunction f \<Rightarrow> True | OBuiltin b \<Rightarrow> True | x \<Rightarrow> False) then
              (let args = (if nextArg \<noteq> NoObject then [nextArg] else []) in
               bind (x_applyFunction X ev e s ob args st1) (\<lambda>(res, st2).
                 if IsError res then Ret (Returned res, st2)
                 else Ret (Proceed res, st2)))
            else if i = 0 then Ret (Proceed ob, st1)
            else bind (TypeOf X ob) (\<lambda>t.
              Ret (Returned (OError (''type error: unexpected '' @ t
                     @ '' object in pipe expression'')), st1))))"

text \<open>The loop of \<open>evalPipe\<close> over \<open>exprs[1:]\<close>, and what follows it.\<close>

primrec pipe_stages ::
  "'w externals \<Rightarrow> 'w eval \<Rightarrow> Evaluator \<Rightarrow> node list \<Rightarrow> nat \<Rightarrow> scope_id \<Rightarrow> obj \<Rightarrow> 'w state \<Rightarrow> 'w result" where
  "pipe_stages X ev e [] i s nextArg st =
     (if nextArg \<noteq> NoObject then Ret (nextArg, st) else Ret (ONil, st))"
| "pipe_stages X ev e (expr # rest) i s nextArg st =
     bind (pipe_stage X ev e i expr s nextArg st) (\<lambda>(r, st1).
       case r of
         Returned res \<Rightarrow> Ret (res, st1)
       | Proceed next \<Rightarrow> pipe_stages X ev e rest (i + 1) s next st1)"

definition evalPipe ::
  "'w externals \<Rightarrow> 'w eval \<Rightarrow> Evaluator \<Rightarrow> node list \<Rightarrow> scope_id \<Rightarrow> 'w state \<Rightarrow> 'w result" where
  "evalPipe X ev e exprs s st =
     (if length exprs < 2
      then Ret (OError (''eval error: invalid pipe expression (got only ''
                  @ show_nat (length exprs) @ '' arguments)''), st)
      else bind (ev e (exprs ! 0) s st) (\<lambda>(nextArg, st1).
             if IsError nextArg then Ret (nextArg, st1)
             else pipe_stages X ev e (drop 1 exprs) 0 s nextArg st1))"

text \<open>\<open>evalControl\<close>, on \<open>Literal()\<close> and \<open>Value()\<close>.\<close>

definition evalControl ::
  "'w eval \<Rightarrow> Evaluator \<Rightarrow> string \<Rightarrow> node \<Rightarrow> scope_id \<Rightarrow> 'w state \<Rightarrow> 'w result" where
  "evalControl ev e literal nodeVal s st =
     (if literal = ''break'' then Ret (OBreak, st)
      else if literal = ''continue'' then Ret (OContinue, st)
      else if literal = ''return'' then
        (if nodeVal = ANone then Ret (OReturn ONil, st)
         else bind (ev e nodeVal s st) (\<lambda>(v, st1).
                if IsError v then Ret (v, st1) else Ret (OReturn v, st1)))
      else Ret (OError (''eval error: invalid control keyword: '' @ literal), st))"

text \<open>\<open>evalRange\<close>, on \<open>Container()\<close>.\<close>

definition evalRange ::
  "'w externals \<Rightarrow> 'w eval \<Rightarrow> Evaluator \<Rightarrow> node \<Rightarrow> scope_id \<Rightarrow> 'w state \<Rightarrow> 'w result" where
  "evalRange X ev e container s st =
     bind (ev e container s st) (\<lambda>(v, st1).
       if IsError v then Ret (v, st1)
       else if v \<noteq> NoObject \<and> x_isContainer X v then Ret (x_Iter X v st1)
       else bind (TypeOf X v) (\<lambda>t.
         Ret (OError (''type error: '' @ t @ '' is not a container''), st1)))"

section \<open>String templates (the first unnamed source file)\<close>

text \<open>
  The loop of \<open>evalStringLiteral\<close> over the fragments, with its variables
  \<open>exprIndex\<close> and \<open>parts\<close>, and the \<open>strings.Join(parts, "")\<close> after it. An
  embedded expression is evaluated by \<open>New(Opts{}).Evaluate\<close>, a fresh evaluator with
  the same context and scope.
\<close>

primrec fragments_loop ::
  "'w externals \<Rightarrow> 'w eval \<Rightarrow> node list \<Rightarrow> fragment list \<Rightarrow> nat \<Rightarrow> string list \<Rightarrow> scope_id
     \<Rightarrow> 'w state \<Rightarrow> 'w result" where
  "fragments_loop X ev exprs [] exprIndex parts s st = Ret (OString (concat parts), st)"
| "fragments_loop X ev exprs (f # fs) exprIndex parts s st =
     (if IsVariable f then
        (if exprIndex < length exprs then
           (let expr = exprs ! exprIndex in
            if expr = ANone then fragments_loop X ev exprs fs (exprIndex + 1) (parts @ [[]]) s st
            else
              (let (e', st1) = New X Opts_zero st in
               bind (ev e' expr s st1) (\<lambda>(ob, st2).
                 case ob of
                   OError m \<Rightarrow> Ret (ob, st2)
                 | OString v \<Rightarrow>
                     fragments_loop X ev exprs fs (exprIndex + 1) (parts @ [v]) s st2
                 | other \<Rightarrow>
                     bind (Inspect X ob) (\<lambda>shown.
                       fragments_loop X ev exprs fs (exprIndex + 1) (parts @ [shown]) s st2))))
         else Panic ''index out of range'')
      else fragments_loop X ev exprs fs exprIndex (parts @ [FragValue f]) s st)"

definition evalStringLiteral ::
  "'w externals \<Rightarrow> 'w eval \<Rightarrow> string \<Rightarrow> fragment list option \<Rightarrow> node list \<Rightarrow> scope_id
     \<Rightarrow> 'w state \<Rightarrow> 'w result" where
  "evalStringLiteral X ev v template exprs s st =
     (case template of
        None \<Rightarrow> Ret (OString v, st)
      | Some fragments \<Rightarrow> fragments_loop X ev exprs fragments 0 [] s st)"

section \<open>The dispatcher\<close>

text \<open>
  The type switch of \<open>Evaluate\<close>. Literals are evaluated in place
  (\<open>nativeBoolToBooleanObject\<close> gives the object True or False); a nil node and a node
  of an unlisted type reach the \<open>panic\<close> after the switch.
\<close>

definition dispatch ::
  "'w externals \<Rightarrow> nat \<Rightarrow> 'w eval \<Rightarrow> Evaluator \<Rightarrow> node \<Rightarrow> scope_id \<Rightarrow> 'w state \<Rightarrow> 'w result" where
  "dispatch X k ev e n s st =
     (case n of
        ANone \<Rightarrow> Panic ''unknown ast node type: <nil>''
      | ANil \<Rightarrow> Ret (ONil, st)
      | AInt v \<Rightarrow> Ret (OInt v, st)
      | AFloat v \<Rightarrow> Ret (OFloat v, st)
      | ABool b \<Rightarrow> Ret (OBool b, st)
      | AString v template exprs \<Rightarrow> evalStringLiteral X ev v template exprs s st
      | AIdent name \<Rightarrow> x_eval X ev e n s st
      | AVar name expr \<Rightarrow> x_eval X ev e n s st
      | AMultiVar names expr \<Rightarrow> x_eval X ev e n s st
      | AIf cond conseq alt \<Rightarrow> evalIf X ev e cond conseq alt s st
      | AFor init cond conseq post isSimple isIterator \<Rightarrow>
          evalFor X k ev e init cond conseq post isSimple isIterator s st
      | ASwitch subject choices \<Rightarrow> evalSwitch X ev e subject choices s st
      | APipe exprs \<Rightarrow> evalPipe X ev e exprs s st
      | AControl literal nodeVal \<Rightarrow> evalControl ev e literal nodeVal s st
      | ARange container \<Rightarrow> evalRange X ev e container s st
      | ACall fnode arguments \<Rightarrow> x_eval X ev e n s st
      | AObjectCall onode cnode \<Rightarrow> x_eval X ev e n s st
      | ABlock statements \<Rightarrow> x_evalBlockStatement X ev e n s st
      | AOther kind literal children \<Rightarrow> x_eval X ev e n s st
      | AUnknown t \<Rightarrow> Panic (''unknown ast node type: '' @ t))"

text \<open>
  \<open>Evaluate\<close>: the check of the cancellation token, the tracking of a statement, the
  dispatch. (\<open>object.WithCallFunc\<close> hands the evaluator to the builtins through the
  context; in the model the external methods get \<open>ev\<close> and \<open>e\<close> as arguments.) One
  unit of fuel is one nested call of \<open>Evaluate\<close>; a loop started at fuel \<open>n\<close> may run
  \<open>n\<close> iterations.
\<close>

definition Evaluate_body ::
  "'w externals \<Rightarrow> nat \<Rightarrow> 'w eval \<Rightarrow> Evaluator \<Rightarrow> node \<Rightarrow> scope_id \<Rightarrow> 'w state \<Rightarrow> 'w result" where
  "Evaluate_body X k ev e n s st =
     (case ctx_err st of
        Some cause \<Rightarrow> Ret (OError cause, st)
      | None \<Rightarrow>
          dispatch X k ev e n s
            (if n \<noteq> ANone \<and> x_isStatement X n then trackExecution X e n s st else st))"

primrec Evaluate :: "'w externals \<Rightarrow> nat \<Rightarrow> 'w eval" where
  "Evaluate X 0 = (\<lambda>e n s st. OutOfFuel)"
| "Evaluate X (Suc k) = Evaluate_body X k (Evaluate X k)"

section \<open>Complete passes of a loop\<close>

text \<open>
  The claims speak of what happens in the N-th iteration of a loop, or "if no candidate
  matches". The definitions of this section say when a loop gets that far. They are
  not part of the program: \<open>passes j pass x\<close> follows \<open>j\<close> complete passes from the
  loop-carried variables \<open>x\<close>, and is \<open>None\<close> when one of them does not end with the
  loop going on.
\<close>

primrec passes :: "nat \<Rightarrow> ('a \<Rightarrow> 'a option) \<Rightarrow> 'a \<Rightarrow> 'a option" where
  "passes 0 pass x = Some x"
| "passes (Suc j) pass x = (case pass x of None \<Rightarrow> None | Some y \<Rightarrow> passes j pass y)"

text \<open>
  A complete pass of the simple loop: the loop scope is cleared, and the body yields a
  \<open>continue\<close> (which leaves \<open>latestValue\<close>) or an ordinary value (the new
  \<open>latestValue\<close>).
\<close>

definition simple_pass ::
  "'w eval \<Rightarrow> Evaluator \<Rightarrow> node \<Rightarrow> scope_id \<Rightarrow> obj \<times> 'w state \<Rightarrow> (obj \<times> 'w state) option" where
  "simple_pass ev e conseq s x =
     (case ev e conseq s (Clear s (snd x)) of
        Ret (result, st2) \<Rightarrow>
          (case result of
             OError m \<Rightarrow> None
           | OBreak \<Rightarrow> None
           | OReturn v \<Rightarrow> None
           | OContinue \<Rightarrow> Some (fst x, st2)
           | other \<Rightarrow> Some (result, st2))
      | other \<Rightarrow> None)"

text \<open>
  A complete pass of the condition loop: the loop scope is cleared, the condition is
  evaluated in the for scope and is truthy, the body is evaluated in the loop scope
  and yields a \<open>continue\<close> or an ordinary value, and the post statement (if there is
  one) is evaluated in the for scope without an error.
\<close>

definition cond_pass ::
  "'w externals \<Rightarrow> 'w eval \<Rightarrow> Evaluator \<Rightarrow> node \<Rightarrow> node \<Rightarrow> node \<Rightarrow> scope_id \<Rightarrow> scope_id
     \<Rightarrow> obj \<times> 'w state \<Rightarrow> (obj \<times> 'w state) option" where
  "cond_pass X ev e cond conseq post forScope loopScope x =
     (case ev e cond forScope (Clear loopScope (snd x)) of
        Ret (condition, st2) \<Rightarrow>
          if IsError condition \<or> condition = NoObject \<or> \<not> x_IsTruthy X condition then None
          else
            (case ev e conseq loopScope st2 of
               Ret (rt, st3) \<Rightarrow>
                 if IsError rt \<or> rt = OBreak \<or> Keyword rt = ''return'' then None
                 else
                   (let latestValue' = (if rt = OContinue then fst x else rt) in
                    if post = ANone then Some (latestValue', st3)
                    else
                      (case ev e post forScope st3 of
                         Ret (res, st4) \<Rightarrow>
                           if IsError res then None else Some (latestValue', st4)
                       | other \<Rightarrow> None))
             | other \<Rightarrow> None)
      | other \<Rightarrow> None)"

text \<open>
  A complete pass of the iterator loop: the loop scope is cleared, the iterator has a
  next entry, the bound names are declared, and the body yields a \<open>continue\<close> or an
  ordinary value.
\<close>

definition iter_pass ::
  "'w externals \<Rightarrow> 'w eval \<Rightarrow> Evaluator \<Rightarrow> string list \<Rightarrow> node \<Rightarrow> scope_id \<Rightarrow> obj
     \<Rightarrow> obj \<times> 'w state \<Rightarrow> (obj \<times> 'w state) option" where
  "iter_pass X ev e names conseq s iterator x =
     (case x_Next X iterator (Clear s (snd x)) of
        (None, st2) \<Rightarrow> None
      | (Some (key, val), st2) \<Rightarrow>
          (case Declare s (names ! 0) key False st2 of
             Inl err \<Rightarrow> None
           | Inr st3 \<Rightarrow>
               (case (if length names > 1 then Declare s (names ! 1) val False st3
                      else Inr st3) of
                  Inl err \<Rightarrow> None
                | Inr st4 \<Rightarrow>
                    (case ev e conseq s st4 of
                       Ret (rt, st5) \<Rightarrow>
                         if IsError rt \<or> rt = OBreak \<or> Keyword rt = ''return'' then None
                         else Some (if rt = OContinue then fst x else rt, st5)
                     | other \<Rightarrow> None))))"

text \<open>
  The candidates of a switch in the order of the text: the expressions of the
  non-default choices, left to right and top to bottom, each with the block of its
  choice. \<open>misses\<close> evaluates candidates one after the other from a state, and gives
  the state after them when each has a value that is no error and is not equal to the
  subject \<open>v\<close>.
\<close>

definition candidates :: "choice list \<Rightarrow> (node \<times> node) list" where
  "candidates choices =
     concat (map (\<lambda>opt. map (\<lambda>val. (val, Block opt)) (Expressions opt))
                 (filter (\<lambda>opt. \<not> IsDefault opt) choices))"

primrec misses ::
  "'w externals \<Rightarrow> 'w eval \<Rightarrow> Evaluator \<Rightarrow> obj \<Rightarrow> scope_id \<Rightarrow> (node \<times> node) list \<Rightarrow> 'w state
     \<Rightarrow> 'w state option" where
  "misses X ev e v s [] st = Some st"
| "misses X ev e v s (c # cs) st =
     (case ev e (fst c) s st of
        Ret (out, st1) \<Rightarrow>
          if IsError out \<or> x_Equals X v out then None else misses X ev e v s cs st1
      | other \<Rightarrow> None)"

text \<open>The block of the first default choice, \<open>ANone\<close> when there is none.\<close>

definition default_block :: "choice list \<Rightarrow> node" where
  "default_block choices =
     (case filter IsDefault choices of [] \<Rightarrow> ANone | opt # opts \<Rightarrow> Block opt)"

text \<open>
  The two nested loops of \<open>evalSwitch\<close> as one loop over the candidates (the lemma
  \<open>switch_choices_scan\<close> below says that they are the same).
\<close>

primrec scan ::
  "'w externals \<Rightarrow> 'w eval \<Rightarrow> Evaluator \<Rightarrow> obj \<Rightarrow> scope_id \<Rightarrow> (node \<times> node) list \<Rightarrow> 'w state
     \<Rightarrow> ((obj, unit) flow \<times> 'w state) outcome" where
  "scan X ev e v s [] st = Ret (Proceed (), st)"
| "scan X ev e v s (c # cs) st =
     bind (ev e (fst c) s st) (\<lambda>(out, st1).
       if IsError out then Ret (Returned out, st1)
       else if x_Equals X v out then
         bind (x_evalBlockStatement X ev e (snd c) s st1) (\<lambda>(res, st2). Ret (Returned res, st2))
       else scan X ev e v s cs st1)"

text \<open>
  The stages \<open>pre\<close> of a pipe, from index \<open>i\<close> and the piped value \<open>nextArg\<close>:
  the piped value and the state after them, when each stage goes on to the next.
\<close>

primrec stages_run ::
  "'w externals \<Rightarrow> 'w eval \<Rightarrow> Evaluator \<Rightarrow> node list \<Rightarrow> nat \<Rightarrow> scope_id \<Rightarrow> obj \<Rightarrow> 'w state
     \<Rightarrow> (obj \<times> 'w state) option" where
  "stages_run X ev e [] i s nextArg st = Some (nextArg, st)"
| "stages_run X ev e (expr # rest) i s nextArg st =
     (case pipe_stage X ev e i expr s nextArg st of
        Ret (Proceed next, st1) \<Rightarrow> stages_run X ev e rest (i + 1) s next st1
      | other \<Rightarrow> None)"

text \<open>
  The piped value and the state with which the stage after the stages \<open>pre\<close> of the
  pipe \<open>src |> pre |> ...\<close> is entered: the source has a value that is no error, and
  each stage of \<open>pre\<close> goes on to the next.
\<close>

definition pipe_reaches ::
  "'w externals \<Rightarrow> 'w eval \<Rightarrow> Evaluator \<Rightarrow> node \<Rightarrow> node list \<Rightarrow> scope_id \<Rightarrow> 'w state
     \<Rightarrow> (obj \<times> 'w state) option" where
  "pipe_reaches X ev e src pre s st =
     (case ev e src s st of
        Ret (v0, st0) \<Rightarrow> if IsError v0 then None else stages_run X ev e pre 0 s v0 st0
      | other \<Rightarrow> None)"

text \<open>
  A bare stage is a stage that is not written as a call; a callable object is a
  function or a builtin.
\<close>

definition bare :: "node \<Rightarrow> bool" where
  "bare expr = (case expr of ACall f a \<Rightarrow> False | AObjectCall ob c \<Rightarrow> False | other \<Rightarrow> True)"

definition callable :: "obj \<Rightarrow> bool" where
  "callable ob = (case ob of OFunction f \<Rightarrow> True | OBuiltin b \<Rightarrow> True | other \<Rightarrow> False)"

text \<open>
  The two scopes that \<open>evalFor\<close> makes, and the state with them; the evaluation of
  the init statement (if there is one) in the for scope, when it gives no error.
\<close>

definition for_scopes :: "scope_id \<Rightarrow> 'w state \<Rightarrow> scope_id \<times> scope_id \<times> 'w state" where
  "for_scopes s st =
     (let (forScope, sta) = NewChild s ''for'' st;
          (loopScope, stb) = NewChild forScope ''for-loop'' sta
      in (forScope, loopScope, stb))"

definition init_run :: "'w eval \<Rightarrow> Evaluator \<Rightarrow> node \<Rightarrow> scope_id \<Rightarrow> 'w state \<Rightarrow> 'w state option" where
  "init_run ev e init forScope st =
     (if init = ANone then Some st
      else case ev e init forScope st of
             Ret (res, st1) \<Rightarrow> if IsError res then None else Some st1
           | other \<Rightarrow> None)"

text \<open>The state \<open>st\<close> with the entries of the scope \<open>s\<close> replaced by \<open>es\<close>.\<close>

definition with_entries :: "scope_id \<Rightarrow> (string \<times> obj \<times> bool) list \<Rightarrow> 'w state \<Rightarrow> 'w state" where
  "with_entries s es st =
     (if s < length (scopes st)
      then st\<lparr>scopes := (scopes st)[s := (scopes st ! s)\<lparr>sc_entries := es\<rparr>]\<rparr>
      else st)"

text \<open>
  String templates in the words of the spec: every fragment contributes one piece of
  text, in the order of the fragments. A literal fragment contributes its text. A
  variable fragment takes the next expression slot: an absent slot contributes the
  empty text; otherwise the expression is evaluated, an error aborts the literal with
  that error, a string contributes its raw text, and any other value its
  representation (\<open>Inspect\<close>).
\<close>

definition add_piece ::
  "string \<Rightarrow> ((obj, string list) flow \<times> 'w state) outcome
     \<Rightarrow> ((obj, string list) flow \<times> 'w state) outcome" where
  "add_piece piece m =
     bind m (\<lambda>(r, st).
       case r of
         Returned err \<Rightarrow> Ret (Returned err, st)
       | Proceed pieces \<Rightarrow> Ret (Proceed (piece # pieces), st))"

primrec contributions ::
  "'w externals \<Rightarrow> 'w eval \<Rightarrow> node list \<Rightarrow> fragment list \<Rightarrow> nat \<Rightarrow> scope_id \<Rightarrow> 'w state
     \<Rightarrow> ((obj, string list) flow \<times> 'w state) outcome" where
  "contributions X ev exprs [] k s st = Ret (Proceed [], st)"
| "contributions X ev exprs (f # fs) k s st =
     (if \<not> IsVariable f then add_piece (FragValue f) (contributions X ev exprs fs k s st)
      else if exprs ! k = ANone then add_piece [] (contributions X ev exprs fs (k + 1) s st)
      else
        (let (e', st1) = New X Opts_zero st in
         bind (ev e' (exprs ! k) s st1) (\<lambda>(ob, st2).
           if IsError ob then Ret (Returned ob, st2)
           else case ob of
             OString v \<Rightarrow> add_piece v (contributions X ev exprs fs (k + 1) s st2)
           | other \<Rightarrow>
               bind (Inspect X ob) (\<lambda>shown.
                 add_piece shown (contributions X ev exprs fs (k + 1) s st2)))))"

section \<open>Concrete inputs\<close>

text \<open>
  The examples of the claims need the code that is not in src: variables, operators,
  calls, blocks. \<open>DX\<close> is a small stand-in for it, used for the examples only. Its
  world holds a flat store of variables, the log of the calls made through
  \<open>applyFunction\<close> (callee and arguments) and \<open>evalObjectCall\<close> (object and
  arguments; no object has a method) and the number of blocks run. \<open>:=\<close> and
  \<open>=\<close> set a variable of the store; \<open>const\<close> declares a name in the scope at hand;
  an identifier is looked up from the scope at hand outward, and then in the store;
  a block runs its statements and stops at an error or a control object, as
  \<open>evalExpressions\<close> stops with the error alone at an error. The builtin at address 1
  is \<open>sub(a, b) = a - b\<close>, the one at 2 returns an error, the one at 3 returns Go's
  nil, the function at 4 doubles its argument, and the builtin at 5 cancels the context
  and returns true. The only iterator is the object at address 0, with its remaining
  entries in the world.
\<close>

record dworld =
  d_vars :: "(string \<times> obj) list"
  d_calls :: "(obj \<times> obj list) list"
  d_blocks :: nat
  d_iter :: "(obj \<times> obj) list"

definition d_set :: "string \<Rightarrow> obj \<Rightarrow> dworld state \<Rightarrow> dworld state" where
  "d_set name v st = st\<lparr>world := (world st)\<lparr>d_vars := AList.update name v (d_vars (world st))\<rparr>\<rparr>"

definition d_binary :: "string \<Rightarrow> obj \<Rightarrow> obj \<Rightarrow> obj" where
  "d_binary op l r =
     (case l of
        OInt a \<Rightarrow>
          (case r of
             OInt b \<Rightarrow>
               if op = ''+'' then OInt (a + b)
               else if op = ''-'' then OInt (a - b)
               else if op = ''*'' then OInt (a * b)
               else if op = ''<'' then OBool (sint a < sint b)
               else OError (''eval error: unknown operator: '' @ op)
           | other \<Rightarrow> OError ''type error: unsupported operand'')
      | other \<Rightarrow> OError ''type error: unsupported operand'')"

definition d_log :: "obj \<Rightarrow> obj list \<Rightarrow> dworld state \<Rightarrow> dworld state" where
  "d_log fn args st = st\<lparr>world := (world st)\<lparr>d_calls := d_calls (world st) @ [(fn, args)]\<rparr>\<rparr>"

definition d_applyFunction ::
  "dworld eval \<Rightarrow> Evaluator \<Rightarrow> scope_id \<Rightarrow> obj \<Rightarrow> obj list \<Rightarrow> dworld state \<Rightarrow> dworld result" where
  "d_applyFunction ev e s fn args st =
     (let st1 = d_log fn args st in
      if fn = OBuiltin 1 then
        (case args of
           [a, b] \<Rightarrow> Ret (d_binary ''-'' a b, st1)
         | other \<Rightarrow> Ret (OError ''type error: sub() takes exactly 2 arguments'', st1))
      else if fn = OBuiltin 2 then Ret (OError ''boom'', st1)
      else if fn = OBuiltin 3 then Ret (NoObject, st1)
      else if fn = OFunction 4 then
        (case args of
           [x] \<Rightarrow> Ret (d_binary ''*'' x (OInt 2), st1)
         | other \<Rightarrow> Ret (OError ''type error: double() takes exactly 1 argument'', st1))
      else if fn = OBuiltin 5 then Ret (OBool True, st1\<lparr>ctx_err := Some ''context canceled''\<rparr>)
      else Ret (OError ''type error: not callable'', st1))"

primrec d_expressions_loop ::
  "dworld eval \<Rightarrow> Evaluator \<Rightarrow> node list \<Rightarrow> obj list \<Rightarrow> scope_id \<Rightarrow> dworld state
     \<Rightarrow> (obj list \<times> dworld state) outcome" where
  "d_expressions_loop ev e [] acc s st = Ret (acc, st)"
| "d_expressions_loop ev e (x # xs) acc s st =
     bind (ev e x s st) (\<lambda>(v, st1).
       if IsError v then Ret ([v], st1) else d_expressions_loop ev e xs (acc @ [v]) s st1)"

definition d_evalExpressions ::
  "dworld eval \<Rightarrow> Evaluator \<Rightarrow> node list \<Rightarrow> scope_id \<Rightarrow> dworld state
     \<Rightarrow> (obj list \<times> dworld state) outcome" where
  "d_evalExpressions ev e exps s st = d_expressions_loop ev e exps [] s st"

primrec d_statements_loop ::
  "dworld eval \<Rightarrow> Evaluator \<Rightarrow> node list \<Rightarrow> obj \<Rightarrow> scope_id \<Rightarrow> dworld state \<Rightarrow> dworld result" where
  "d_statements_loop ev e [] result s st = Ret (result, st)"
| "d_statements_loop ev e (x # xs) result s st =
     bind (ev e x s st) (\<lambda>(r, st1).
       if IsError r \<or> Keyword r \<noteq> [] then Ret (r, st1)
       else d_statements_loop ev e xs r s st1)"

definition d_count :: "dworld state \<Rightarrow> dworld state" where
  "d_count st = st\<lparr>world := (world st)\<lparr>d_blocks := d_blocks (world st) + 1\<rparr>\<rparr>"

definition d_evalBlockStatement ::
  "dworld eval \<Rightarrow> Evaluator \<Rightarrow> node \<Rightarrow> scope_id \<Rightarrow> dworld state \<Rightarrow> dworld result" where
  "d_evalBlockStatement ev e n s st =
     (case n of
        ABlock statements \<Rightarrow> d_statements_loop ev e statements NoObject s (d_count st)
      | other \<Rightarrow> Panic ''not a block'')"

primrec d_lookup :: "nat \<Rightarrow> scope list \<Rightarrow> scope_id \<Rightarrow> string \<Rightarrow> obj option" where
  "d_lookup 0 scs s name = None"
| "d_lookup (Suc k) scs s name =
     (if s < length scs then
        (case map_of (sc_entries (scs ! s)) name of
           Some entry \<Rightarrow> Some (fst entry)
         | None \<Rightarrow>
             (case sc_parent (scs ! s) of
                Some parent \<Rightarrow> d_lookup k scs parent name
              | None \<Rightarrow> None))
      else None)"

definition d_eval ::
  "dworld eval \<Rightarrow> Evaluator \<Rightarrow> node \<Rightarrow> scope_id \<Rightarrow> dworld state \<Rightarrow> dworld result" where
  "d_eval ev e n s st =
     (case n of
        AIdent name \<Rightarrow>
          Ret (case d_lookup (length (scopes st)) (scopes st) s name of
                 Some v \<Rightarrow> v
               | None \<Rightarrow>
                   (case map_of (d_vars (world st)) name of
                      Some v \<Rightarrow> v
                    | None \<Rightarrow> OError (''name error: '' @ name)), st)
      | AVar name expr \<Rightarrow>
          bind (ev e expr s st) (\<lambda>(v, st1).
            if IsError v then Ret (v, st1) else Ret (ONil, d_set name v st1))
      | ACall fnode arguments \<Rightarrow>
          bind (ev e fnode s st) (\<lambda>(fn, st1).
            if IsError fn then Ret (fn, st1)
            else bind (d_evalExpressions ev e arguments s st1) (\<lambda>(args, st2).
              if length args = 1 \<and> IsError (args ! 0) then Ret (args ! 0, st2)
              else d_applyFunction ev e s fn args st2))
      | AOther kind literal children \<Rightarrow>
          (case children of
             [x] \<Rightarrow>
               bind (ev e x s st) (\<lambda>(v, st1).
                 if IsError v then Ret (v, st1)
                 else if kind = ''Assign'' then Ret (ONil, d_set literal v st1)
                 else if kind = ''Const'' then
                   (case Declare s literal v True st1 of
                      Inl err \<Rightarrow> Ret (OError err, st1)
                    | Inr st2 \<Rightarrow> Ret (ONil, st2))
                 else Ret (OError ''eval error: unsupported node'', st1))
           | [l, r] \<Rightarrow>
               bind (ev e l s st) (\<lambda>(a, st1).
                 if IsError a then Ret (a, st1)
                 else bind (ev e r s st1) (\<lambda>(b, st2).
                   if IsError b then Ret (b, st2)
                   else Ret (d_binary literal a b, st2)))
           | other \<Rightarrow> Ret (OError ''eval error: unsupported node'', st))
      | other \<Rightarrow> Ret (OError ''eval error: unsupported node'', st))"

definition d_Inspect :: "obj \<Rightarrow> string" where
  "d_Inspect ob =
     (case ob of
        OInt v \<Rightarrow> show_int (sint v)
      | OBool b \<Rightarrow> (if b then ''true'' else ''false'')
      | ONil \<Rightarrow> ''nil''
      | other \<Rightarrow> ''object'')"

definition d_Type :: "obj \<Rightarrow> string" where
  "d_Type ob =
     (case ob of
        OInt v \<Rightarrow> ''int''
      | OBool b \<Rightarrow> ''bool''
      | OString v \<Rightarrow> ''string''
      | ONil \<Rightarrow> ''nil''
      | other \<Rightarrow> ''object'')"

definition d_Next :: "obj \<Rightarrow> dworld state \<Rightarrow> (obj \<times> obj) option \<times> dworld state" where
  "d_Next iterator st =
     (case d_iter (world st) of
        [] \<Rightarrow> (None, st)
      | entry # entries \<Rightarrow> (Some entry, st\<lparr>world := (world st)\<lparr>d_iter := entries\<rparr>\<rparr>))"

definition DX :: "dworld externals" where
  "DX = \<lparr>x_IsTruthy = (\<lambda>ob. ob \<noteq> OBool False \<and> ob \<noteq> ONil),
         x_Equals = (\<lambda>a b. a = b),
         x_Type = d_Type,
         x_Inspect = d_Inspect,
         x_isIterator = (\<lambda>ob. ob = OOther ''iterator'' 0),
         x_Next = d_Next,
         x_isContainer = (\<lambda>ob. False),
         x_Iter = (\<lambda>ob st. (ob, st)),
         x_isStatement = (\<lambda>n. True),
         x_Token = (\<lambda>n. (''main.tm'', 1)),
         x_stackNew = (\<lambda>st. (0, st)),
         x_TrackStatement = (\<lambda>stk n s st. st),
         x_console = (\<lambda>e bp loc st. st),
         x_GlobalBuiltins = [],
         x_builtin = (\<lambda>b. NewBuiltin ''builtin'' b),
         x_eval = d_eval,
         x_evalBlockStatement = d_evalBlockStatement,
         x_evalExpressions = d_evalExpressions,
         x_applyFunction = d_applyFunction,
         x_evalObjectCall = (\<lambda>ev e s ob method args st.
            Ret (OError (''type error: no method '' @ method), d_log ob args st)),
         x_fmt_v = (\<lambda>n. ''0x0'')\<rparr>"

definition d_state :: "dworld state" where
  "d_state =
     \<lparr>scopes = [\<lparr>sc_name = ''global'', sc_parent = None, sc_entries = []\<rparr>],
      ctx_err = None,
      world = \<lparr>d_vars = [(''sub'', OBuiltin 1), (''error'', OBuiltin 2), (''noop'', OBuiltin 3),
                          (''double'', OFunction 4), (''cancel'', OBuiltin 5),
                          (''items'', OOther ''iterator'' 0), (''sum'', OInt 0)],
               d_calls = [], d_blocks = 0,
               d_iter = [(OInt 0, OString ''a''), (OInt 1, OString ''b'')]\<rparr>\<rparr>"

definition d_e :: Evaluator where
  "d_e = \<lparr>importer = None, builtins = [], stack = 0, breakpoints = [], bp_heap = []\<rparr>"


text \<open>The state \<open>d_state\<close> with the two scopes of a \<open>for\<close> in the scope 0.\<close>

definition d_for_state :: "dworld state" where
  "d_for_state = snd (snd (for_scopes 0 d_state))"

text \<open>The programs of the examples.\<close>

definition error_call :: node where
  "error_call = ACall (AIdent ''error'') []"

definition error_loop :: node where
  "error_loop = AFor ANone ANone (ABlock [error_call]) ANone True False"

definition sub_pipe :: node where
  "sub_pipe = APipe [AInt 5, ACall (AIdent ''sub'') [AInt 10]]"

definition noop_pipe :: node where
  "noop_pipe = APipe [ACall (AIdent ''noop'') [], ACall (AIdent ''sub'') [AInt 10]]"


definition block_A :: node where
  "block_A = ABlock [AString ''A'' None []]"

definition block_B :: node where
  "block_B = ABlock [AString ''B'' None []]"

definition two_cases :: "choice list" where
  "two_cases = [Choice False [AInt 1, AInt 2] block_A, Choice False [AInt 2] block_B]"

definition sum_cond :: node where
  "sum_cond = AOther ''Infix'' ''<'' [AIdent ''i'', AInt 3]"

definition sum_body :: node where
  "sum_body =
     ABlock [AOther ''Assign'' ''sum'' [AOther ''Infix'' ''+'' [AIdent ''sum'', AIdent ''i'']]]"

definition sum_post :: node where
  "sum_post = AVar ''i'' (AOther ''Infix'' ''+'' [AIdent ''i'', AInt 1])"

definition sum_loop :: node where
  "sum_loop = AFor (AVar ''i'' (AInt 0)) sum_cond sum_body sum_post False False"

definition x_template :: "fragment list" where
  "x_template = [Fragment False ''x='', Fragment True ''N'', Fragment False ''!'']"

definition bp1 :: Breakpoint where
  "bp1 = \<lparr>File = ''main.tm'', Line = 1, Disabled = False, Trace = True, Stop = True\<rparr>"

definition bp2 :: Breakpoint where
  "bp2 = \<lparr>File = ''main.tm'', Line = 2, Disabled = True, Trace = False, Stop = False\<rparr>"

text \<open>
  The state \<open>st\<close> after the iterator has handed out \<open>k\<close> more entries, and three
  loops whose bodies declare a name in the loop scope: \<open>for { const x = 1; sum = sum + x;
  if sum < 2 { continue } else { break } }\<close>, \<open>for k, v := range items { v }\<close> and
  \<open>for i := 0; i < 2; i := i + 1 { const x = i }\<close>.
\<close>

definition d_next :: "nat \<Rightarrow> dworld state \<Rightarrow> dworld state" where
  "d_next k st = st\<lparr>world := (world st)\<lparr>d_iter := drop k (d_iter (world st))\<rparr>\<rparr>"

definition decl_body :: node where
  "decl_body =
     ABlock [AOther ''Const'' ''x'' [AInt 1],
             AOther ''Assign'' ''sum'' [AOther ''Infix'' ''+'' [AIdent ''sum'', AIdent ''x'']],
             AIf (AOther ''Infix'' ''<'' [AIdent ''sum'', AInt 2])
               (AControl ''continue'' ANone) (AControl ''break'' ANone)]"

definition decl_loop :: node where
  "decl_loop = AFor ANone ANone decl_body ANone True False"

definition items_loop :: node where
  "items_loop = AFor ANone (AMultiVar [''k'', ''v''] (AIdent ''items'')) (ABlock [AIdent ''v''])
                  ANone False True"

definition const_loop :: node where
  "const_loop = AFor (AVar ''i'' (AInt 0)) (AOther ''Infix'' ''<'' [AIdent ''i'', AInt 2])
                  (ABlock [AOther ''Const'' ''x'' [AIdent ''i'']])
                  (AVar ''i'' (AOther ''Infix'' ''+'' [AIdent ''i'', AInt 1])) False False"

section \<open>Lemmas\<close>

lemma bind_assoc: "bind (bind m f) g = bind m (\<lambda>x. bind (f x) g)"
  by (cases m) simp_all

lemma bind_cong_Ret: "m = m' \<Longrightarrow> (\<And>x. m' = Ret x \<Longrightarrow> f x = g x) \<Longrightarrow> bind m f = bind m' g"
  by (cases m') simp_all

lemma prependObject_Cons: "prependObject xs ob = ob # xs"
  by (cases xs) (simp_all add: prependObject_def Let_def)

subsection \<open>The breakpoint table\<close>

lemma breakpoints_loop_snd:
  "snd (breakpoints_loop xs (m, h)) = (if xs = [] then h else AList.update b_var (last xs) h)"
proof (induction xs arbitrary: m h)
  case Nil
  then show ?case by simp
next
  case (Cons x xs)
  then show ?case by (cases xs) (simp_all add: Let_def)
qed

lemma breakpoints_loop_fst:
  "map_of (fst (breakpoints_loop xs (m, h))) k =
     (if k \<in> (\<lambda>x. bp_key (File x) (Line x)) ` set xs then Some b_var else map_of m k)"
  by (induction xs arbitrary: m h) (auto simp: Let_def update_conv')

lemma breakpoints_loop_nonempty:
  "xs \<noteq> [] \<Longrightarrow> fst (breakpoints_loop xs (m, h)) \<noteq> []"
  using breakpoints_loop_fst [of xs m h "bp_key (File (hd xs)) (Line (hd xs))"]
  by (cases xs) (auto split: if_splits)

lemma New_breakpoints:
  "breakpoints (fst (New X opts st)) = fst (breakpoints_loop (Breakpoints opts) ([], []))"
  "bp_heap (fst (New X opts st)) = snd (breakpoints_loop (Breakpoints opts) ([], []))"
  by (simp_all add: New_def Let_def split: prod.splits)

lemma GetBreakpoint_New:
  assumes "b \<in> set (Breakpoints opts)"
  shows "GetBreakpoint (fst (New X opts st)) (File b, Line b) = (Some b_var, True)
       \<and> deref (fst (New X opts st)) b_var = Some (last (Breakpoints opts))"
proof -
  from assms have ne: "Breakpoints opts \<noteq> []" by auto
  have "map_of (breakpoints (fst (New X opts st))) (bp_key (File b) (Line b)) = Some b_var"
    using assms by (simp add: New_breakpoints breakpoints_loop_fst)
  moreover have "breakpoints (fst (New X opts st)) \<noteq> []"
    using ne by (simp add: New_breakpoints breakpoints_loop_nonempty)
  ultimately have "GetBreakpoint (fst (New X opts st)) (File b, Line b) = (Some b_var, True)"
    by (simp add: GetBreakpoint_def)
  moreover have "deref (fst (New X opts st)) b_var = Some (last (Breakpoints opts))"
    using ne by (simp add: deref_def New_breakpoints breakpoints_loop_snd update_conv')
  ultimately show ?thesis by simp
qed

subsection \<open>Loops\<close>

lemma forLoop_simple_unroll:
  "passes j (simple_pass ev e conseq s) (lv0, st0) = Some (lv, st) \<Longrightarrow>
   forLoop_simple X (j + k) ev e conseq s lv0 st0 = forLoop_simple X k ev e conseq s lv st"
proof (induction j arbitrary: lv0 st0)
  case 0
  then show ?case by simp
next
  case (Suc j)
  from Suc.prems obtain lv1 st1 where
    p: "simple_pass ev e conseq s (lv0, st0) = Some (lv1, st1)"
    and r: "passes j (simple_pass ev e conseq s) (lv1, st1) = Some (lv, st)"
    by (auto split: option.splits)
  from p have "forLoop_simple X (Suc (j + k)) ev e conseq s lv0 st0
      = forLoop_simple X (j + k) ev e conseq s lv1 st1"
    by (auto simp: simple_pass_def Let_def split: outcome.splits obj.splits)
  with Suc.IH [OF r] show ?case by simp
qed

lemma forLoop_cond_unroll:
  "passes j (cond_pass X ev e cond conseq post fs ls) (lv0, st0) = Some (lv, st) \<Longrightarrow>
   forLoop_cond X (j + k) ev e cond conseq post fs ls lv0 st0
     = forLoop_cond X k ev e cond conseq post fs ls lv st"
proof (induction j arbitrary: lv0 st0)
  case 0
  then show ?case by simp
next
  case (Suc j)
  from Suc.prems obtain lv1 st1 where
    p: "cond_pass X ev e cond conseq post fs ls (lv0, st0) = Some (lv1, st1)"
    and r: "passes j (cond_pass X ev e cond conseq post fs ls) (lv1, st1) = Some (lv, st)"
    by (auto split: option.splits)
  from p have "forLoop_cond X (Suc (j + k)) ev e cond conseq post fs ls lv0 st0
      = forLoop_cond X (j + k) ev e cond conseq post fs ls lv1 st1"
    by (auto simp: cond_pass_def Let_def IsTruthy_def split: outcome.splits obj.splits if_splits)
  with Suc.IH [OF r] show ?case by simp
qed

lemma forLoop_iter_unroll:
  "passes j (iter_pass X ev e names conseq s it) (lv0, st0) = Some (lv, st) \<Longrightarrow>
   forLoop_iter X (j + k) ev e names conseq s it lv0 st0
     = forLoop_iter X k ev e names conseq s it lv st"
proof (induction j arbitrary: lv0 st0)
  case 0
  then show ?case by simp
next
  case (Suc j)
  from Suc.prems obtain lv1 st1 where
    p: "iter_pass X ev e names conseq s it (lv0, st0) = Some (lv1, st1)"
    and r: "passes j (iter_pass X ev e names conseq s it) (lv1, st1) = Some (lv, st)"
    by (auto split: option.splits)
  from p have "forLoop_iter X (Suc (j + k)) ev e names conseq s it lv0 st0
      = forLoop_iter X (j + k) ev e names conseq s it lv1 st1"
    by (auto simp: iter_pass_def Let_def
          split: outcome.splits obj.splits if_splits prod.splits option.splits sum.splits)
  with Suc.IH [OF r] show ?case by simp
qed

lemma forLoop_simple_error:
  assumes "passes j (simple_pass ev e conseq s) (lv0, st0) = Some (lv, st)"
    and "ev e conseq s (Clear s st) = Ret (OError m, st')"
  shows "forLoop_simple X (j + Suc k) ev e conseq s lv0 st0 = Ret (OError m, st')"
  by (subst forLoop_simple_unroll [OF assms(1)]) (use assms(2) in \<open>simp add: Let_def\<close>)

lemma forLoop_cond_cond_error:
  assumes "passes j (cond_pass X ev e cond conseq post fs ls) (lv0, st0) = Some (lv, st)"
    and "ev e cond fs (Clear ls st) = Ret (OError m, st')"
  shows "forLoop_cond X (j + Suc k) ev e cond conseq post fs ls lv0 st0 = Ret (OError m, st')"
  by (subst forLoop_cond_unroll [OF assms(1)]) (use assms(2) in \<open>simp add: Let_def\<close>)

lemma forLoop_cond_body_error:
  assumes "passes j (cond_pass X ev e cond conseq post fs ls) (lv0, st0) = Some (lv, st)"
    and "ev e cond fs (Clear ls st) = Ret (c, st1)" and "\<not> IsError c" and "c \<noteq> NoObject"
    and "x_IsTruthy X c" and "ev e conseq ls st1 = Ret (OError m, st')"
  shows "forLoop_cond X (j + Suc k) ev e cond conseq post fs ls lv0 st0 = Ret (OError m, st')"
  by (subst forLoop_cond_unroll [OF assms(1)]) (use assms(2-) in \<open>simp add: Let_def IsTruthy_def\<close>)

lemma forLoop_cond_post_error:
  assumes "passes j (cond_pass X ev e cond conseq post fs ls) (lv0, st0) = Some (lv, st)"
    and "ev e cond fs (Clear ls st) = Ret (c, st1)" and "\<not> IsError c" and "c \<noteq> NoObject"
    and "x_IsTruthy X c" and "ev e conseq ls st1 = Ret (rt, st2)"
    and "\<not> IsError rt" and "rt \<noteq> OBreak" and "Keyword rt \<noteq> ''return''"
    and "post \<noteq> ANone" and "ev e post fs st2 = Ret (OError m, st')"
  shows "forLoop_cond X (j + Suc k) ev e cond conseq post fs ls lv0 st0 = Ret (OError m, st')"
  by (subst forLoop_cond_unroll [OF assms(1)]) (use assms(2-) in \<open>cases rt; simp add: Let_def IsTruthy_def\<close>)

lemma forLoop_cond_falsy:
  assumes "passes j (cond_pass X ev e cond conseq post fs ls) (lv0, st0) = Some (lv, st)"
    and "ev e cond fs (Clear ls st) = Ret (c, st')" and "\<not> IsError c" and "c \<noteq> NoObject"
    and "\<not> x_IsTruthy X c"
  shows "forLoop_cond X (j + Suc k) ev e cond conseq post fs ls lv0 st0 = Ret (lv, st')"
  by (subst forLoop_cond_unroll [OF assms(1)]) (use assms(2-) in \<open>simp add: Let_def IsTruthy_def\<close>)

lemma forLoop_cond_break:
  assumes "passes j (cond_pass X ev e cond conseq post fs ls) (lv0, st0) = Some (lv, st)"
    and "ev e cond fs (Clear ls st) = Ret (c, st1)" and "\<not> IsError c" and "c \<noteq> NoObject"
    and "x_IsTruthy X c" and "ev e conseq ls st1 = Ret (OBreak, st')"
  shows "forLoop_cond X (j + Suc k) ev e cond conseq post fs ls lv0 st0 = Ret (lv, st')"
  by (subst forLoop_cond_unroll [OF assms(1)]) (use assms(2-) in \<open>simp add: Let_def IsTruthy_def\<close>)

lemma forLoop_iter_error:
  assumes "passes j (iter_pass X ev e names conseq s it) (lv0, st0) = Some (lv, st)"
    and "x_Next X it (Clear s st) = (Some (key, val), st1)"
    and "Declare s (names ! 0) key False st1 = Inr st2"
    and "(if length names > 1 then Declare s (names ! 1) val False st2 else Inr st2) = Inr st3"
    and "ev e conseq s st3 = Ret (OError m, st')"
  shows "forLoop_iter X (j + Suc k) ev e names conseq s it lv0 st0 = Ret (OError m, st')"
  by (subst forLoop_iter_unroll [OF assms(1)]) (use assms(2-) in \<open>simp add: Let_def\<close>)

lemma evalFor_unfold:
  assumes "for_scopes s st = (fsc, lsc, stb)"
  shows "evalFor X k ev e init cond conseq post isSimple isIterator s st =
     bind (if init \<noteq> ANone
           then bind (ev e init fsc stb) (\<lambda>(res, st1).
                  if IsError res then Ret (Returned res, st1) else Ret (Proceed (), st1))
           else Ret (Proceed (), stb)) (\<lambda>(r, st1).
       case r of
         Returned res \<Rightarrow> Ret (res, st1)
       | Proceed u \<Rightarrow>
           if isSimple then evalSimpleForLoop X k ev e conseq lsc st1
           else if isIterator then evalIteratorForLoop X k ev e cond conseq lsc st1
           else forLoop_cond X k ev e cond conseq post fsc lsc ONil st1)"
  using assms by (simp add: evalFor_def for_scopes_def Let_def split: prod.splits)

lemma evalFor_init_error:
  assumes "for_scopes s st = (fsc, lsc, stb)" and "init \<noteq> ANone"
    and "ev e init fsc stb = Ret (OError m, st')"
  shows "evalFor X k ev e init cond conseq post isSimple isIterator s st = Ret (OError m, st')"
  using assms(2-) by (simp add: evalFor_unfold [OF assms(1)])

lemma evalFor_after_init:
  assumes "for_scopes s st = (fsc, lsc, stb)" and "init_run ev e init fsc stb = Some st0"
  shows "evalFor X k ev e init cond conseq post isSimple isIterator s st =
     (if isSimple then evalSimpleForLoop X k ev e conseq lsc st0
      else if isIterator then evalIteratorForLoop X k ev e cond conseq lsc st0
      else forLoop_cond X k ev e cond conseq post fsc lsc ONil st0)"
  using assms(2)
  by (auto simp: evalFor_unfold [OF assms(1)] init_run_def split: if_splits outcome.splits)


lemma simple_pass_value:
  assumes "ev e conseq s (Clear s st) = Ret (r, st')"
    and "\<not> IsError r" and "r \<noteq> OBreak" and "Keyword r \<noteq> ''return''"
  shows "simple_pass ev e conseq s (lv, st) = Some (if r = OContinue then lv else r, st')"
  using assms by (cases r) (simp_all add: simple_pass_def)

lemma iter_pass_value:
  assumes "x_Next X it (Clear s st) = (Some (key, val), st1)"
    and "Declare s (names ! 0) key False st1 = Inr st2"
    and "(if length names > 1 then Declare s (names ! 1) val False st2 else Inr st2) = Inr st3"
    and "ev e conseq s st3 = Ret (r, st')"
    and "\<not> IsError r" and "r \<noteq> OBreak" and "Keyword r \<noteq> ''return''"
  shows "iter_pass X ev e names conseq s it (lv, st) = Some (if r = OContinue then lv else r, st')"
  using assms by (simp add: iter_pass_def)

lemma cond_pass_value:
  assumes "ev e cond fs (Clear ls st) = Ret (c, st1)" and "\<not> IsError c" and "c \<noteq> NoObject"
    and "x_IsTruthy X c" and "ev e conseq ls st1 = Ret (r, st2)"
    and "\<not> IsError r" and "r \<noteq> OBreak" and "Keyword r \<noteq> ''return''"
    and "post = ANone \<and> st' = st2
         \<or> post \<noteq> ANone \<and> (\<exists>res. ev e post fs st2 = Ret (res, st') \<and> \<not> IsError res)"
  shows "cond_pass X ev e cond conseq post fs ls (lv, st) = Some (if r = OContinue then lv else r, st')"
  using assms by (auto simp: cond_pass_def Let_def)

lemma passes_Suc_end:
  "passes j pass x = Some y \<Longrightarrow> pass y = Some z \<Longrightarrow> passes (Suc j) pass x = Some z"
proof (induction j arbitrary: x)
  case 0
  then show ?case by simp
next
  case (Suc j)
  from Suc.prems(1) obtain x1 where a: "pass x = Some x1" and b: "passes j pass x1 = Some y"
    by (auto split: option.splits)
  have "passes (Suc (Suc j)) pass x = passes (Suc j) pass x1" using a by simp
  with Suc.IH [OF b Suc.prems(2)] show ?case by (simp only:)
qed

lemma forLoop_simple_next:
  assumes "passes j (simple_pass ev e conseq s) (lv0, st0) = Some (lv, st)"
    and "simple_pass ev e conseq s (lv, st) = Some (lv', st')"
  shows "forLoop_simple X (j + Suc k) ev e conseq s lv0 st0 = forLoop_simple X k ev e conseq s lv' st'"
  using forLoop_simple_unroll [OF passes_Suc_end [OF assms], of X k] by simp

lemma forLoop_iter_next:
  assumes "passes j (iter_pass X ev e names conseq s it) (lv0, st0) = Some (lv, st)"
    and "iter_pass X ev e names conseq s it (lv, st) = Some (lv', st')"
  shows "forLoop_iter X (j + Suc k) ev e names conseq s it lv0 st0
     = forLoop_iter X k ev e names conseq s it lv' st'"
  using forLoop_iter_unroll [OF passes_Suc_end [OF assms], of k] by simp

lemma forLoop_cond_next:
  assumes "passes j (cond_pass X ev e cond conseq post fs ls) (lv0, st0) = Some (lv, st)"
    and "cond_pass X ev e cond conseq post fs ls (lv, st) = Some (lv', st')"
  shows "forLoop_cond X (j + Suc k) ev e cond conseq post fs ls lv0 st0
     = forLoop_cond X k ev e cond conseq post fs ls lv' st'"
  using forLoop_cond_unroll [OF passes_Suc_end [OF assms], of k] by simp

lemma forLoop_simple_break:
  assumes "passes j (simple_pass ev e conseq s) (lv0, st0) = Some (lv, st)"
    and "ev e conseq s (Clear s st) = Ret (OBreak, st')"
  shows "forLoop_simple X (j + Suc k) ev e conseq s lv0 st0 = Ret (lv, st')"
  by (subst forLoop_simple_unroll [OF assms(1)]) (use assms(2) in \<open>simp add: Let_def\<close>)

lemma forLoop_iter_exhausted:
  assumes "passes j (iter_pass X ev e names conseq s it) (lv0, st0) = Some (lv, st)"
    and "x_Next X it (Clear s st) = (None, st')"
  shows "forLoop_iter X (j + Suc k) ev e names conseq s it lv0 st0 = Ret (lv, st')"
  by (subst forLoop_iter_unroll [OF assms(1)]) (use assms(2) in \<open>simp add: Let_def\<close>)

lemma evalIteratorForLoop_header:
  assumes "cond = AVar name iterExpr \<and> names = [name]
           \<or> cond = AMultiVar names iterExpr \<and> 1 \<le> length names \<and> length names \<le> 2"
    and "ev e iterExpr s st = Ret (it, st1)" and "\<not> IsError it" and "it \<noteq> NoObject"
    and "x_isIterator X it"
  shows "evalIteratorForLoop X k ev e cond conseq s st = forLoop_iter X k ev e names conseq s it ONil st1"
  using assms by (auto simp: evalIteratorForLoop_def)

subsection \<open>Switch\<close>

lemma misses_append:
  "misses X ev e v s (xs @ ys) st =
     (case misses X ev e v s xs st of None \<Rightarrow> None | Some st1 \<Rightarrow> misses X ev e v s ys st1)"
  by (induction xs arbitrary: st) (auto split: outcome.splits)

lemma scan_append:
  "scan X ev e v s (xs @ ys) st =
     bind (scan X ev e v s xs st) (\<lambda>(r, st1).
        case r of Returned res \<Rightarrow> Ret (Returned res, st1) | Proceed u \<Rightarrow> scan X ev e v s ys st1)"
proof (induction xs arbitrary: st)
  case Nil
  then show ?case by simp
next
  case (Cons c cs)
  show ?case
  proof (cases "ev e (fst c) s st")
    case (Ret p)
    then show ?thesis using Cons.IH
      by (cases p; cases "x_evalBlockStatement X ev e (snd c) s (snd p)") auto
  qed simp_all
qed

lemma switch_expressions_scan:
  "switch_expressions X ev e v blk vals s st = scan X ev e v s (map (\<lambda>val. (val, blk)) vals) st"
  by (induction vals arbitrary: st) (auto intro!: arg_cong2 [where f = bind])

lemma candidates_Cons:
  "candidates (opt # opts) =
     (if IsDefault opt then [] else map (\<lambda>val. (val, Block opt)) (Expressions opt))
     @ candidates opts"
  by (simp add: candidates_def)

lemma switch_choices_scan:
  "switch_choices X ev e v choices s st = scan X ev e v s (candidates choices) st"
proof (induction choices arbitrary: st)
  case Nil
  then show ?case by (simp add: candidates_def)
next
  case (Cons opt opts)
  show ?case
  proof (cases "IsDefault opt")
    case True
    then show ?thesis using Cons.IH by (simp add: candidates_Cons)
  next
    case False
    have "switch_choices X ev e v (opt # opts) s st =
       bind (scan X ev e v s (map (\<lambda>val. (val, Block opt)) (Expressions opt)) st) (\<lambda>(r, st1).
         case r of Returned res \<Rightarrow> Ret (Returned res, st1)
         | Proceed u \<Rightarrow> scan X ev e v s (candidates opts) st1)"
      using False by (simp add: switch_expressions_scan Cons.IH cong: flow.case_cong)
    then show ?thesis using False by (simp add: candidates_Cons scan_append)
  qed
qed

lemma scan_misses:
  "misses X ev e v s cs st = Some st' \<Longrightarrow> scan X ev e v s cs st = Ret (Proceed (), st')"
  by (induction cs arbitrary: st) (auto split: outcome.splits if_splits)

lemma scan_hit:
  assumes "misses X ev e v s pre st = Some st1"
    and "ev e c s st1 = Ret (out, st2)" and "\<not> IsError out" and "x_Equals X v out"
  shows "scan X ev e v s (pre @ (c, blk) # post) st =
     bind (x_evalBlockStatement X ev e blk s st2) (\<lambda>(res, st3). Ret (Returned res, st3))"
  using assms by (simp add: scan_append scan_misses)

lemma scan_error:
  assumes "misses X ev e v s pre st = Some st1"
    and "ev e c s st1 = Ret (OError m, st2)"
  shows "scan X ev e v s (pre @ (c, blk) # post) st = Ret (Returned (OError m), st2)"
  using assms by (simp add: scan_append scan_misses)

lemma switch_default_block:
  "switch_default X ev e choices s st =
     (if filter IsDefault choices = [] then Ret (ONil, st)
      else x_evalBlockStatement X ev e (default_block choices) s st)"
  by (induction choices) (auto simp: default_block_def)

lemma bind_Returned:
  "bind (bind m (\<lambda>(res, st3). Ret (Returned res, st3)))
        (\<lambda>(r, st2). case r of Returned res \<Rightarrow> Ret (res, st2) | Proceed u \<Rightarrow> g st2) = m"
  by (cases m) auto

lemma evalSwitch_hit:
  assumes "ev e subject s st = Ret (v, st0)" and "\<not> IsError v"
    and "candidates choices = pre @ (c, blk) # post"
    and "misses X ev e v s pre st0 = Some st1"
    and "ev e c s st1 = Ret (out, st2)" and "\<not> IsError out" and "x_Equals X v out"
  shows "evalSwitch X ev e subject choices s st = x_evalBlockStatement X ev e blk s st2"
  using assms scan_hit [OF assms(4-7), of blk post]
  by (simp add: evalSwitch_def switch_choices_scan bind_Returned)

lemma evalSwitch_error:
  assumes "ev e subject s st = Ret (v, st0)" and "\<not> IsError v"
    and "candidates choices = pre @ (c, blk) # post"
    and "misses X ev e v s pre st0 = Some st1"
    and "ev e c s st1 = Ret (OError m, st2)"
  shows "evalSwitch X ev e subject choices s st = Ret (OError m, st2)"
  using assms scan_error [OF assms(4-5), of blk post]
  by (simp add: evalSwitch_def switch_choices_scan)

lemma evalSwitch_miss:
  assumes "ev e subject s st = Ret (v, st0)" and "\<not> IsError v"
    and "misses X ev e v s (candidates choices) st0 = Some st1"
  shows "evalSwitch X ev e subject choices s st =
     (if filter IsDefault choices = [] then Ret (ONil, st1)
      else x_evalBlockStatement X ev e (default_block choices) s st1)"
  using assms scan_misses [OF assms(3)]
  by (simp add: evalSwitch_def switch_choices_scan switch_default_block)

subsection \<open>Pipe\<close>

lemma pipe_stages_append:
  "stages_run X ev e pre i s nextArg st = Some (next, st') \<Longrightarrow>
   pipe_stages X ev e (pre @ rest) i s nextArg st
     = pipe_stages X ev e rest (i + length pre) s next st'"
proof (induction pre arbitrary: i nextArg st)
  case Nil
  then show ?case by simp
next
  case (Cons x xs)
  from Cons.prems obtain n1 st1 where
    a: "pipe_stage X ev e i x s nextArg st = Ret (Proceed n1, st1)"
    and b: "stages_run X ev e xs (i + 1) s n1 st1 = Some (next, st')"
    by (auto split: outcome.splits flow.splits prod.splits)
  show ?case using a Cons.IH [OF b] by simp
qed

lemma evalPipe_at_stage:
  assumes "pipe_reaches X ev e src pre s st = Some (nextArg, st1)"
  shows "evalPipe X ev e (src # pre @ expr # rest) s st =
     bind (pipe_stage X ev e (length pre) expr s nextArg st1) (\<lambda>(r, st2).
       case r of
         Returned res \<Rightarrow> Ret (res, st2)
       | Proceed next \<Rightarrow> pipe_stages X ev e rest (length pre + 1) s next st2)"
proof -
  from assms obtain v0 st0 where
    a: "ev e src s st = Ret (v0, st0)" and b: "\<not> IsError v0"
    and c: "stages_run X ev e pre 0 s v0 st0 = Some (nextArg, st1)"
    by (auto simp: pipe_reaches_def split: outcome.splits if_splits)
  show ?thesis using a b pipe_stages_append [OF c, of "expr # rest"]
    by (simp add: evalPipe_def)
qed

lemma evalPipe_stage_returns:
  assumes "pipe_reaches X ev e src pre s st = Some (nextArg, st1)"
    and "pipe_stage X ev e (length pre) expr s nextArg st1 = Ret (Returned res, st')"
  shows "evalPipe X ev e (src # pre @ expr # rest) s st = Ret (res, st')"
  using assms(2) by (simp add: evalPipe_at_stage [OF assms(1)])

lemma pipe_arguments_ok:
  assumes "arguments \<noteq> []" and "x_evalExpressions X ev e arguments s st = Ret (vs, st1)"
    and "\<not> (length vs = 1 \<and> IsError (vs ! 0))"
  shows "pipe_arguments X ev e arguments s st = Ret (Proceed vs, st1)"
  using assms by (auto simp: pipe_arguments_def)

lemma pipe_arguments_none: "pipe_arguments X ev e [] s st = Ret (Proceed [], st)"
  by (simp add: pipe_arguments_def)

lemma pipe_arguments_error:
  assumes "arguments \<noteq> []" and "x_evalExpressions X ev e arguments s st = Ret ([OError m], st1)"
  shows "pipe_arguments X ev e arguments s st = Ret (Returned (OError m), st1)"
  using assms by (auto simp: pipe_arguments_def)

lemma pipe_stage_call:
  assumes "ev e fnode s st = Ret (f, st1)" and "\<not> IsError f"
    and "pipe_arguments X ev e arguments s st1 = Ret (Proceed vs, st2)"
  shows "pipe_stage X ev e i (ACall fnode arguments) s nextArg st =
     bind (x_applyFunction X ev e s f (if nextArg \<noteq> NoObject then nextArg # vs else vs) st2)
       (\<lambda>(res, st3). if IsError res then Ret (Returned res, st3) else Ret (Proceed res, st3))"
  using assms by (simp add: pipe_stage_def prependObject_Cons)

lemma pipe_stage_objectcall:
  assumes "ev e onode s st = Ret (ob, st1)" and "\<not> IsError ob"
    and "pipe_arguments X ev e arguments s st1 = Ret (Proceed vs, st2)"
  shows "pipe_stage X ev e i (AObjectCall onode (ACall (AIdent method) arguments)) s nextArg st =
     bind (x_evalObjectCall X ev e s ob method
             (if nextArg \<noteq> NoObject then nextArg # vs else vs) st2)
       (\<lambda>(res, st3). if IsError res then Ret (Returned res, st3) else Ret (Proceed res, st3))"
  using assms by (simp add: pipe_stage_def prependObject_Cons)

lemma pipe_stage_bare:
  assumes "bare expr" and "ev e expr s st = Ret (ob, st1)"
  shows "pipe_stage X ev e i expr s nextArg st =
     (if IsError ob then Ret (Returned ob, st1)
      else if callable ob then
        bind (x_applyFunction X ev e s ob (if nextArg \<noteq> NoObject then [nextArg] else []) st1)
          (\<lambda>(res, st2). if IsError res then Ret (Returned res, st2) else Ret (Proceed res, st2))
      else if i = 0 then Ret (Proceed ob, st1)
      else bind (TypeOf X ob) (\<lambda>t.
              Ret (Returned (OError (''type error: unexpected '' @ t
                     @ '' object in pipe expression'')), st1)))"
  using assms by (cases expr) (simp_all add: bare_def callable_def pipe_stage_def Let_def)

lemma pipe_stage_call_callee_error:
  "ev e fnode s st = Ret (OError m, st') \<Longrightarrow>
   pipe_stage X ev e i (ACall fnode arguments) s nextArg st = Ret (Returned (OError m), st')"
  by (simp add: pipe_stage_def)

lemma pipe_stage_call_args_error:
  assumes "ev e fnode s st = Ret (f, st1)" and "\<not> IsError f" and "arguments \<noteq> []"
    and "x_evalExpressions X ev e arguments s st1 = Ret ([OError m], st')"
  shows "pipe_stage X ev e i (ACall fnode arguments) s nextArg st = Ret (Returned (OError m), st')"
  using assms(1,2) pipe_arguments_error [OF assms(3,4)] by (simp add: pipe_stage_def)

lemma pipe_stage_objectcall_error:
  "ev e onode s st = Ret (OError m, st') \<Longrightarrow>
   pipe_stage X ev e i (AObjectCall onode cnode) s nextArg st = Ret (Returned (OError m), st')"
  by (simp add: pipe_stage_def)

lemma pipe_stage_objectcall_args_error:
  assumes "ev e onode s st = Ret (ob, st1)" and "\<not> IsError ob" and "arguments \<noteq> []"
    and "x_evalExpressions X ev e arguments s st1 = Ret ([OError m], st')"
  shows "pipe_stage X ev e i (AObjectCall onode (ACall fnode arguments)) s nextArg st
     = Ret (Returned (OError m), st')"
  using assms(1,2) pipe_arguments_error [OF assms(3,4)] by (simp add: pipe_stage_def)

subsection \<open>Scopes\<close>

lemma Clear_with_entries: "Clear s (with_entries s es st) = Clear s st"
  by (simp add: Clear_def with_entries_def)

lemma forLoop_simple_fresh:
  "forLoop_simple X k ev e conseq s lv (with_entries s es st) = forLoop_simple X k ev e conseq s lv st"
  by (cases k) (simp_all add: Clear_with_entries)

lemma forLoop_iter_fresh:
  "forLoop_iter X k ev e names conseq s it lv (with_entries s es st)
     = forLoop_iter X k ev e names conseq s it lv st"
  by (cases k) (simp_all add: Clear_with_entries)

lemma forLoop_cond_fresh:
  "forLoop_cond X k ev e cond conseq post fs ls lv (with_entries ls es st)
     = forLoop_cond X k ev e cond conseq post fs ls lv st"
  by (cases k) (simp_all add: Clear_with_entries)

lemma for_scopes_eq:
  "for_scopes s st =
     (length (scopes st), Suc (length (scopes st)),
      st\<lparr>scopes := scopes st @
        [\<lparr>sc_name = ''for'', sc_parent = Some s, sc_entries = []\<rparr>,
         \<lparr>sc_name = ''for-loop'', sc_parent = Some (length (scopes st)), sc_entries = []\<rparr>]\<rparr>)"
  by (simp add: for_scopes_def NewChild_def)

subsection \<open>String templates\<close>

lemma contributions_literal:
  "list_all (\<lambda>f. \<not> IsVariable f) fs \<Longrightarrow>
   contributions X ev exprs fs k s st = Ret (Proceed (map FragValue fs), st)"
  by (induction fs) (simp_all add: add_piece_def)

lemma fragments_loop_contributions:
  "length (filter IsVariable fs) + k \<le> length exprs \<Longrightarrow>
   fragments_loop X ev exprs fs k parts s st =
     bind (contributions X ev exprs fs k s st) (\<lambda>(r, st1).
       case r of
         Returned err \<Rightarrow> Ret (err, st1)
       | Proceed pieces \<Rightarrow> Ret (OString (concat (parts @ pieces)), st1))"
proof (induction fs arbitrary: k parts st)
  case Nil
  then show ?case by simp
next
  case (Cons f fs)
  show ?case
  proof (cases "IsVariable f")
    case False
    then have "length (filter IsVariable fs) + k \<le> length exprs" using Cons.prems by simp
    from Cons.IH [OF this] False show ?thesis
      by (simp add: bind_assoc add_piece_def) (auto intro!: bind_cong_Ret split: flow.splits)
  next
    case True
    then have le: "length (filter IsVariable fs) + (k + 1) \<le> length exprs"
      and k: "k < length exprs" using Cons.prems by simp_all
    note IH = Cons.IH [OF le]
    show ?thesis
    proof (cases "exprs ! k = ANone")
      case True
      with \<open>IsVariable f\<close> k IH show ?thesis
        by (simp add: bind_assoc add_piece_def) (auto intro!: bind_cong_Ret split: flow.splits)
    next
      case False
      obtain e' st1 where n: "New X Opts_zero st = (e', st1)" by (cases "New X Opts_zero st")
      show ?thesis
      proof (cases "ev e' (exprs ! k) s st1")
        case (Ret p)
        obtain ob st2 where p: "p = (ob, st2)" by (cases p)
        show ?thesis
        proof (cases ob)
          case (OString v)
          with \<open>IsVariable f\<close> False k n Ret p IH show ?thesis
            by (simp add: bind_assoc add_piece_def) (auto intro!: bind_cong_Ret split: flow.splits)
        next
          case (OError m)
          with \<open>IsVariable f\<close> False k n Ret p show ?thesis by simp
        qed (use \<open>IsVariable f\<close> False k n Ret p IH in
             \<open>(simp add: bind_assoc add_piece_def Inspect_def,
               (auto intro!: bind_cong_Ret split: flow.splits)?)+\<close>)
      qed (use \<open>IsVariable f\<close> False k n in \<open>simp_all\<close>)
    qed
  qed
qed

lemma bind_eq_Ret: "bind m f = Ret y \<Longrightarrow> \<exists>x. m = Ret x \<and> f x = Ret y"
  by (cases m) auto

lemma add_piece_Proceed:
  "add_piece p m = Ret (Proceed pieces, st0) \<Longrightarrow> \<exists>ps. m = Ret (Proceed ps, st0) \<and> pieces = p # ps"
  by (cases m) (auto simp: add_piece_def split: flow.splits prod.splits)

lemma fragments_loop_append:
  "contributions X ev exprs pre k s st = Ret (Proceed pieces, st0) \<Longrightarrow>
   length (filter IsVariable pre) + k \<le> length exprs \<Longrightarrow>
   fragments_loop X ev exprs (pre @ rest) k parts s st
     = fragments_loop X ev exprs rest (k + length (filter IsVariable pre)) (parts @ pieces) s st0"
proof (induction pre arbitrary: k parts st pieces)
  case Nil
  then show ?case by simp
next
  case (Cons f fs)
  show ?case
  proof (cases "IsVariable f")
    case False
    from Cons.prems(1) False obtain ps where
      c: "contributions X ev exprs fs k s st = Ret (Proceed ps, st0)"
      and p: "pieces = FragValue f # ps"
      by (auto dest: add_piece_Proceed)
    have le: "length (filter IsVariable fs) + k \<le> length exprs" using Cons.prems(2) False by simp
    show ?thesis using False p Cons.IH [OF c le, of "parts @ [FragValue f]"] by simp
  next
    case True
    then have le: "length (filter IsVariable fs) + (k + 1) \<le> length exprs"
      and k: "k < length exprs" using Cons.prems(2) by simp_all
    show ?thesis
    proof (cases "exprs ! k = ANone")
      case A: True
      from Cons.prems(1) True A obtain ps where
        c: "contributions X ev exprs fs (k + 1) s st = Ret (Proceed ps, st0)"
        and p: "pieces = [] # ps"
        by (auto dest: add_piece_Proceed)
      show ?thesis using True A k p Cons.IH [OF c le, of "parts @ [[]]"] by simp
    next
      case B: False
      obtain e' st1 where n: "New X Opts_zero st = (e', st1)" by (cases "New X Opts_zero st")
      from Cons.prems(1) True B n have
        "bind (ev e' (exprs ! k) s st1) (\<lambda>(ob, st2).
           if IsError ob then Ret (Returned ob, st2)
           else case ob of
             OString v \<Rightarrow> add_piece v (contributions X ev exprs fs (k + 1) s st2)
           | other \<Rightarrow>
               bind (Inspect X ob) (\<lambda>shown.
                 add_piece shown (contributions X ev exprs fs (k + 1) s st2)))
         = Ret (Proceed pieces, st0)" by simp
      from bind_eq_Ret [OF this] obtain ob st2 where
        r: "ev e' (exprs ! k) s st1 = Ret (ob, st2)"
        and q: "(if IsError ob then Ret (Returned ob, st2)
           else case ob of
             OString v \<Rightarrow> add_piece v (contributions X ev exprs fs (k + 1) s st2)
           | other \<Rightarrow>
               bind (Inspect X ob) (\<lambda>shown.
                 add_piece shown (contributions X ev exprs fs (k + 1) s st2)))
         = Ret (Proceed pieces, st0)" by auto
      from q have ne: "\<not> IsError ob" by (auto split: if_splits)
      show ?thesis
      proof (cases "\<exists>v. ob = OString v")
        case C: True
        then obtain v where ob: "ob = OString v" by blast
        from q ob obtain ps where
          c: "contributions X ev exprs fs (k + 1) s st2 = Ret (Proceed ps, st0)"
          and p: "pieces = v # ps"
          by (auto dest: add_piece_Proceed)
        show ?thesis using True B k n r ob p Cons.IH [OF c le, of "parts @ [v]"] by simp
      next
        case D: False
        from q ne D have "bind (Inspect X ob) (\<lambda>shown.
                 add_piece shown (contributions X ev exprs fs (k + 1) s st2))
            = Ret (Proceed pieces, st0)" by (cases ob) simp_all
        from bind_eq_Ret [OF this] obtain shown ps where
          i: "Inspect X ob = Ret shown"
          and c: "contributions X ev exprs fs (k + 1) s st2 = Ret (Proceed ps, st0)"
          and p: "pieces = shown # ps"
          by (auto dest: add_piece_Proceed)
        show ?thesis using True B k n r ne D i p Cons.IH [OF c le, of "parts @ [shown]"]
          by (cases ob) simp_all
      qed
    qed
  qed
qed

lemma evalStringLiteral_error:
  assumes "contributions X ev exprs pre 0 s st = Ret (Proceed pieces, st0)"
    and "IsVariable f" and "length (filter IsVariable pre) < length exprs"
    and "exprs ! length (filter IsVariable pre) \<noteq> ANone"
    and "New X Opts_zero st0 = (e', st1)"
    and "ev e' (exprs ! length (filter IsVariable pre)) s st1 = Ret (OError m, st')"
  shows "evalStringLiteral X ev v (Some (pre @ f # rest)) exprs s st = Ret (OError m, st')"
proof -
  have "length (filter IsVariable pre) + 0 \<le> length exprs" using assms(3) by simp
  from fragments_loop_append [OF assms(1) this, of "f # rest" "[]"]
  show ?thesis using assms(2-) by (simp add: evalStringLiteral_def)
qed

section \<open>The claims\<close>

subsection \<open>Errors are returned unchanged and at once\<close>

text \<open>
  C1. Whenever a construct evaluates a sub-node and that evaluation yields an error,
  the construct returns that very error value, in the state that the failed evaluation
  left: nothing else is evaluated after it. This holds for
  \<^item> the condition of an \<open>if\<close>, and the branch that it selects;
  \<^item> the expression of a \<open>return\<close>; the container of a range;
  \<^item> the subject of a switch, any of its candidates (the candidates before it having
    been evaluated without a match), the block of the matching candidate and the
    default block;
  \<^item> the source of a pipe and, at any stage of a pipe: the callee, the explicit
    arguments and the call itself of a call stage; the object, the explicit arguments
    and the call itself of a method-style stage; the value of a bare stage and the
    call of a bare stage that is callable;
  \<^item> the init statement of a \<open>for\<close>; and, in any iteration of a loop (after any
    number \<open>j\<close> of complete passes), the body of the simple loop (also stated for
    the whole \<open>for { ... }\<close>), the condition, the body and the post statement of the
    condition loop, and the iterated expression (in the form \<open>x := range ...\<close> and
    in the form \<open>k, v := range ...\<close>) and the body of the iterator loop;
  \<^item> an expression embedded in a string template (the fragments before it having
    given their pieces).
  The sub-evaluations are calls of \<open>Evaluate\<close> at any fuel \<open>n\<close>. In particular
  \<open>for { error() }\<close> yields the value that \<open>error()\<close> yields alone (the first two
  lines of the witness).
\<close>

theorem error_propagation:
  "(Evaluate X n e cond s st = Ret (OError m, st')
      \<longrightarrow> evalIf X (Evaluate X n) e cond conseq alt s st = Ret (OError m, st'))
   \<and> (nodeVal \<noteq> ANone \<and> Evaluate X n e nodeVal s st = Ret (OError m, st')
      \<longrightarrow> evalControl (Evaluate X n) e ''return'' nodeVal s st = Ret (OError m, st'))
   \<and> (Evaluate X n e container s st = Ret (OError m, st')
      \<longrightarrow> evalRange X (Evaluate X n) e container s st = Ret (OError m, st'))
   \<and> (Evaluate X n e subject s st = Ret (OError m, st')
      \<longrightarrow> evalSwitch X (Evaluate X n) e subject choices s st = Ret (OError m, st'))
   \<and> (Evaluate X n e subject s st = Ret (v, st0) \<and> \<not> IsError v
        \<and> candidates choices = before @ (c, blk) # after
        \<and> misses X (Evaluate X n) e v s before st0 = Some st1
        \<and> Evaluate X n e c s st1 = Ret (OError m, st')
      \<longrightarrow> evalSwitch X (Evaluate X n) e subject choices s st = Ret (OError m, st'))
   \<and> (Evaluate X n e src s st = Ret (OError m, st')
      \<longrightarrow> evalPipe X (Evaluate X n) e (src # stage # rest) s st = Ret (OError m, st'))
   \<and> (pipe_reaches X (Evaluate X n) e src pre s st = Some (nextArg, st1)
        \<and> Evaluate X n e fnode s st1 = Ret (OError m, st')
      \<longrightarrow> evalPipe X (Evaluate X n) e (src # pre @ ACall fnode arguments # rest) s st
            = Ret (OError m, st'))
   \<and> (pipe_reaches X (Evaluate X n) e src pre s st = Some (nextArg, st1)
        \<and> Evaluate X n e fnode s st1 = Ret (f, st2) \<and> \<not> IsError f \<and> arguments \<noteq> []
        \<and> x_evalExpressions X (Evaluate X n) e arguments s st2 = Ret ([OError m], st')
      \<longrightarrow> evalPipe X (Evaluate X n) e (src # pre @ ACall fnode arguments # rest) s st
            = Ret (OError m, st'))
   \<and> (pipe_reaches X (Evaluate X n) e src pre s st = Some (nextArg, st1)
        \<and> Evaluate X n e fnode s st1 = Ret (f, st2) \<and> \<not> IsError f
        \<and> pipe_arguments X (Evaluate X n) e arguments s st2 = Ret (Proceed vs, st3)
        \<and> x_applyFunction X (Evaluate X n) e s f
              (if nextArg \<noteq> NoObject then nextArg # vs else vs) st3 = Ret (OError m, st')
      \<longrightarrow> evalPipe X (Evaluate X n) e (src # pre @ ACall fnode arguments # rest) s st
            = Ret (OError m, st'))
   \<and> (pipe_reaches X (Evaluate X n) e src pre s st = Some (nextArg, st1)
        \<and> Evaluate X n e onode s st1 = Ret (OError m, st')
      \<longrightarrow> evalPipe X (Evaluate X n) e (src # pre @ AObjectCall onode cnode # rest) s st
            = Ret (OError m, st'))
   \<and> (pipe_reaches X (Evaluate X n) e src pre s st = Some (nextArg, st1)
        \<and> bare stage \<and> Evaluate X n e stage s st1 = Ret (OError m, st')
      \<longrightarrow> evalPipe X (Evaluate X n) e (src # pre @ stage # rest) s st = Ret (OError m, st'))
   \<and> (for_scopes s st = (forScope, loopScope, stb) \<and> init \<noteq> ANone
        \<and> Evaluate X n e init forScope stb = Ret (OError m, st')
      \<longrightarrow> evalFor X k (Evaluate X n) e init cond conseq post isSimple isIterator s st
            = Ret (OError m, st'))
   \<and> (passes j (simple_pass (Evaluate X n) e conseq s) (lv0, st0) = Some (lv, st)
        \<and> Evaluate X n e conseq s (Clear s st) = Ret (OError m, st')
      \<longrightarrow> forLoop_simple X (j + Suc k) (Evaluate X n) e conseq s lv0 st0 = Ret (OError m, st'))
   \<and> (passes j (cond_pass X (Evaluate X n) e cond conseq post forScope loopScope) (lv0, st0)
          = Some (lv, st)
        \<and> Evaluate X n e cond forScope (Clear loopScope st) = Ret (OError m, st')
      \<longrightarrow> forLoop_cond X (j + Suc k) (Evaluate X n) e cond conseq post forScope loopScope lv0 st0
            = Ret (OError m, st'))
   \<and> (passes j (cond_pass X (Evaluate X n) e cond conseq post forScope loopScope) (lv0, st0)
          = Some (lv, st)
        \<and> Evaluate X n e cond forScope (Clear loopScope st) = Ret (c1, st1)
        \<and> \<not> IsError c1 \<and> c1 \<noteq> NoObject \<and> x_IsTruthy X c1
        \<and> Evaluate X n e conseq loopScope st1 = Ret (OError m, st')
      \<longrightarrow> forLoop_cond X (j + Suc k) (Evaluate X n) e cond conseq post forScope loopScope lv0 st0
            = Ret (OError m, st'))
   \<and> (passes j (cond_pass X (Evaluate X n) e cond conseq post forScope loopScope) (lv0, st0)
          = Some (lv, st)
        \<and> Evaluate X n e cond forScope (Clear loopScope st) = Ret (c1, st1)
        \<and> \<not> IsError c1 \<and> c1 \<noteq> NoObject \<and> x_IsTruthy X c1
        \<and> Evaluate X n e conseq loopScope st1 = Ret (rt, st2)
        \<and> \<not> IsError rt \<and> rt \<noteq> OBreak \<and> Keyword rt \<noteq> ''return''
        \<and> post \<noteq> ANone \<and> Evaluate X n e post forScope st2 = Ret (OError m, st')
      \<longrightarrow> forLoop_cond X (j + Suc k) (Evaluate X n) e cond conseq post forScope loopScope lv0 st0
            = Ret (OError m, st'))
   \<and> (Evaluate X n e iterExpr s st = Ret (OError m, st')
      \<longrightarrow> evalIteratorForLoop X k (Evaluate X n) e (AVar name iterExpr) conseq s st
            = Ret (OError m, st'))
   \<and> (passes j (iter_pass X (Evaluate X n) e names conseq s iterator) (lv0, st0) = Some (lv, st)
        \<and> x_Next X iterator (Clear s st) = (Some (key, val), st1)
        \<and> Declare s (names ! 0) key False st1 = Inr st2
        \<and> (if length names > 1 then Declare s (names ! 1) val False st2 else Inr st2) = Inr st3
        \<and> Evaluate X n e conseq s st3 = Ret (OError m, st')
      \<longrightarrow> forLoop_iter X (j + Suc k) (Evaluate X n) e names conseq s iterator lv0 st0
            = Ret (OError m, st'))
   \<and> (Evaluate X n e cond s st = Ret (c1, st1)
        \<and> \<not> IsError c1 \<and> c1 \<noteq> NoObject \<and> x_IsTruthy X c1
        \<and> Evaluate X n e conseq s st1 = Ret (OError m, st')
      \<longrightarrow> evalIf X (Evaluate X n) e cond conseq alt s st = Ret (OError m, st'))
   \<and> (Evaluate X n e cond s st = Ret (c1, st1)
        \<and> \<not> IsError c1 \<and> c1 \<noteq> NoObject \<and> \<not> x_IsTruthy X c1
        \<and> alt \<noteq> ANone \<and> Evaluate X n e alt s st1 = Ret (OError m, st')
      \<longrightarrow> evalIf X (Evaluate X n) e cond conseq alt s st = Ret (OError m, st'))
   \<and> (Evaluate X n e subject s st = Ret (v, st0) \<and> \<not> IsError v
        \<and> candidates choices = before @ (c, blk) # after
        \<and> misses X (Evaluate X n) e v s before st0 = Some st1
        \<and> Evaluate X n e c s st1 = Ret (out, st2) \<and> \<not> IsError out \<and> x_Equals X v out
        \<and> x_evalBlockStatement X (Evaluate X n) e blk s st2 = Ret (OError m, st')
      \<longrightarrow> evalSwitch X (Evaluate X n) e subject choices s st = Ret (OError m, st'))
   \<and> (Evaluate X n e subject s st = Ret (v, st0) \<and> \<not> IsError v
        \<and> misses X (Evaluate X n) e v s (candidates choices) st0 = Some st1
        \<and> filter IsDefault choices \<noteq> []
        \<and> x_evalBlockStatement X (Evaluate X n) e (default_block choices) s st1
            = Ret (OError m, st')
      \<longrightarrow> evalSwitch X (Evaluate X n) e subject choices s st = Ret (OError m, st'))
   \<and> (pipe_reaches X (Evaluate X n) e src pre s st = Some (nextArg, st1)
        \<and> Evaluate X n e onode s st1 = Ret (ob, st2) \<and> \<not> IsError ob \<and> arguments \<noteq> []
        \<and> x_evalExpressions X (Evaluate X n) e arguments s st2 = Ret ([OError m], st')
      \<longrightarrow> evalPipe X (Evaluate X n) e
              (src # pre @ AObjectCall onode (ACall fnode arguments) # rest) s st
            = Ret (OError m, st'))
   \<and> (pipe_reaches X (Evaluate X n) e src pre s st = Some (nextArg, st1)
        \<and> Evaluate X n e onode s st1 = Ret (ob, st2) \<and> \<not> IsError ob
        \<and> pipe_arguments X (Evaluate X n) e arguments s st2 = Ret (Proceed vs, st3)
        \<and> x_evalObjectCall X (Evaluate X n) e s ob method
              (if nextArg \<noteq> NoObject then nextArg # vs else vs) st3 = Ret (OError m, st')
      \<longrightarrow> evalPipe X (Evaluate X n) e
              (src # pre @ AObjectCall onode (ACall (AIdent method) arguments) # rest) s st
            = Ret (OError m, st'))
   \<and> (pipe_reaches X (Evaluate X n) e src pre s st = Some (nextArg, st1)
        \<and> bare stage \<and> Evaluate X n e stage s st1 = Ret (f, st2) \<and> callable f
        \<and> x_applyFunction X (Evaluate X n) e s f
              (if nextArg \<noteq> NoObject then [nextArg] else []) st2 = Ret (OError m, st')
      \<longrightarrow> evalPipe X (Evaluate X n) e (src # pre @ stage # rest) s st = Ret (OError m, st'))
   \<and> (1 \<le> length names \<and> length names \<le> 2
        \<and> Evaluate X n e iterExpr s st = Ret (OError m, st')
      \<longrightarrow> evalIteratorForLoop X k (Evaluate X n) e (AMultiVar names iterExpr) conseq s st
            = Ret (OError m, st'))
   \<and> (contributions X (Evaluate X n) exprs frags 0 s st = Ret (Proceed pieces, st0)
        \<and> IsVariable frag \<and> length (filter IsVariable frags) < length exprs
        \<and> exprs ! length (filter IsVariable frags) \<noteq> ANone
        \<and> New X Opts_zero st0 = (e', st1)
        \<and> Evaluate X n e' (exprs ! length (filter IsVariable frags)) s st1
            = Ret (OError m, st')
      \<longrightarrow> evalStringLiteral X (Evaluate X n) lit (Some (frags @ frag # frest)) exprs s st
            = Ret (OError m, st'))
   \<and> (for_scopes s st = (forScope, loopScope, stb)
        \<and> init_run (Evaluate X n) e init forScope stb = Some st0
        \<and> passes j (simple_pass (Evaluate X n) e conseq loopScope) (ONil, st0) = Some (lv, stj)
        \<and> Evaluate X n e conseq loopScope (Clear loopScope stj) = Ret (OError m, st')
      \<longrightarrow> evalFor X (j + Suc k) (Evaluate X n) e init cond conseq post True isIterator s st
            = Ret (OError m, st'))"
proof (intro conjI impI; (elim conjE)?)
  show "evalIf X (Evaluate X n) e cond conseq alt s st = Ret (OError m, st')"
    if "Evaluate X n e cond s st = Ret (OError m, st')"
    using that by (simp add: evalIf_def)
  show "evalControl (Evaluate X n) e ''return'' nodeVal s st = Ret (OError m, st')"
    if "nodeVal \<noteq> ANone" "Evaluate X n e nodeVal s st = Ret (OError m, st')"
    using that by (simp add: evalControl_def)
  show "evalRange X (Evaluate X n) e container s st = Ret (OError m, st')"
    if "Evaluate X n e container s st = Ret (OError m, st')"
    using that by (simp add: evalRange_def)
  show "evalSwitch X (Evaluate X n) e subject choices s st = Ret (OError m, st')"
    if "Evaluate X n e subject s st = Ret (OError m, st')"
    using that by (simp add: evalSwitch_def)
  show "evalSwitch X (Evaluate X n) e subject choices s st = Ret (OError m, st')"
    if "Evaluate X n e subject s st = Ret (v, st0)" "\<not> IsError v"
      "candidates choices = before @ (c, blk) # after"
      "misses X (Evaluate X n) e v s before st0 = Some st1"
      "Evaluate X n e c s st1 = Ret (OError m, st')"
    using that by (rule evalSwitch_error [where ev = "Evaluate X n"])
  show "evalPipe X (Evaluate X n) e (src # stage # rest) s st = Ret (OError m, st')"
    if "Evaluate X n e src s st = Ret (OError m, st')"
    using that by (simp add: evalPipe_def)
  show "evalPipe X (Evaluate X n) e (src # pre @ ACall fnode arguments # rest) s st
          = Ret (OError m, st')"
    if "pipe_reaches X (Evaluate X n) e src pre s st = Some (nextArg, st1)"
      "Evaluate X n e fnode s st1 = Ret (OError m, st')"
    using that(1) pipe_stage_call_callee_error [where ev = "Evaluate X n", OF that(2)] by (rule evalPipe_stage_returns [where ev = "Evaluate X n"])
  show "evalPipe X (Evaluate X n) e (src # pre @ ACall fnode arguments # rest) s st
          = Ret (OError m, st')"
    if "pipe_reaches X (Evaluate X n) e src pre s st = Some (nextArg, st1)"
      "Evaluate X n e fnode s st1 = Ret (f, st2)" "\<not> IsError f" "arguments \<noteq> []"
      "x_evalExpressions X (Evaluate X n) e arguments s st2 = Ret ([OError m], st')"
    using that(1) pipe_stage_call_args_error [where ev = "Evaluate X n", OF that(2-5)] by (rule evalPipe_stage_returns [where ev = "Evaluate X n"])
  show "evalPipe X (Evaluate X n) e (src # pre @ ACall fnode arguments # rest) s st
          = Ret (OError m, st')"
    if "pipe_reaches X (Evaluate X n) e src pre s st = Some (nextArg, st1)"
      "Evaluate X n e fnode s st1 = Ret (f, st2)" "\<not> IsError f"
      "pipe_arguments X (Evaluate X n) e arguments s st2 = Ret (Proceed vs, st3)"
      "x_applyFunction X (Evaluate X n) e s f
              (if nextArg \<noteq> NoObject then nextArg # vs else vs) st3 = Ret (OError m, st')"
  proof -
    have "pipe_stage X (Evaluate X n) e (length pre) (ACall fnode arguments) s nextArg st1
        = Ret (Returned (OError m), st')"
      using that(5) by (simp add: pipe_stage_call [where ev = "Evaluate X n", OF that(2-4)])
    with that(1) show ?thesis by (rule evalPipe_stage_returns [where ev = "Evaluate X n"])
  qed
  show "evalPipe X (Evaluate X n) e (src # pre @ AObjectCall onode cnode # rest) s st
          = Ret (OError m, st')"
    if "pipe_reaches X (Evaluate X n) e src pre s st = Some (nextArg, st1)"
      "Evaluate X n e onode s st1 = Ret (OError m, st')"
    using that(1) pipe_stage_objectcall_error [where ev = "Evaluate X n", OF that(2)] by (rule evalPipe_stage_returns [where ev = "Evaluate X n"])
  show "evalPipe X (Evaluate X n) e (src # pre @ stage # rest) s st = Ret (OError m, st')"
    if "pipe_reaches X (Evaluate X n) e src pre s st = Some (nextArg, st1)"
      "bare stage" "Evaluate X n e stage s st1 = Ret (OError m, st')"
  proof -
    have "pipe_stage X (Evaluate X n) e (length pre) stage s nextArg st1
        = Ret (Returned (OError m), st')"
      by (simp add: pipe_stage_bare [where ev = "Evaluate X n", OF that(2,3)])
    with that(1) show ?thesis by (rule evalPipe_stage_returns [where ev = "Evaluate X n"])
  qed
  show "evalFor X k (Evaluate X n) e init cond conseq post isSimple isIterator s st
          = Ret (OError m, st')"
    if "for_scopes s st = (forScope, loopScope, stb)" "init \<noteq> ANone"
      "Evaluate X n e init forScope stb = Ret (OError m, st')"
    using that by (rule evalFor_init_error [where ev = "Evaluate X n"])
  show "forLoop_simple X (j + Suc k) (Evaluate X n) e conseq s lv0 st0 = Ret (OError m, st')"
    if "passes j (simple_pass (Evaluate X n) e conseq s) (lv0, st0) = Some (lv, st)"
      "Evaluate X n e conseq s (Clear s st) = Ret (OError m, st')"
    using that by (rule forLoop_simple_error [where ev = "Evaluate X n"])
  show "forLoop_cond X (j + Suc k) (Evaluate X n) e cond conseq post forScope loopScope lv0 st0
          = Ret (OError m, st')"
    if "passes j (cond_pass X (Evaluate X n) e cond conseq post forScope loopScope) (lv0, st0)
          = Some (lv, st)"
      "Evaluate X n e cond forScope (Clear loopScope st) = Ret (OError m, st')"
    using that by (rule forLoop_cond_cond_error [where ev = "Evaluate X n"])
  show "forLoop_cond X (j + Suc k) (Evaluate X n) e cond conseq post forScope loopScope lv0 st0
          = Ret (OError m, st')"
    if "passes j (cond_pass X (Evaluate X n) e cond conseq post forScope loopScope) (lv0, st0)
          = Some (lv, st)"
      "Evaluate X n e cond forScope (Clear loopScope st) = Ret (c1, st1)"
      "\<not> IsError c1" "c1 \<noteq> NoObject" "x_IsTruthy X c1"
      "Evaluate X n e conseq loopScope st1 = Ret (OError m, st')"
    using that by (rule forLoop_cond_body_error [where ev = "Evaluate X n"])
  show "forLoop_cond X (j + Suc k) (Evaluate X n) e cond conseq post forScope loopScope lv0 st0
          = Ret (OError m, st')"
    if "passes j (cond_pass X (Evaluate X n) e cond conseq post forScope loopScope) (lv0, st0)
          = Some (lv, st)"
      "Evaluate X n e cond forScope (Clear loopScope st) = Ret (c1, st1)"
      "\<not> IsError c1" "c1 \<noteq> NoObject" "x_IsTruthy X c1"
      "Evaluate X n e conseq loopScope st1 = Ret (rt, st2)"
      "\<not> IsError rt" "rt \<noteq> OBreak" "Keyword rt \<noteq> ''return''"
      "post \<noteq> ANone" "Evaluate X n e post forScope st2 = Ret (OError m, st')"
    using that by (rule forLoop_cond_post_error [where ev = "Evaluate X n"])
  show "evalIteratorForLoop X k (Evaluate X n) e (AVar name iterExpr) conseq s st
          = Ret (OError m, st')"
    if "Evaluate X n e iterExpr s st = Ret (OError m, st')"
    using that by (simp add: evalIteratorForLoop_def)
  show "forLoop_iter X (j + Suc k) (Evaluate X n) e names conseq s iterator lv0 st0
          = Ret (OError m, st')"
    if "passes j (iter_pass X (Evaluate X n) e names conseq s iterator) (lv0, st0) = Some (lv, st)"
      "x_Next X iterator (Clear s st) = (Some (key, val), st1)"
      "Declare s (names ! 0) key False st1 = Inr st2"
      "(if length names > 1 then Declare s (names ! 1) val False st2 else Inr st2) = Inr st3"
      "Evaluate X n e conseq s st3 = Ret (OError m, st')"
    using that by (rule forLoop_iter_error [where ev = "Evaluate X n"])
  show "evalIf X (Evaluate X n) e cond conseq alt s st = Ret (OError m, st')"
    if "Evaluate X n e cond s st = Ret (c1, st1)"
      "\<not> IsError c1" "c1 \<noteq> NoObject" "x_IsTruthy X c1"
      "Evaluate X n e conseq s st1 = Ret (OError m, st')"
    using that by (simp add: evalIf_def IsTruthy_def)
  show "evalIf X (Evaluate X n) e cond conseq alt s st = Ret (OError m, st')"
    if "Evaluate X n e cond s st = Ret (c1, st1)"
      "\<not> IsError c1" "c1 \<noteq> NoObject" "\<not> x_IsTruthy X c1"
      "alt \<noteq> ANone" "Evaluate X n e alt s st1 = Ret (OError m, st')"
    using that by (simp add: evalIf_def IsTruthy_def)
  show "evalSwitch X (Evaluate X n) e subject choices s st = Ret (OError m, st')"
    if "Evaluate X n e subject s st = Ret (v, st0)" "\<not> IsError v"
      "candidates choices = before @ (c, blk) # after"
      "misses X (Evaluate X n) e v s before st0 = Some st1"
      "Evaluate X n e c s st1 = Ret (out, st2)" "\<not> IsError out" "x_Equals X v out"
      "x_evalBlockStatement X (Evaluate X n) e blk s st2 = Ret (OError m, st')"
    using that(8) by (simp add: evalSwitch_hit [where ev = "Evaluate X n", OF that(1-7)])
  show "evalSwitch X (Evaluate X n) e subject choices s st = Ret (OError m, st')"
    if "Evaluate X n e subject s st = Ret (v, st0)" "\<not> IsError v"
      "misses X (Evaluate X n) e v s (candidates choices) st0 = Some st1"
      "filter IsDefault choices \<noteq> []"
      "x_evalBlockStatement X (Evaluate X n) e (default_block choices) s st1
            = Ret (OError m, st')"
    using that(4,5) by (simp add: evalSwitch_miss [where ev = "Evaluate X n", OF that(1-3)])
  show "evalPipe X (Evaluate X n) e
              (src # pre @ AObjectCall onode (ACall fnode arguments) # rest) s st
            = Ret (OError m, st')"
    if "pipe_reaches X (Evaluate X n) e src pre s st = Some (nextArg, st1)"
      "Evaluate X n e onode s st1 = Ret (ob, st2)" "\<not> IsError ob" "arguments \<noteq> []"
      "x_evalExpressions X (Evaluate X n) e arguments s st2 = Ret ([OError m], st')"
    using that(1) pipe_stage_objectcall_args_error [where ev = "Evaluate X n", OF that(2-5)]
    by (rule evalPipe_stage_returns [where ev = "Evaluate X n"])
  show "evalPipe X (Evaluate X n) e
              (src # pre @ AObjectCall onode (ACall (AIdent method) arguments) # rest) s st
            = Ret (OError m, st')"
    if "pipe_reaches X (Evaluate X n) e src pre s st = Some (nextArg, st1)"
      "Evaluate X n e onode s st1 = Ret (ob, st2)" "\<not> IsError ob"
      "pipe_arguments X (Evaluate X n) e arguments s st2 = Ret (Proceed vs, st3)"
      "x_evalObjectCall X (Evaluate X n) e s ob method
              (if nextArg \<noteq> NoObject then nextArg # vs else vs) st3 = Ret (OError m, st')"
  proof -
    have "pipe_stage X (Evaluate X n) e (length pre)
            (AObjectCall onode (ACall (AIdent method) arguments)) s nextArg st1
        = Ret (Returned (OError m), st')"
      using that(5)
      by (simp add: pipe_stage_objectcall [where ev = "Evaluate X n", OF that(2-4)])
    with that(1) show ?thesis by (rule evalPipe_stage_returns [where ev = "Evaluate X n"])
  qed
  show "evalPipe X (Evaluate X n) e (src # pre @ stage # rest) s st = Ret (OError m, st')"
    if "pipe_reaches X (Evaluate X n) e src pre s st = Some (nextArg, st1)"
      "bare stage" "Evaluate X n e stage s st1 = Ret (f, st2)" "callable f"
      "x_applyFunction X (Evaluate X n) e s f
              (if nextArg \<noteq> NoObject then [nextArg] else []) st2 = Ret (OError m, st')"
  proof -
    from that(4) have "\<not> IsError f" by (cases f) (simp_all add: callable_def)
    then have "pipe_stage X (Evaluate X n) e (length pre) stage s nextArg st1
        = Ret (Returned (OError m), st')"
      using that(4,5) by (simp add: pipe_stage_bare [where ev = "Evaluate X n", OF that(2,3)])
    with that(1) show ?thesis by (rule evalPipe_stage_returns [where ev = "Evaluate X n"])
  qed
  show "evalIteratorForLoop X k (Evaluate X n) e (AMultiVar names iterExpr) conseq s st
            = Ret (OError m, st')"
    if "1 \<le> length names" "length names \<le> 2"
      "Evaluate X n e iterExpr s st = Ret (OError m, st')"
    using that by (auto simp: evalIteratorForLoop_def)
  show "evalStringLiteral X (Evaluate X n) lit (Some (frags @ frag # frest)) exprs s st
            = Ret (OError m, st')"
    if "contributions X (Evaluate X n) exprs frags 0 s st = Ret (Proceed pieces, st0)"
      "IsVariable frag" "length (filter IsVariable frags) < length exprs"
      "exprs ! length (filter IsVariable frags) \<noteq> ANone"
      "New X Opts_zero st0 = (e', st1)"
      "Evaluate X n e' (exprs ! length (filter IsVariable frags)) s st1 = Ret (OError m, st')"
    using that by (rule evalStringLiteral_error [where ev = "Evaluate X n"])
  show "evalFor X (j + Suc k) (Evaluate X n) e init cond conseq post True isIterator s st
            = Ret (OError m, st')"
    if "for_scopes s st = (forScope, loopScope, stb)"
      "init_run (Evaluate X n) e init forScope stb = Some st0"
      "passes j (simple_pass (Evaluate X n) e conseq loopScope) (ONil, st0) = Some (lv, stj)"
      "Evaluate X n e conseq loopScope (Clear loopScope stj) = Ret (OError m, st')"
    using forLoop_simple_error [where ev = "Evaluate X n", OF that(3,4)]
    by (simp add: evalFor_after_init [where ev = "Evaluate X n", OF that(1,2)]
          evalSimpleForLoop_def)
qed


theorem error_propagation_witness:
  "Evaluate DX 6 d_e error_call 0 d_state = Ret (OError ''boom'', d_log (OBuiltin 2) [] d_state)
   \<and> Evaluate DX 7 d_e error_loop 0 d_state
       = Ret (OError ''boom'', d_log (OBuiltin 2) [] (d_count d_for_state))
   \<and> evalIf DX (Evaluate DX 6) d_e error_call sum_body ANone 0 d_state
       = Ret (OError ''boom'', d_log (OBuiltin 2) [] d_state)
   \<and> evalControl (Evaluate DX 6) d_e ''return'' error_call 0 d_state
       = Ret (OError ''boom'', d_log (OBuiltin 2) [] d_state)
   \<and> evalRange DX (Evaluate DX 6) d_e error_call 0 d_state
       = Ret (OError ''boom'', d_log (OBuiltin 2) [] d_state)
   \<and> evalSwitch DX (Evaluate DX 6) d_e error_call two_cases 0 d_state
       = Ret (OError ''boom'', d_log (OBuiltin 2) [] d_state)
   \<and> evalSwitch DX (Evaluate DX 6) d_e (AInt 2)
         [Choice False [AInt 1, error_call] block_A, Choice False [AInt 2] block_B] 0 d_state
       = Ret (OError ''boom'', d_log (OBuiltin 2) [] d_state)
   \<and> evalPipe DX (Evaluate DX 6) d_e (error_call # AIdent ''double'' # []) 0 d_state
       = Ret (OError ''boom'', d_log (OBuiltin 2) [] d_state)
   \<and> evalPipe DX (Evaluate DX 6) d_e
         (AInt 5 # [AIdent ''double''] @ ACall (AIdent ''missing'') [] # []) 0 d_state
       = Ret (OError ''name error: missing'', d_log (OFunction 4) [OInt 5] d_state)
   \<and> evalPipe DX (Evaluate DX 6) d_e
         (AInt 5 # [AIdent ''double''] @ ACall (AIdent ''sub'') [error_call] # []) 0 d_state
       = Ret (OError ''boom'', d_log (OBuiltin 2) [] (d_log (OFunction 4) [OInt 5] d_state))
   \<and> evalPipe DX (Evaluate DX 6) d_e
         (AInt 5 # [AIdent ''double''] @ ACall (AIdent ''error'') [] # []) 0 d_state
       = Ret (OError ''boom'', d_log (OBuiltin 2) [OInt 10] (d_log (OFunction 4) [OInt 5] d_state))
   \<and> evalPipe DX (Evaluate DX 6) d_e
         (AInt 5 # [AIdent ''double''] @ AObjectCall error_call (ACall (AIdent ''m'') []) # [])
         0 d_state
       = Ret (OError ''boom'', d_log (OBuiltin 2) [] (d_log (OFunction 4) [OInt 5] d_state))
   \<and> evalPipe DX (Evaluate DX 6) d_e
         (AInt 5 # [AIdent ''double''] @ AIdent ''missing'' # []) 0 d_state
       = Ret (OError ''name error: missing'', d_log (OFunction 4) [OInt 5] d_state)
   \<and> evalFor DX 6 (Evaluate DX 6) d_e error_call sum_cond sum_body sum_post False False 0 d_state
       = Ret (OError ''boom'', d_log (OBuiltin 2) [] d_for_state)
   \<and> forLoop_simple DX (0 + Suc 5) (Evaluate DX 6) d_e (ABlock [error_call]) 2 ONil d_for_state
       = Ret (OError ''boom'', d_log (OBuiltin 2) [] (d_count d_for_state))
   \<and> forLoop_cond DX (0 + Suc 5) (Evaluate DX 6) d_e error_call sum_body sum_post 1 2 ONil
         d_for_state
       = Ret (OError ''boom'', d_log (OBuiltin 2) [] d_for_state)
   \<and> forLoop_cond DX (0 + Suc 5) (Evaluate DX 6) d_e (ABool True) (ABlock [error_call]) sum_post
         1 2 ONil d_for_state
       = Ret (OError ''boom'', d_log (OBuiltin 2) [] (d_count d_for_state))
   \<and> forLoop_cond DX (0 + Suc 5) (Evaluate DX 6) d_e (ABool True) (ABlock [AInt 1]) error_call
         1 2 ONil d_for_state
       = Ret (OError ''boom'', d_log (OBuiltin 2) [] (d_count d_for_state))
   \<and> evalIteratorForLoop DX 6 (Evaluate DX 6) d_e (AVar ''k'' error_call) sum_body 2 d_for_state
       = Ret (OError ''boom'', d_log (OBuiltin 2) [] d_for_state)
   \<and> forLoop_iter DX (0 + Suc 5) (Evaluate DX 6) d_e [''k''] (ABlock [error_call]) 2
         (OOther ''iterator'' 0) ONil d_for_state
       = Ret (OError ''boom'',
           d_log (OBuiltin 2) []
             (d_count (snd (x_Next DX (OOther ''iterator'' 0)
                (with_entries 2 [(''k'', OInt 0, False)] d_for_state)))))
   \<and> evalIf DX (Evaluate DX 6) d_e (ABool True) error_call ANone 0 d_state
       = Ret (OError ''boom'', d_log (OBuiltin 2) [] d_state)
   \<and> evalIf DX (Evaluate DX 6) d_e (ABool False) (AInt 1) error_call 0 d_state
       = Ret (OError ''boom'', d_log (OBuiltin 2) [] d_state)
   \<and> evalSwitch DX (Evaluate DX 6) d_e (AInt 2)
         [Choice False [AInt 1, AInt 2] (ABlock [error_call]), Choice False [AInt 2] block_B]
         0 d_state
       = Ret (OError ''boom'', d_log (OBuiltin 2) [] (d_count d_state))
   \<and> evalSwitch DX (Evaluate DX 6) d_e (AInt 3)
         [Choice False [AInt 1] block_A, Choice True [] (ABlock [error_call])] 0 d_state
       = Ret (OError ''boom'', d_log (OBuiltin 2) [] (d_count d_state))
   \<and> evalPipe DX (Evaluate DX 6) d_e
         (AInt 5 # [AIdent ''double'']
            @ AObjectCall (AInt 1) (ACall (AIdent ''m'') [error_call]) # []) 0 d_state
       = Ret (OError ''boom'', d_log (OBuiltin 2) [] (d_log (OFunction 4) [OInt 5] d_state))
   \<and> evalPipe DX (Evaluate DX 6) d_e
         (AInt 5 # [AIdent ''double''] @ AObjectCall (AInt 1) (ACall (AIdent ''m'') []) # [])
         0 d_state
       = Ret (OError ''type error: no method m'',
           d_log (OInt 1) [OInt 10] (d_log (OFunction 4) [OInt 5] d_state))
   \<and> evalPipe DX (Evaluate DX 6) d_e
         (AInt 5 # [AIdent ''double''] @ AIdent ''error'' # []) 0 d_state
       = Ret (OError ''boom'', d_log (OBuiltin 2) [OInt 10] (d_log (OFunction 4) [OInt 5] d_state))
   \<and> evalIteratorForLoop DX 6 (Evaluate DX 6) d_e (AMultiVar [''k'', ''v''] error_call)
         sum_body 2 d_for_state
       = Ret (OError ''boom'', d_log (OBuiltin 2) [] d_for_state)
   \<and> evalStringLiteral DX (Evaluate DX 6) ''t''
         (Some ([Fragment False ''x=''] @ Fragment True ''N'' # [Fragment False ''!'']))
         [error_call] 0 d_state
       = Ret (OError ''boom'', d_log (OBuiltin 2) [] d_state)
   \<and> evalFor DX (0 + Suc 5) (Evaluate DX 6) d_e ANone ANone (ABlock [error_call]) ANone
         True False 0 d_state
       = Ret (OError ''boom'', d_log (OBuiltin 2) [] (d_count d_for_state))"
proof -
  let ?E = "Evaluate DX 6"
  let ?boom = "OError ''boom''"
  let ?p = "d_log (OFunction 4) [OInt 5] d_state"
  let ?it = "OOther ''iterator'' 0"
  note P = error_propagation [where X = DX and n = 6 and e = d_e]
  note Q1 = P [THEN conjunct2] note Q2 = Q1 [THEN conjunct2] note Q3 = Q2 [THEN conjunct2]
  note Q4 = Q3 [THEN conjunct2] note Q5 = Q4 [THEN conjunct2] note Q6 = Q5 [THEN conjunct2]
  note Q7 = Q6 [THEN conjunct2] note Q8 = Q7 [THEN conjunct2] note Q9 = Q8 [THEN conjunct2]
  note Q10 = Q9 [THEN conjunct2] note Q11 = Q10 [THEN conjunct2]
  note Q12 = Q11 [THEN conjunct2] note Q13 = Q12 [THEN conjunct2]
  note Q14 = Q13 [THEN conjunct2] note Q15 = Q14 [THEN conjunct2]
  note Q16 = Q15 [THEN conjunct2] note Q17 = Q16 [THEN conjunct2]
  note Q18 = Q17 [THEN conjunct2] note Q19 = Q18 [THEN conjunct2]
  note Q20 = Q19 [THEN conjunct2] note Q21 = Q20 [THEN conjunct2]
  note Q22 = Q21 [THEN conjunct2] note Q23 = Q22 [THEN conjunct2]
  note Q24 = Q23 [THEN conjunct2] note Q25 = Q24 [THEN conjunct2]
  note Q26 = Q25 [THEN conjunct2] note Q27 = Q26 [THEN conjunct2]
  have e0: "?E d_e error_call 0 d_state = Ret (?boom, d_log (OBuiltin 2) [] d_state)"
    by code_simp
  have ex: "Evaluate DX 7 d_e error_loop 0 d_state
       = Ret (?boom, d_log (OBuiltin 2) [] (d_count d_for_state))"
    by code_simp
  have c1: "evalIf DX ?E d_e error_call sum_body ANone 0 d_state
       = Ret (?boom, d_log (OBuiltin 2) [] d_state)"
    by (rule P [THEN conjunct1, rule_format]) (rule e0)
  have c2: "evalControl ?E d_e ''return'' error_call 0 d_state
       = Ret (?boom, d_log (OBuiltin 2) [] d_state)"
    by (rule Q1 [THEN conjunct1, rule_format], intro conjI, simp add: error_call_def, rule e0)
  have c3: "evalRange DX ?E d_e error_call 0 d_state
       = Ret (?boom, d_log (OBuiltin 2) [] d_state)"
    by (rule Q2 [THEN conjunct1, rule_format]) (rule e0)
  have c4: "evalSwitch DX ?E d_e error_call two_cases 0 d_state
       = Ret (?boom, d_log (OBuiltin 2) [] d_state)"
    by (rule Q3 [THEN conjunct1, rule_format]) (rule e0)
  have s1: "?E d_e (AInt 2) 0 d_state = Ret (OInt 2, d_state)" by code_simp
  have s2: "candidates [Choice False [AInt 1, error_call] block_A, Choice False [AInt 2] block_B]
      = [(AInt 1, block_A)] @ (error_call, block_A) # [(AInt 2, block_B)]"
    by (simp add: candidates_def)
  have s3: "misses DX ?E d_e (OInt 2) 0 [(AInt 1, block_A)] d_state = Some d_state"
    by code_simp
  have c5: "evalSwitch DX ?E d_e (AInt 2)
         [Choice False [AInt 1, error_call] block_A, Choice False [AInt 2] block_B] 0 d_state
       = Ret (?boom, d_log (OBuiltin 2) [] d_state)"
    by (rule Q4 [THEN conjunct1, rule_format], intro conjI, rule s1, simp, rule s2, rule s3,
        rule e0)
  have c6: "evalPipe DX ?E d_e (error_call # AIdent ''double'' # []) 0 d_state
       = Ret (?boom, d_log (OBuiltin 2) [] d_state)"
    by (rule Q5 [THEN conjunct1, rule_format]) (rule e0)
  have r: "pipe_reaches DX ?E d_e (AInt 5) [AIdent ''double''] 0 d_state = Some (OInt 10, ?p)"
    by code_simp
  have m1: "?E d_e (AIdent ''missing'') 0 ?p = Ret (OError ''name error: missing'', ?p)"
    by code_simp
  have c7: "evalPipe DX ?E d_e
         (AInt 5 # [AIdent ''double''] @ ACall (AIdent ''missing'') [] # []) 0 d_state
       = Ret (OError ''name error: missing'', ?p)"
    by (rule Q6 [THEN conjunct1, rule_format], intro conjI, rule r, rule m1)
  have f1: "?E d_e (AIdent ''sub'') 0 ?p = Ret (OBuiltin 1, ?p)" by code_simp
  have a1: "x_evalExpressions DX ?E d_e [error_call] 0 ?p
      = Ret ([?boom], d_log (OBuiltin 2) [] ?p)" by code_simp
  have c8: "evalPipe DX ?E d_e
         (AInt 5 # [AIdent ''double''] @ ACall (AIdent ''sub'') [error_call] # []) 0 d_state
       = Ret (?boom, d_log (OBuiltin 2) [] ?p)"
    by (rule Q7 [THEN conjunct1, rule_format], intro conjI, rule r, rule f1, simp, simp, rule a1)
  have f2: "?E d_e (AIdent ''error'') 0 ?p = Ret (OBuiltin 2, ?p)" by code_simp
  have a2: "pipe_arguments DX ?E d_e [] 0 ?p = Ret (Proceed [], ?p)"
    by (rule pipe_arguments_none)
  have a3: "x_applyFunction DX ?E d_e 0 (OBuiltin 2)
       (if OInt 10 \<noteq> NoObject then OInt 10 # [] else []) ?p
      = Ret (?boom, d_log (OBuiltin 2) [OInt 10] ?p)" by code_simp
  have c9: "evalPipe DX ?E d_e
         (AInt 5 # [AIdent ''double''] @ ACall (AIdent ''error'') [] # []) 0 d_state
       = Ret (?boom, d_log (OBuiltin 2) [OInt 10] ?p)"
    by (rule Q8 [THEN conjunct1, rule_format], intro conjI, rule r, rule f2, simp, rule a2,
        rule a3)
  have e1: "?E d_e error_call 0 ?p = Ret (?boom, d_log (OBuiltin 2) [] ?p)" by code_simp
  have c10: "evalPipe DX ?E d_e
         (AInt 5 # [AIdent ''double''] @ AObjectCall error_call (ACall (AIdent ''m'') []) # [])
         0 d_state
       = Ret (?boom, d_log (OBuiltin 2) [] ?p)"
    by (rule Q9 [THEN conjunct1, rule_format], intro conjI, rule r, rule e1)
  have c11: "evalPipe DX ?E d_e
         (AInt 5 # [AIdent ''double''] @ AIdent ''missing'' # []) 0 d_state
       = Ret (OError ''name error: missing'', ?p)"
    by (rule Q10 [THEN conjunct1, rule_format], intro conjI, rule r, simp add: bare_def, rule m1)
  have fs: "for_scopes 0 d_state = (1, 2, d_for_state)"
    by (simp add: d_for_state_def for_scopes_eq d_state_def)
  have e2: "?E d_e error_call 1 d_for_state = Ret (?boom, d_log (OBuiltin 2) [] d_for_state)"
    by code_simp
  have c12: "evalFor DX 6 ?E d_e error_call sum_cond sum_body sum_post False False 0 d_state
       = Ret (?boom, d_log (OBuiltin 2) [] d_for_state)"
    by (rule Q11 [THEN conjunct1, rule_format], intro conjI, rule fs, simp add: error_call_def,
        rule e2)
  have p0: "\<And>pass x. passes 0 pass x = Some x" by simp
  have b1: "?E d_e (ABlock [error_call]) 2 (Clear 2 d_for_state)
      = Ret (?boom, d_log (OBuiltin 2) [] (d_count d_for_state))" by code_simp
  have c13: "forLoop_simple DX (0 + Suc 5) ?E d_e (ABlock [error_call]) 2 ONil d_for_state
       = Ret (?boom, d_log (OBuiltin 2) [] (d_count d_for_state))"
    by (rule Q12 [THEN conjunct1, rule_format], intro conjI, rule p0, rule b1)
  have e3: "?E d_e error_call 1 (Clear 2 d_for_state)
      = Ret (?boom, d_log (OBuiltin 2) [] d_for_state)" by code_simp
  have c14: "forLoop_cond DX (0 + Suc 5) ?E d_e error_call sum_body sum_post 1 2 ONil d_for_state
       = Ret (?boom, d_log (OBuiltin 2) [] d_for_state)"
    by (rule Q13 [THEN conjunct1, rule_format], intro conjI, rule p0, rule e3)
  have t1: "?E d_e (ABool True) 1 (Clear 2 d_for_state) = Ret (OBool True, d_for_state)"
    by code_simp
  have t2: "x_IsTruthy DX (OBool True)" by (simp add: DX_def)
  have b2: "?E d_e (ABlock [error_call]) 2 d_for_state
      = Ret (?boom, d_log (OBuiltin 2) [] (d_count d_for_state))" by code_simp
  have c15: "forLoop_cond DX (0 + Suc 5) ?E d_e (ABool True) (ABlock [error_call]) sum_post
         1 2 ONil d_for_state
       = Ret (?boom, d_log (OBuiltin 2) [] (d_count d_for_state))"
    by (rule Q14 [THEN conjunct1, rule_format], intro conjI, rule p0, rule t1, simp, simp,
        rule t2, rule b2)
  have b3: "?E d_e (ABlock [AInt 1]) 2 d_for_state = Ret (OInt 1, d_count d_for_state)"
    by code_simp
  have e4: "?E d_e error_call 1 (d_count d_for_state)
      = Ret (?boom, d_log (OBuiltin 2) [] (d_count d_for_state))" by code_simp
  have c16: "forLoop_cond DX (0 + Suc 5) ?E d_e (ABool True) (ABlock [AInt 1]) error_call
         1 2 ONil d_for_state
       = Ret (?boom, d_log (OBuiltin 2) [] (d_count d_for_state))"
    by (rule Q15 [THEN conjunct1, rule_format], intro conjI, rule p0, rule t1, simp, simp,
        rule t2, rule b3, simp, simp, simp, simp add: error_call_def, rule e4)
  have e5: "?E d_e error_call 2 d_for_state = Ret (?boom, d_log (OBuiltin 2) [] d_for_state)"
    by code_simp
  have c17: "evalIteratorForLoop DX 6 ?E d_e (AVar ''k'' error_call) sum_body 2 d_for_state
       = Ret (?boom, d_log (OBuiltin 2) [] d_for_state)"
    by (rule Q16 [THEN conjunct1, rule_format]) (rule e5)
  let ?n1 = "snd (x_Next DX ?it d_for_state)"
  let ?n2 = "snd (x_Next DX ?it (with_entries 2 [(''k'', OInt 0, False)] d_for_state))"
  have n1: "x_Next DX ?it (Clear 2 d_for_state) = (Some (OInt 0, OString ''a''), ?n1)"
    by code_simp
  have n2: "Declare 2 ([''k''] ! 0) (OInt 0) False ?n1 = Inr ?n2" by code_simp
  have n3: "(if length [''k''] > 1 then Declare 2 ([''k''] ! 1) (OString ''a'') False ?n2
             else Inr ?n2) = Inr ?n2" by simp
  have b4: "?E d_e (ABlock [error_call]) 2 ?n2
      = Ret (?boom, d_log (OBuiltin 2) [] (d_count ?n2))" by code_simp
  have c18: "forLoop_iter DX (0 + Suc 5) ?E d_e [''k''] (ABlock [error_call]) 2 ?it ONil
         d_for_state
       = Ret (?boom, d_log (OBuiltin 2) [] (d_count ?n2))"
    by (rule Q17 [THEN conjunct1, rule_format], intro conjI, rule p0, rule n1, rule n2,
        rule n3, rule b4)
  have t0: "?E d_e (ABool True) 0 d_state = Ret (OBool True, d_state)" by code_simp
  have c19: "evalIf DX ?E d_e (ABool True) error_call ANone 0 d_state
       = Ret (?boom, d_log (OBuiltin 2) [] d_state)"
    by (rule Q18 [THEN conjunct1, rule_format], intro conjI, rule t0, simp, simp, rule t2,
        rule e0)
  have t3: "?E d_e (ABool False) 0 d_state = Ret (OBool False, d_state)" by code_simp
  have t4: "\<not> x_IsTruthy DX (OBool False)" by (simp add: DX_def)
  have c20: "evalIf DX ?E d_e (ABool False) (AInt 1) error_call 0 d_state
       = Ret (?boom, d_log (OBuiltin 2) [] d_state)"
    by (rule Q19 [THEN conjunct1, rule_format], intro conjI, rule t3, simp, simp, rule t4,
        simp add: error_call_def, rule e0)
  let ?eb = "ABlock [error_call]"
  have s4: "candidates [Choice False [AInt 1, AInt 2] ?eb, Choice False [AInt 2] block_B]
      = [(AInt 1, ?eb)] @ (AInt 2, ?eb) # [(AInt 2, block_B)]"
    by (simp add: candidates_def)
  have s5: "misses DX ?E d_e (OInt 2) 0 [(AInt 1, ?eb)] d_state = Some d_state"
    by code_simp
  have s6: "x_Equals DX (OInt 2) (OInt 2)" by (simp add: DX_def)
  have s7: "x_evalBlockStatement DX ?E d_e ?eb 0 d_state
      = Ret (?boom, d_log (OBuiltin 2) [] (d_count d_state))" by code_simp
  have c21: "evalSwitch DX ?E d_e (AInt 2)
         [Choice False [AInt 1, AInt 2] ?eb, Choice False [AInt 2] block_B] 0 d_state
       = Ret (?boom, d_log (OBuiltin 2) [] (d_count d_state))"
    by (rule Q20 [THEN conjunct1, rule_format], intro conjI, rule s1, simp, rule s4, rule s5,
        rule s1, simp, rule s6, rule s7)
  let ?dc = "[Choice False [AInt 1] block_A, Choice True [] ?eb]"
  have s8: "?E d_e (AInt 3) 0 d_state = Ret (OInt 3, d_state)" by code_simp
  have s9: "misses DX ?E d_e (OInt 3) 0 (candidates ?dc) d_state = Some d_state" by code_simp
  have s10: "x_evalBlockStatement DX ?E d_e (default_block ?dc) 0 d_state
      = Ret (?boom, d_log (OBuiltin 2) [] (d_count d_state))" by code_simp
  have c22: "evalSwitch DX ?E d_e (AInt 3) ?dc 0 d_state
       = Ret (?boom, d_log (OBuiltin 2) [] (d_count d_state))"
    by (rule Q21 [THEN conjunct1, rule_format], intro conjI, rule s8, simp, rule s9, simp,
        rule s10)
  have o1: "?E d_e (AInt 1) 0 ?p = Ret (OInt 1, ?p)" by code_simp
  have c23: "evalPipe DX ?E d_e
         (AInt 5 # [AIdent ''double'']
            @ AObjectCall (AInt 1) (ACall (AIdent ''m'') [error_call]) # []) 0 d_state
       = Ret (?boom, d_log (OBuiltin 2) [] ?p)"
    by (rule Q22 [THEN conjunct1, rule_format], intro conjI, rule r, rule o1, simp, simp,
        rule a1)
  have o2: "x_evalObjectCall DX ?E d_e 0 (OInt 1) ''m''
       (if OInt 10 \<noteq> NoObject then OInt 10 # [] else []) ?p
      = Ret (OError ''type error: no method m'', d_log (OInt 1) [OInt 10] ?p)" by code_simp
  have c24: "evalPipe DX ?E d_e
         (AInt 5 # [AIdent ''double''] @ AObjectCall (AInt 1) (ACall (AIdent ''m'') []) # [])
         0 d_state
       = Ret (OError ''type error: no method m'', d_log (OInt 1) [OInt 10] ?p)"
    by (rule Q23 [THEN conjunct1, rule_format], intro conjI, rule r, rule o1, simp, rule a2,
        rule o2)
  have cb: "callable (OBuiltin 2)" by (simp add: callable_def)
  have a4: "x_applyFunction DX ?E d_e 0 (OBuiltin 2)
       (if OInt 10 \<noteq> NoObject then [OInt 10] else []) ?p
      = Ret (?boom, d_log (OBuiltin 2) [OInt 10] ?p)" by code_simp
  have c25: "evalPipe DX ?E d_e (AInt 5 # [AIdent ''double''] @ AIdent ''error'' # []) 0 d_state
       = Ret (?boom, d_log (OBuiltin 2) [OInt 10] ?p)"
    by (rule Q24 [THEN conjunct1, rule_format], intro conjI, rule r, simp add: bare_def,
        rule f2, rule cb, rule a4)
  have c26: "evalIteratorForLoop DX 6 ?E d_e (AMultiVar [''k'', ''v''] error_call) sum_body 2
         d_for_state
       = Ret (?boom, d_log (OBuiltin 2) [] d_for_state)"
    by (rule Q25 [THEN conjunct1, rule_format], intro conjI, simp, simp, rule e5)
  let ?fr = "[Fragment False ''x='']"
  have g1: "contributions DX ?E [error_call] ?fr 0 0 d_state = Ret (Proceed [''x=''], d_state)"
    by code_simp
  have g2: "New DX Opts_zero d_state = (fst (New DX Opts_zero d_state), d_state)"
    by code_simp
  have g3: "?E (fst (New DX Opts_zero d_state)) ([error_call] ! length (filter IsVariable ?fr))
         0 d_state
      = Ret (?boom, d_log (OBuiltin 2) [] d_state)" by code_simp
  have c27: "evalStringLiteral DX ?E ''t''
         (Some (?fr @ Fragment True ''N'' # [Fragment False ''!''])) [error_call] 0 d_state
       = Ret (?boom, d_log (OBuiltin 2) [] d_state)"
    by (rule Q26 [THEN conjunct1, rule_format], intro conjI, rule g1, simp, simp,
        simp add: error_call_def, rule g2, rule g3)
  have i0: "init_run ?E d_e ANone 1 d_for_state = Some d_for_state" by (simp add: init_run_def)
  have c28: "evalFor DX (0 + Suc 5) ?E d_e ANone ANone (ABlock [error_call]) ANone True False
         0 d_state
       = Ret (?boom, d_log (OBuiltin 2) [] (d_count d_for_state))"
    by (rule Q27 [rule_format], intro conjI, rule fs, rule i0, rule p0, rule b1)
  show ?thesis
    by (intro conjI) (fact e0 ex c1 c2 c3 c4 c5 c6 c7 c8 c9 c10 c11 c12 c13 c14 c15 c16 c17 c18
          c19 c20 c21 c22 c23 c24 c25 c26 c27 c28)+
qed

subsection \<open>Call stages of a pipe\<close>

text \<open>
  C2, as amended. Let a stage of a pipe be a plain call \<open>f(args)\<close> or a method-style
  call \<open>obj.m(args)\<close>, entered with the piped value \<open>nextArg\<close> after the stages
  \<open>pre\<close>; let the callee (or the object) evaluate to a value that is no error, and
  let \<open>vs\<close> be the values of the explicit arguments, in the order in which
  \<open>evalExpressions\<close> returns them. When the piped value is present (not Go's nil),
  the callee is invoked (through \<open>applyFunction\<close>, or \<open>evalObjectCall\<close> with the
  method's name) with the list \<open>nextArg # vs\<close>: the piped value first, then the
  explicit arguments in their order. When the piped value is nil, the callee is invoked
  with \<open>vs\<close> alone. An error of the call ends the pipe with that error, and any
  other result is the piped value of the next stage. (\<open>prependObject\<close> puts an
  object in front of a list.) In the witness \<open>5 |> sub(10)\<close> with
  \<open>sub(a, b) = a - b\<close> yields -5, not 5, and \<open>sub\<close> is called with 5 and 10.
\<close>

theorem pipe_call_stage_arguments:
  "(pipe_reaches X (Evaluate X n) e src pre s st = Some (nextArg, st1)
      \<and> Evaluate X n e fnode s st1 = Ret (f, st2) \<and> \<not> IsError f
      \<and> pipe_arguments X (Evaluate X n) e arguments s st2 = Ret (Proceed vs, st3)
      \<and> nextArg \<noteq> NoObject
    \<longrightarrow> evalPipe X (Evaluate X n) e (src # pre @ ACall fnode arguments # rest) s st =
          bind (x_applyFunction X (Evaluate X n) e s f (nextArg # vs) st3) (\<lambda>(res, st4).
            if IsError res then Ret (res, st4)
            else pipe_stages X (Evaluate X n) e rest (length pre + 1) s res st4))
   \<and> (pipe_reaches X (Evaluate X n) e src pre s st = Some (NoObject, st1)
      \<and> Evaluate X n e fnode s st1 = Ret (f, st2) \<and> \<not> IsError f
      \<and> pipe_arguments X (Evaluate X n) e arguments s st2 = Ret (Proceed vs, st3)
    \<longrightarrow> evalPipe X (Evaluate X n) e (src # pre @ ACall fnode arguments # rest) s st =
          bind (x_applyFunction X (Evaluate X n) e s f vs st3) (\<lambda>(res, st4).
            if IsError res then Ret (res, st4)
            else pipe_stages X (Evaluate X n) e rest (length pre + 1) s res st4))
   \<and> (pipe_reaches X (Evaluate X n) e src pre s st = Some (nextArg, st1)
      \<and> Evaluate X n e onode s st1 = Ret (ob, st2) \<and> \<not> IsError ob
      \<and> pipe_arguments X (Evaluate X n) e arguments s st2 = Ret (Proceed vs, st3)
      \<and> nextArg \<noteq> NoObject
    \<longrightarrow> evalPipe X (Evaluate X n) e
            (src # pre @ AObjectCall onode (ACall (AIdent method) arguments) # rest) s st =
          bind (x_evalObjectCall X (Evaluate X n) e s ob method (nextArg # vs) st3)
            (\<lambda>(res, st4).
              if IsError res then Ret (res, st4)
              else pipe_stages X (Evaluate X n) e rest (length pre + 1) s res st4))
   \<and> (pipe_reaches X (Evaluate X n) e src pre s st = Some (NoObject, st1)
      \<and> Evaluate X n e onode s st1 = Ret (ob, st2) \<and> \<not> IsError ob
      \<and> pipe_arguments X (Evaluate X n) e arguments s st2 = Ret (Proceed vs, st3)
    \<longrightarrow> evalPipe X (Evaluate X n) e
            (src # pre @ AObjectCall onode (ACall (AIdent method) arguments) # rest) s st =
          bind (x_evalObjectCall X (Evaluate X n) e s ob method vs st3) (\<lambda>(res, st4).
            if IsError res then Ret (res, st4)
            else pipe_stages X (Evaluate X n) e rest (length pre + 1) s res st4))
   \<and> (arguments \<noteq> [] \<and> x_evalExpressions X (Evaluate X n) e arguments s st2 = Ret (vs, st3)
      \<and> (length vs = 1 \<and> IsError (vs ! 0)) = False
    \<longrightarrow> pipe_arguments X (Evaluate X n) e arguments s st2 = Ret (Proceed vs, st3))
   \<and> pipe_arguments X (Evaluate X n) e [] s st2 = Ret (Proceed [], st2)
   \<and> prependObject vs nextArg = nextArg # vs"
proof (intro conjI impI; (elim conjE)?)
  have k: "\<And>m g. bind (bind m (\<lambda>(res, st3).
            if IsError res then Ret (Returned res, st3) else Ret (Proceed res, st3)))
        (\<lambda>(r, st2). case r of Returned res \<Rightarrow> Ret (res, st2) | Proceed next \<Rightarrow> g next st2)
      = bind m (\<lambda>(res, st4). if IsError res then Ret (res, st4) else g res st4)"
    by (simp add: bind_assoc) (auto intro!: bind_cong_Ret)
  show "evalPipe X (Evaluate X n) e (src # pre @ ACall fnode arguments # rest) s st =
          bind (x_applyFunction X (Evaluate X n) e s f (nextArg # vs) st3) (\<lambda>(res, st4).
            if IsError res then Ret (res, st4)
            else pipe_stages X (Evaluate X n) e rest (length pre + 1) s res st4)"
    if "pipe_reaches X (Evaluate X n) e src pre s st = Some (nextArg, st1)"
      "Evaluate X n e fnode s st1 = Ret (f, st2)" "\<not> IsError f"
      "pipe_arguments X (Evaluate X n) e arguments s st2 = Ret (Proceed vs, st3)"
      "nextArg \<noteq> NoObject"
    using that(5)
    by (simp only: evalPipe_at_stage [where ev = "Evaluate X n", OF that(1)]
          pipe_stage_call [where ev = "Evaluate X n", OF that(2-4)] k if_True simp_thms)
  show "evalPipe X (Evaluate X n) e (src # pre @ ACall fnode arguments # rest) s st =
          bind (x_applyFunction X (Evaluate X n) e s f vs st3) (\<lambda>(res, st4).
            if IsError res then Ret (res, st4)
            else pipe_stages X (Evaluate X n) e rest (length pre + 1) s res st4)"
    if "pipe_reaches X (Evaluate X n) e src pre s st = Some (NoObject, st1)"
      "Evaluate X n e fnode s st1 = Ret (f, st2)" "\<not> IsError f"
      "pipe_arguments X (Evaluate X n) e arguments s st2 = Ret (Proceed vs, st3)"
    by (simp only: evalPipe_at_stage [where ev = "Evaluate X n", OF that(1)]
          pipe_stage_call [where ev = "Evaluate X n", OF that(2-4)] k
          simp_thms if_False)
  show "evalPipe X (Evaluate X n) e
            (src # pre @ AObjectCall onode (ACall (AIdent method) arguments) # rest) s st =
          bind (x_evalObjectCall X (Evaluate X n) e s ob method (nextArg # vs) st3)
            (\<lambda>(res, st4).
              if IsError res then Ret (res, st4)
              else pipe_stages X (Evaluate X n) e rest (length pre + 1) s res st4)"
    if "pipe_reaches X (Evaluate X n) e src pre s st = Some (nextArg, st1)"
      "Evaluate X n e onode s st1 = Ret (ob, st2)" "\<not> IsError ob"
      "pipe_arguments X (Evaluate X n) e arguments s st2 = Ret (Proceed vs, st3)"
      "nextArg \<noteq> NoObject"
    using that(5)
    by (simp only: evalPipe_at_stage [where ev = "Evaluate X n", OF that(1)]
          pipe_stage_objectcall [where ev = "Evaluate X n", OF that(2-4)] k if_True simp_thms)
  show "evalPipe X (Evaluate X n) e
            (src # pre @ AObjectCall onode (ACall (AIdent method) arguments) # rest) s st =
          bind (x_evalObjectCall X (Evaluate X n) e s ob method vs st3) (\<lambda>(res, st4).
            if IsError res then Ret (res, st4)
            else pipe_stages X (Evaluate X n) e rest (length pre + 1) s res st4)"
    if "pipe_reaches X (Evaluate X n) e src pre s st = Some (NoObject, st1)"
      "Evaluate X n e onode s st1 = Ret (ob, st2)" "\<not> IsError ob"
      "pipe_arguments X (Evaluate X n) e arguments s st2 = Ret (Proceed vs, st3)"
    by (simp only: evalPipe_at_stage [where ev = "Evaluate X n", OF that(1)]
          pipe_stage_objectcall [where ev = "Evaluate X n", OF that(2-4)] k
          simp_thms if_False)
  show "pipe_arguments X (Evaluate X n) e arguments s st2 = Ret (Proceed vs, st3)"
    if "arguments \<noteq> []" "x_evalExpressions X (Evaluate X n) e arguments s st2 = Ret (vs, st3)"
      "(length vs = 1 \<and> IsError (vs ! 0)) = False"
    using that by (auto simp: pipe_arguments_def)
  show "pipe_arguments X (Evaluate X n) e [] s st2 = Ret (Proceed [], st2)"
    by (rule pipe_arguments_none)
  show "prependObject vs nextArg = nextArg # vs"
    by (rule prependObject_Cons)
qed


theorem pipe_call_stage_arguments_witness:
  "pipe_reaches DX (Evaluate DX 6) d_e (AInt 5) [] 0 d_state = Some (OInt 5, d_state)
   \<and> Evaluate DX 6 d_e (AIdent ''sub'') 0 d_state = Ret (OBuiltin 1, d_state)
   \<and> x_evalExpressions DX (Evaluate DX 6) d_e [AInt 10] 0 d_state = Ret ([OInt 10], d_state)
   \<and> pipe_arguments DX (Evaluate DX 6) d_e [AInt 10] 0 d_state
       = Ret (Proceed [OInt 10], d_state)
   \<and> evalPipe DX (Evaluate DX 6) d_e (AInt 5 # [] @ ACall (AIdent ''sub'') [AInt 10] # [])
         0 d_state
       = Ret (OInt (- 5), d_log (OBuiltin 1) [OInt 5, OInt 10] d_state)
   \<and> OInt (- 5) \<noteq> OInt 5
   \<and> Evaluate DX 7 d_e sub_pipe 0 d_state
       = Ret (OInt (- 5), d_log (OBuiltin 1) [OInt 5, OInt 10] d_state)
   \<and> evalPipe DX (Evaluate DX 6) d_e
         (AInt 5 # [] @ ACall (AIdent ''sub'') [AInt 10, AInt 20] # []) 0 d_state
       = Ret (OError ''type error: sub() takes exactly 2 arguments'',
              d_log (OBuiltin 1) [OInt 5, OInt 10, OInt 20] d_state)
   \<and> evalPipe DX (Evaluate DX 6) d_e
         (ACall (AIdent ''noop'') [] # [] @ ACall (AIdent ''sub'') [AInt 10, AInt 20] # [])
         0 d_state
       = Ret (OInt (- 10),
              d_log (OBuiltin 1) [OInt 10, OInt 20] (d_log (OBuiltin 3) [] d_state))
   \<and> evalPipe DX (Evaluate DX 6) d_e
         (AInt 5 # [] @ AObjectCall (AIdent ''sum'') (ACall (AIdent ''m'') [AInt 10]) # [])
         0 d_state
       = Ret (OError ''type error: no method m'', d_log (OInt 0) [OInt 5, OInt 10] d_state)
   \<and> evalPipe DX (Evaluate DX 6) d_e
         (ACall (AIdent ''noop'') [] # []
            @ AObjectCall (AIdent ''sum'') (ACall (AIdent ''m'') [AInt 10]) # []) 0 d_state
       = Ret (OError ''type error: no method m'',
              d_log (OInt 0) [OInt 10] (d_log (OBuiltin 3) [] d_state))"
proof -
  let ?E = "Evaluate DX 6"
  let ?noop = "ACall (AIdent ''noop'') []"
  let ?n = "d_log (OBuiltin 3) [] d_state"
  note P = pipe_call_stage_arguments [where X = DX and n = 6 and e = d_e]
  note Q1 = P [THEN conjunct2] note Q2 = Q1 [THEN conjunct2] note Q3 = Q2 [THEN conjunct2]
  note Q4 = Q3 [THEN conjunct2]
  have r0: "pipe_reaches DX ?E d_e (AInt 5) [] 0 d_state = Some (OInt 5, d_state)"
    by code_simp
  have r1: "pipe_reaches DX ?E d_e ?noop [] 0 d_state = Some (NoObject, ?n)" by code_simp
  have f0: "?E d_e (AIdent ''sub'') 0 d_state = Ret (OBuiltin 1, d_state)" by code_simp
  have f1: "?E d_e (AIdent ''sub'') 0 ?n = Ret (OBuiltin 1, ?n)" by code_simp
  have o0: "?E d_e (AIdent ''sum'') 0 d_state = Ret (OInt 0, d_state)" by code_simp
  have o1: "?E d_e (AIdent ''sum'') 0 ?n = Ret (OInt 0, ?n)" by code_simp
  have x1: "x_evalExpressions DX ?E d_e [AInt 10] 0 d_state = Ret ([OInt 10], d_state)"
    by code_simp
  have x1n: "x_evalExpressions DX ?E d_e [AInt 10] 0 ?n = Ret ([OInt 10], ?n)"
    by code_simp
  have x2: "x_evalExpressions DX ?E d_e [AInt 10, AInt 20] 0 d_state
      = Ret ([OInt 10, OInt 20], d_state)" by code_simp
  have x2n: "x_evalExpressions DX ?E d_e [AInt 10, AInt 20] 0 ?n
      = Ret ([OInt 10, OInt 20], ?n)" by code_simp
  have a1: "pipe_arguments DX ?E d_e [AInt 10] 0 d_state = Ret (Proceed [OInt 10], d_state)"
    by (rule Q4 [THEN conjunct1, rule_format], intro conjI, simp, rule x1, simp)
  have a1n: "pipe_arguments DX ?E d_e [AInt 10] 0 ?n = Ret (Proceed [OInt 10], ?n)"
    by (rule Q4 [THEN conjunct1, rule_format], intro conjI, simp, rule x1n, simp)
  have a2: "pipe_arguments DX ?E d_e [AInt 10, AInt 20] 0 d_state
      = Ret (Proceed [OInt 10, OInt 20], d_state)"
    by (rule Q4 [THEN conjunct1, rule_format], intro conjI, simp, rule x2, simp)
  have a2n: "pipe_arguments DX ?E d_e [AInt 10, AInt 20] 0 ?n
      = Ret (Proceed [OInt 10, OInt 20], ?n)"
    by (rule Q4 [THEN conjunct1, rule_format], intro conjI, simp, rule x2n, simp)
  have c1a: "evalPipe DX ?E d_e (AInt 5 # [] @ ACall (AIdent ''sub'') [AInt 10] # []) 0 d_state =
          bind (x_applyFunction DX ?E d_e 0 (OBuiltin 1) (OInt 5 # [OInt 10]) d_state)
            (\<lambda>(res, st4).
              if IsError res then Ret (res, st4)
              else pipe_stages DX ?E d_e [] (length ([] :: node list) + 1) 0 res st4)"
    by (rule P [THEN conjunct1, rule_format], intro conjI, rule r0, rule f0, simp, rule a1,
        simp)
  have c1b: "bind (x_applyFunction DX ?E d_e 0 (OBuiltin 1) (OInt 5 # [OInt 10]) d_state)
            (\<lambda>(res, st4).
              if IsError res then Ret (res, st4)
              else pipe_stages DX ?E d_e [] (length ([] :: node list) + 1) 0 res st4)
      = Ret (OInt (- 5), d_log (OBuiltin 1) [OInt 5, OInt 10] d_state)"
    by code_simp
  have c1: "evalPipe DX ?E d_e (AInt 5 # [] @ ACall (AIdent ''sub'') [AInt 10] # [])
         0 d_state = Ret (OInt (- 5), d_log (OBuiltin 1) [OInt 5, OInt 10] d_state)"
    by (simp only: c1a c1b)
  have ne: "OInt (- 5) \<noteq> OInt 5" by simp
  have ex: "Evaluate DX 7 d_e sub_pipe 0 d_state
       = Ret (OInt (- 5), d_log (OBuiltin 1) [OInt 5, OInt 10] d_state)" by code_simp
  have c2a: "evalPipe DX ?E d_e (AInt 5 # [] @ ACall (AIdent ''sub'') [AInt 10, AInt 20] # [])
          0 d_state =
          bind (x_applyFunction DX ?E d_e 0 (OBuiltin 1) (OInt 5 # [OInt 10, OInt 20]) d_state)
            (\<lambda>(res, st4).
              if IsError res then Ret (res, st4)
              else pipe_stages DX ?E d_e [] (length ([] :: node list) + 1) 0 res st4)"
    by (rule P [THEN conjunct1, rule_format], intro conjI, rule r0, rule f0, simp, rule a2,
        simp)
  have c2b: "bind (x_applyFunction DX ?E d_e 0 (OBuiltin 1) (OInt 5 # [OInt 10, OInt 20]) d_state)
            (\<lambda>(res, st4).
              if IsError res then Ret (res, st4)
              else pipe_stages DX ?E d_e [] (length ([] :: node list) + 1) 0 res st4)
      = Ret (OError ''type error: sub() takes exactly 2 arguments'',
              d_log (OBuiltin 1) [OInt 5, OInt 10, OInt 20] d_state)"
    by code_simp
  have c2: "evalPipe DX ?E d_e
         (AInt 5 # [] @ ACall (AIdent ''sub'') [AInt 10, AInt 20] # []) 0 d_state
       = Ret (OError ''type error: sub() takes exactly 2 arguments'',
              d_log (OBuiltin 1) [OInt 5, OInt 10, OInt 20] d_state)"
    by (simp only: c2a c2b)
  have c3a: "evalPipe DX ?E d_e (?noop # [] @ ACall (AIdent ''sub'') [AInt 10, AInt 20] # [])
          0 d_state =
          bind (x_applyFunction DX ?E d_e 0 (OBuiltin 1) [OInt 10, OInt 20] ?n)
            (\<lambda>(res, st4).
              if IsError res then Ret (res, st4)
              else pipe_stages DX ?E d_e [] (length ([] :: node list) + 1) 0 res st4)"
    by (rule Q1 [THEN conjunct1, rule_format], intro conjI, rule r1, rule f1, simp, rule a2n)
  have c3b: "bind (x_applyFunction DX ?E d_e 0 (OBuiltin 1) [OInt 10, OInt 20] ?n)
            (\<lambda>(res, st4).
              if IsError res then Ret (res, st4)
              else pipe_stages DX ?E d_e [] (length ([] :: node list) + 1) 0 res st4)
      = Ret (OInt (- 10), d_log (OBuiltin 1) [OInt 10, OInt 20] ?n)"
    by code_simp
  have c3: "evalPipe DX ?E d_e
         (?noop # [] @ ACall (AIdent ''sub'') [AInt 10, AInt 20] # []) 0 d_state
       = Ret (OInt (- 10), d_log (OBuiltin 1) [OInt 10, OInt 20] ?n)"
    by (simp only: c3a c3b)
  have c4a: "evalPipe DX ?E d_e
         (AInt 5 # [] @ AObjectCall (AIdent ''sum'') (ACall (AIdent ''m'') [AInt 10]) # [])
         0 d_state =
          bind (x_evalObjectCall DX ?E d_e 0 (OInt 0) ''m'' (OInt 5 # [OInt 10]) d_state)
            (\<lambda>(res, st4).
              if IsError res then Ret (res, st4)
              else pipe_stages DX ?E d_e [] (length ([] :: node list) + 1) 0 res st4)"
    by (rule Q2 [THEN conjunct1, rule_format], intro conjI, rule r0, rule o0, simp, rule a1,
        simp)
  have c4b: "bind (x_evalObjectCall DX ?E d_e 0 (OInt 0) ''m'' (OInt 5 # [OInt 10]) d_state)
            (\<lambda>(res, st4).
              if IsError res then Ret (res, st4)
              else pipe_stages DX ?E d_e [] (length ([] :: node list) + 1) 0 res st4)
      = Ret (OError ''type error: no method m'', d_log (OInt 0) [OInt 5, OInt 10] d_state)"
    by code_simp
  have c4: "evalPipe DX ?E d_e
         (AInt 5 # [] @ AObjectCall (AIdent ''sum'') (ACall (AIdent ''m'') [AInt 10]) # [])
         0 d_state
       = Ret (OError ''type error: no method m'', d_log (OInt 0) [OInt 5, OInt 10] d_state)"
    by (simp only: c4a c4b)
  have c5a: "evalPipe DX ?E d_e
         (?noop # [] @ AObjectCall (AIdent ''sum'') (ACall (AIdent ''m'') [AInt 10]) # [])
         0 d_state =
          bind (x_evalObjectCall DX ?E d_e 0 (OInt 0) ''m'' [OInt 10] ?n)
            (\<lambda>(res, st4).
              if IsError res then Ret (res, st4)
              else pipe_stages DX ?E d_e [] (length ([] :: node list) + 1) 0 res st4)"
    by (rule Q3 [THEN conjunct1, rule_format], intro conjI, rule r1, rule o1, simp, rule a1n)
  have c5b: "bind (x_evalObjectCall DX ?E d_e 0 (OInt 0) ''m'' [OInt 10] ?n)
            (\<lambda>(res, st4).
              if IsError res then Ret (res, st4)
              else pipe_stages DX ?E d_e [] (length ([] :: node list) + 1) 0 res st4)
      = Ret (OError ''type error: no method m'', d_log (OInt 0) [OInt 10] ?n)"
    by code_simp
  have c5: "evalPipe DX ?E d_e
         (?noop # [] @ AObjectCall (AIdent ''sum'') (ACall (AIdent ''m'') [AInt 10]) # [])
         0 d_state
       = Ret (OError ''type error: no method m'', d_log (OInt 0) [OInt 10] ?n)"
    by (simp only: c5a c5b)
  show ?thesis
    by (intro conjI) (fact r0 f0 x1 a1 c1 ne ex c2 c3 c4 c5)+
qed

text \<open>
  C2, as stated, fails when the previous stage has no result: the builtin \<open>noop\<close>
  returns Go's nil, and in \<open>noop() |> sub(10)\<close> the callee \<open>sub\<close> is invoked with
  the explicit argument 10 alone (the log of calls in the resulting state), which is
  not the call with the previous result in front.
\<close>

theorem pipe_prepend_nil_counterexample:
  "pipe_reaches DX (Evaluate DX 6) d_e (ACall (AIdent ''noop'') []) [] 0 d_state
     = Some (NoObject, d_log (OBuiltin 3) [] d_state)
   \<and> Evaluate DX 6 d_e (AIdent ''sub'') 0 (d_log (OBuiltin 3) [] d_state)
     = Ret (OBuiltin 1, d_log (OBuiltin 3) [] d_state)
   \<and> pipe_arguments DX (Evaluate DX 6) d_e [AInt 10] 0 (d_log (OBuiltin 3) [] d_state)
     = Ret (Proceed [OInt 10], d_log (OBuiltin 3) [] d_state)
   \<and> evalPipe DX (Evaluate DX 6) d_e
         (ACall (AIdent ''noop'') [] # [] @ ACall (AIdent ''sub'') [AInt 10] # []) 0 d_state
     = Ret (OError ''type error: sub() takes exactly 2 arguments'',
            d_log (OBuiltin 1) [OInt 10] (d_log (OBuiltin 3) [] d_state))
   \<and> evalPipe DX (Evaluate DX 6) d_e
         (ACall (AIdent ''noop'') [] # [] @ ACall (AIdent ''sub'') [AInt 10] # []) 0 d_state
     \<noteq> bind (x_applyFunction DX (Evaluate DX 6) d_e 0 (OBuiltin 1) (NoObject # [OInt 10])
               (d_log (OBuiltin 3) [] d_state)) (\<lambda>(res, st4).
            if IsError res then Ret (res, st4)
            else pipe_stages DX (Evaluate DX 6) d_e [] (length ([] :: node list) + 1) 0 res st4)
   \<and> Evaluate DX 7 d_e noop_pipe 0 d_state
     = Ret (OError ''type error: sub() takes exactly 2 arguments'',
            d_log (OBuiltin 1) [OInt 10] (d_log (OBuiltin 3) [] d_state))"
  by code_simp

subsection \<open>Bare stages of a pipe\<close>





subsection \<open>The breakpoint table\<close>

text \<open>
  C4. The claim is that every breakpoint given to \<open>New\<close> is found again under its own
  file and line with its own flags. The code stores the address of the one loop
  variable under every key, so every lookup yields the last breakpoint of the list
  (lemma \<open>GetBreakpoint_New\<close>). For the breakpoints \<open>bp1\<close> (main.tm:1, enabled, trace
  and stop) and \<open>bp2\<close> (main.tm:2, disabled, no trace, no stop), whose keys differ,
  looking up file and line of \<open>bp1\<close> finds a pointer to \<open>bp2\<close>.
\<close>

theorem New_breakpoint_aliasing:
  "GetBreakpoint (fst (New X (Opts_zero\<lparr>Breakpoints := [bp1, bp2]\<rparr>) st)) (File bp1, Line bp1)
     = (Some b_var, True)
   \<and> deref (fst (New X (Opts_zero\<lparr>Breakpoints := [bp1, bp2]\<rparr>) st)) b_var = Some bp2
   \<and> bp_key (File bp1) (Line bp1) \<noteq> bp_key (File bp2) (Line bp2)
   \<and> Stop bp1 \<and> \<not> Stop bp2 \<and> Trace bp1 \<and> \<not> Trace bp2 \<and> \<not> Disabled bp1 \<and> Disabled bp2"
  using GetBreakpoint_New [of bp1 "Opts_zero\<lparr>Breakpoints := [bp1, bp2]\<rparr>" X st]
  by (simp add: bp1_def bp2_def bp_key_def show_int_def show_nat.simps digit_def)

subsection \<open>Switch\<close>

text \<open>
  C5. A switch evaluates its subject once (from the state \<open>st\<close> to \<open>st0\<close>) and then
  the candidates of its non-default choices in the order of the text (\<open>candidates\<close>:
  left to right within a choice, choices top to bottom), each in the state the one
  before left. When the candidates \<open>before\<close> the candidate \<open>c\<close> have values that are
  not equal to the subject and \<open>c\<close> has a value that is equal to it, the switch is the
  evaluation of the block of \<open>c\<close>, in the state that \<open>c\<close> left: the result of the
  block is the result of the switch, and no candidate \<open>after\<close> it is evaluated. When
  no candidate is equal to the subject, the switch is the evaluation of the block of
  the first default choice if there is one, and nil otherwise. With the choices
  \<open>[1, 2] -> A\<close> and \<open>[2] -> B\<close> and the subject 2, the block A is run (witness).
\<close>

theorem switch_first_match:
  "(Evaluate X n e subject s st = Ret (v, st0) \<and> \<not> IsError v
      \<and> candidates choices = before @ (c, blk) # after
      \<and> misses X (Evaluate X n) e v s before st0 = Some st1
      \<and> Evaluate X n e c s st1 = Ret (out, st2) \<and> \<not> IsError out \<and> x_Equals X v out
    \<longrightarrow> evalSwitch X (Evaluate X n) e subject choices s st
          = x_evalBlockStatement X (Evaluate X n) e blk s st2)
   \<and> (Evaluate X n e subject s st = Ret (v, st0) \<and> \<not> IsError v
      \<and> misses X (Evaluate X n) e v s (candidates choices) st0 = Some st1
    \<longrightarrow> evalSwitch X (Evaluate X n) e subject choices s st
          = (if filter IsDefault choices = [] then Ret (ONil, st1)
             else x_evalBlockStatement X (Evaluate X n) e (default_block choices) s st1))"
proof (intro conjI impI; elim conjE)
  show "evalSwitch X (Evaluate X n) e subject choices s st
          = x_evalBlockStatement X (Evaluate X n) e blk s st2"
    if "Evaluate X n e subject s st = Ret (v, st0)" "\<not> IsError v"
      "candidates choices = before @ (c, blk) # after"
      "misses X (Evaluate X n) e v s before st0 = Some st1"
      "Evaluate X n e c s st1 = Ret (out, st2)" "\<not> IsError out" "x_Equals X v out"
    using that by (rule evalSwitch_hit [where ev = "Evaluate X n"])
  show "evalSwitch X (Evaluate X n) e subject choices s st
          = (if filter IsDefault choices = [] then Ret (ONil, st1)
             else x_evalBlockStatement X (Evaluate X n) e (default_block choices) s st1)"
    if "Evaluate X n e subject s st = Ret (v, st0)" "\<not> IsError v"
      "misses X (Evaluate X n) e v s (candidates choices) st0 = Some st1"
    using that by (rule evalSwitch_miss [where ev = "Evaluate X n"])
qed

theorem switch_first_match_witness:
  "candidates two_cases = [(AInt 1, block_A)] @ (AInt 2, block_A) # [(AInt 2, block_B)]
   \<and> misses DX (Evaluate DX 6) d_e (OInt 2) 0 [(AInt 1, block_A)] d_state = Some d_state
   \<and> evalSwitch DX (Evaluate DX 6) d_e (AInt 2) two_cases 0 d_state
       = x_evalBlockStatement DX (Evaluate DX 6) d_e block_A 0 d_state
   \<and> Evaluate DX 7 d_e (ASwitch (AInt 2) two_cases) 0 d_state
       = Ret (OString ''A'', d_count d_state)
   \<and> Evaluate DX 7 d_e (ASwitch (AInt 2) (Choice True [] block_B # two_cases)) 0 d_state
       = Ret (OString ''A'', d_count d_state)
   \<and> misses DX (Evaluate DX 6) d_e (OInt 7) 0 (candidates two_cases) d_state = Some d_state
   \<and> evalSwitch DX (Evaluate DX 6) d_e (AInt 7) two_cases 0 d_state = Ret (ONil, d_state)
   \<and> evalSwitch DX (Evaluate DX 6) d_e (AInt 7)
         (Choice True [AInt 7] block_B # two_cases @ [Choice True [] block_A]) 0 d_state
       = Ret (OString ''B'', d_count d_state)"
proof -
  let ?E = "Evaluate DX 6"
  let ?dc = "Choice True [AInt 7] block_B # two_cases @ [Choice True [] block_A]"
  note P = switch_first_match [where X = DX and n = 6 and e = d_e]
  have s2: "?E d_e (AInt 2) 0 d_state = Ret (OInt 2, d_state)" by code_simp
  have s7: "?E d_e (AInt 7) 0 d_state = Ret (OInt 7, d_state)" by code_simp
  have eq: "x_Equals DX (OInt 2) (OInt 2)" by (simp add: DX_def)
  have c: "candidates two_cases = [(AInt 1, block_A)] @ (AInt 2, block_A) # [(AInt 2, block_B)]"
    by (simp add: candidates_def two_cases_def)
  have m1: "misses DX ?E d_e (OInt 2) 0 [(AInt 1, block_A)] d_state = Some d_state"
    by code_simp
  have h: "evalSwitch DX ?E d_e (AInt 2) two_cases 0 d_state
       = x_evalBlockStatement DX ?E d_e block_A 0 d_state"
    by (rule P [THEN conjunct1, rule_format], intro conjI, rule s2, simp, rule c, rule m1,
        rule s2, simp, rule eq)
  have ex1: "Evaluate DX 7 d_e (ASwitch (AInt 2) two_cases) 0 d_state
       = Ret (OString ''A'', d_count d_state)" by code_simp
  have ex2: "Evaluate DX 7 d_e (ASwitch (AInt 2) (Choice True [] block_B # two_cases)) 0 d_state
       = Ret (OString ''A'', d_count d_state)" by code_simp
  have m2: "misses DX ?E d_e (OInt 7) 0 (candidates two_cases) d_state = Some d_state"
    by code_simp
  have nd: "filter IsDefault two_cases = []" by (simp add: two_cases_def)
  have "evalSwitch DX ?E d_e (AInt 7) two_cases 0 d_state
       = (if filter IsDefault two_cases = [] then Ret (ONil, d_state)
          else x_evalBlockStatement DX ?E d_e (default_block two_cases) 0 d_state)"
    by (rule P [THEN conjunct2, rule_format], intro conjI, rule s7, simp, rule m2)
  then have miss: "evalSwitch DX ?E d_e (AInt 7) two_cases 0 d_state = Ret (ONil, d_state)"
    by (simp add: nd)
  have m3: "misses DX ?E d_e (OInt 7) 0 (candidates ?dc) d_state = Some d_state"
    by code_simp
  have d1: "filter IsDefault ?dc \<noteq> []" by simp
  have d2: "default_block ?dc = block_B" by (simp add: default_block_def)
  have d3: "x_evalBlockStatement DX ?E d_e block_B 0 d_state
      = Ret (OString ''B'', d_count d_state)" by code_simp
  have "evalSwitch DX ?E d_e (AInt 7) ?dc 0 d_state
       = (if filter IsDefault ?dc = [] then Ret (ONil, d_state)
          else x_evalBlockStatement DX ?E d_e (default_block ?dc) 0 d_state)"
    by (rule P [THEN conjunct2, rule_format], intro conjI, rule s7, simp, rule m3)
  then have dflt: "evalSwitch DX ?E d_e (AInt 7) ?dc 0 d_state
       = Ret (OString ''B'', d_count d_state)"
    using d1 d2 d3 by simp
  show ?thesis
    by (intro conjI) (fact c m1 h ex1 ex2 m2 miss dflt)+
qed

subsection \<open>The condition form of \<open>for\<close>\<close>

text \<open>
  C6. \<open>for init; cond; post { body }\<close> makes the for scope and the loop scope
  (\<open>for_scopes\<close>) and evaluates \<open>init\<close> once, in the for scope (\<open>init_run\<close>).
  Every iteration clears the loop scope and evaluates \<open>cond\<close> in the for scope; a
  complete pass (\<open>cond_pass\<close>) is one where \<open>cond\<close> is truthy, the body is then
  evaluated in the loop scope and \<open>post\<close> after it in the for scope. After \<open>j\<close>
  complete passes from \<open>latestValue = nil\<close>:
  \<^item> when \<open>cond\<close> is falsy, the loop ends with \<open>latestValue\<close>, in the state that
    \<open>cond\<close> left: the body and \<open>post\<close> are not evaluated again;
  \<^item> when \<open>cond\<close> is truthy and the body yields \<open>break\<close>, the loop ends with
    \<open>latestValue\<close>, and \<open>post\<close> is not evaluated.
  \<open>latestValue\<close> is nil when the body never ran (no pass); a pass whose body yields
  an ordinary value makes that value the \<open>latestValue\<close>, and a pass whose body
  yields \<open>continue\<close> leaves it. The loop runs on fuel \<open>j + Suc k\<close>: one unit for each
  of the \<open>j\<close> passes and at least one for the last iteration.
  In the witness, \<open>for i:=0; i<3; i:=i+1 { sum = sum + i }\<close> makes three complete
  passes, the block is run three times, and \<open>sum\<close> is 3 (the statements on variables
  are not in src: \<open>DX\<close> gives them their evident meaning on a store).
\<close>

theorem for_condition_form:
  "(for_scopes s st = (forScope, loopScope, stb)
      \<and> init_run (Evaluate X n) e init forScope stb = Some st0
      \<and> passes j (cond_pass X (Evaluate X n) e cond conseq post forScope loopScope) (ONil, st0)
          = Some (latestValue, stj)
      \<and> Evaluate X n e cond forScope (Clear loopScope stj) = Ret (c, st1)
      \<and> \<not> IsError c \<and> c \<noteq> NoObject \<and> \<not> x_IsTruthy X c
    \<longrightarrow> evalFor X (j + Suc k) (Evaluate X n) e init cond conseq post False False s st
          = Ret (latestValue, st1))
   \<and> (for_scopes s st = (forScope, loopScope, stb)
      \<and> init_run (Evaluate X n) e init forScope stb = Some st0
      \<and> passes j (cond_pass X (Evaluate X n) e cond conseq post forScope loopScope) (ONil, st0)
          = Some (latestValue, stj)
      \<and> Evaluate X n e cond forScope (Clear loopScope stj) = Ret (c, st1)
      \<and> \<not> IsError c \<and> c \<noteq> NoObject \<and> x_IsTruthy X c
      \<and> Evaluate X n e conseq loopScope st1 = Ret (OBreak, st2)
    \<longrightarrow> evalFor X (j + Suc k) (Evaluate X n) e init cond conseq post False False s st
          = Ret (latestValue, st2))
   \<and> passes 0 (cond_pass X (Evaluate X n) e cond conseq post forScope loopScope) (ONil, st0)
       = Some (ONil, st0)
   \<and> (Evaluate X n e cond forScope (Clear loopScope st3) = Ret (c, st4)
      \<and> \<not> IsError c \<and> c \<noteq> NoObject \<and> x_IsTruthy X c
      \<and> Evaluate X n e conseq loopScope st4 = Ret (rt, st5)
      \<and> \<not> IsError rt \<and> Keyword rt = []
      \<and> post \<noteq> ANone \<and> Evaluate X n e post forScope st5 = Ret (res, st6) \<and> \<not> IsError res
    \<longrightarrow> cond_pass X (Evaluate X n) e cond conseq post forScope loopScope (lv, st3)
          = Some (rt, st6))
   \<and> (Evaluate X n e cond forScope (Clear loopScope st3) = Ret (c, st4)
      \<and> \<not> IsError c \<and> c \<noteq> NoObject \<and> x_IsTruthy X c
      \<and> Evaluate X n e conseq loopScope st4 = Ret (OContinue, st5)
      \<and> post \<noteq> ANone \<and> Evaluate X n e post forScope st5 = Ret (res, st6) \<and> \<not> IsError res
    \<longrightarrow> cond_pass X (Evaluate X n) e cond conseq post forScope loopScope (lv, st3)
          = Some (lv, st6))"
proof (intro conjI impI; (elim conjE)?)
  show "evalFor X (j + Suc k) (Evaluate X n) e init cond conseq post False False s st
          = Ret (latestValue, st1)"
    if "for_scopes s st = (forScope, loopScope, stb)"
      "init_run (Evaluate X n) e init forScope stb = Some st0"
      "passes j (cond_pass X (Evaluate X n) e cond conseq post forScope loopScope) (ONil, st0)
          = Some (latestValue, stj)"
      "Evaluate X n e cond forScope (Clear loopScope stj) = Ret (c, st1)"
      "\<not> IsError c" "c \<noteq> NoObject" "\<not> x_IsTruthy X c"
    using forLoop_cond_falsy [where ev = "Evaluate X n", OF that(3-7)]
    by (simp add: evalFor_after_init [where ev = "Evaluate X n", OF that(1,2)])
  show "evalFor X (j + Suc k) (Evaluate X n) e init cond conseq post False False s st
          = Ret (latestValue, st2)"
    if "for_scopes s st = (forScope, loopScope, stb)"
      "init_run (Evaluate X n) e init forScope stb = Some st0"
      "passes j (cond_pass X (Evaluate X n) e cond conseq post forScope loopScope) (ONil, st0)
          = Some (latestValue, stj)"
      "Evaluate X n e cond forScope (Clear loopScope stj) = Ret (c, st1)"
      "\<not> IsError c" "c \<noteq> NoObject" "x_IsTruthy X c"
      "Evaluate X n e conseq loopScope st1 = Ret (OBreak, st2)"
    using forLoop_cond_break [where ev = "Evaluate X n", OF that(3-8)]
    by (simp add: evalFor_after_init [where ev = "Evaluate X n", OF that(1,2)])
  show "passes 0 (cond_pass X (Evaluate X n) e cond conseq post forScope loopScope) (ONil, st0)
       = Some (ONil, st0)"
    by simp
  show "cond_pass X (Evaluate X n) e cond conseq post forScope loopScope (lv, st3)
          = Some (rt, st6)"
    if "Evaluate X n e cond forScope (Clear loopScope st3) = Ret (c, st4)"
      "\<not> IsError c" "c \<noteq> NoObject" "x_IsTruthy X c"
      "Evaluate X n e conseq loopScope st4 = Ret (rt, st5)"
      "\<not> IsError rt" "Keyword rt = []"
      "post \<noteq> ANone" "Evaluate X n e post forScope st5 = Ret (res, st6)" "\<not> IsError res"
    using that by (cases rt) (simp_all add: cond_pass_def)
  show "cond_pass X (Evaluate X n) e cond conseq post forScope loopScope (lv, st3)
          = Some (lv, st6)"
    if "Evaluate X n e cond forScope (Clear loopScope st3) = Ret (c, st4)"
      "\<not> IsError c" "c \<noteq> NoObject" "x_IsTruthy X c"
      "Evaluate X n e conseq loopScope st4 = Ret (OContinue, st5)"
      "post \<noteq> ANone" "Evaluate X n e post forScope st5 = Ret (res, st6)" "\<not> IsError res"
    using that by (simp add: cond_pass_def)
qed

theorem for_condition_form_witness:
  "for_scopes 0 d_state = (1, 2, d_for_state)
   \<and> init_run (Evaluate DX 6) d_e (AVar ''i'' (AInt 0)) 1 d_for_state
       = Some (d_set ''i'' (OInt 0) d_for_state)
   \<and> passes 3 (cond_pass DX (Evaluate DX 6) d_e sum_cond sum_body sum_post 1 2)
         (ONil, d_set ''i'' (OInt 0) d_for_state)
       = Some (ONil, d_count (d_count (d_count
           (d_set ''i'' (OInt 3) (d_set ''sum'' (OInt 3) d_for_state)))))
   \<and> evalFor DX (3 + Suc 2) (Evaluate DX 6) d_e (AVar ''i'' (AInt 0)) sum_cond sum_body sum_post
         False False 0 d_state
       = Ret (ONil, d_count (d_count (d_count
           (d_set ''i'' (OInt 3) (d_set ''sum'' (OInt 3) d_for_state)))))
   \<and> Evaluate DX 7 d_e sum_loop 0 d_state
       = Ret (ONil, d_count (d_count (d_count
           (d_set ''i'' (OInt 3) (d_set ''sum'' (OInt 3) d_for_state)))))
   \<and> map_of (d_vars (world (d_count (d_count (d_count
           (d_set ''i'' (OInt 3) (d_set ''sum'' (OInt 3) d_for_state))))))) ''sum''
       = Some (OInt 3)
   \<and> d_blocks (world (d_count (d_count (d_count
           (d_set ''i'' (OInt 3) (d_set ''sum'' (OInt 3) d_for_state)))))) = 3
   \<and> evalFor DX (0 + Suc 2) (Evaluate DX 6) d_e (AVar ''i'' (AInt 0)) sum_cond
         (ABlock [AControl ''break'' ANone]) sum_post False False 0 d_state
       = Ret (ONil, d_count (d_set ''i'' (OInt 0) d_for_state))
   \<and> cond_pass DX (Evaluate DX 6) d_e sum_cond (ABlock [AIdent ''i'']) sum_post 1 2
         (ONil, d_set ''i'' (OInt 0) d_for_state)
       = Some (OInt 0, d_count (d_set ''i'' (OInt 1) d_for_state))
   \<and> cond_pass DX (Evaluate DX 6) d_e sum_cond (ABlock [AControl ''continue'' ANone]) sum_post
         1 2 (OInt 7, d_set ''i'' (OInt 0) d_for_state)
       = Some (OInt 7, d_count (d_set ''i'' (OInt 1) d_for_state))"
proof -
  let ?E = "Evaluate DX 6"
  let ?init = "AVar ''i'' (AInt 0)"
  let ?st0 = "d_set ''i'' (OInt 0) d_for_state"
  let ?st3 = "d_count (d_count (d_count
           (d_set ''i'' (OInt 3) (d_set ''sum'' (OInt 3) d_for_state))))"
  let ?brk = "ABlock [AControl ''break'' ANone]"
  let ?cont = "ABlock [AControl ''continue'' ANone]"
  note P = for_condition_form [where X = DX and n = 6 and e = d_e]
  note Q1 = P [THEN conjunct2] note Q2 = Q1 [THEN conjunct2] note Q3 = Q2 [THEN conjunct2]
  have fs: "for_scopes 0 d_state = (1, 2, d_for_state)"
    by (simp add: d_for_state_def for_scopes_eq d_state_def)
  have ir: "init_run ?E d_e ?init 1 d_for_state = Some ?st0" by code_simp
  have ps: "passes 3 (cond_pass DX ?E d_e sum_cond sum_body sum_post 1 2) (ONil, ?st0)
       = Some (ONil, ?st3)" by code_simp
  have cf: "?E d_e sum_cond 1 (Clear 2 ?st3) = Ret (OBool False, ?st3)" by code_simp
  have nt: "\<not> x_IsTruthy DX (OBool False)" by (simp add: DX_def)
  have c1: "evalFor DX (3 + Suc 2) ?E d_e ?init sum_cond sum_body sum_post False False 0 d_state
       = Ret (ONil, ?st3)"
    by (rule P [THEN conjunct1, rule_format], intro conjI, rule fs, rule ir, rule ps, rule cf,
        simp, simp, rule nt)
  have ex: "Evaluate DX 7 d_e sum_loop 0 d_state = Ret (ONil, ?st3)" by code_simp
  have v1: "map_of (d_vars (world ?st3)) ''sum'' = Some (OInt 3)" by code_simp
  have v2: "d_blocks (world ?st3) = 3" by code_simp
  have p0: "passes 0 (cond_pass DX ?E d_e sum_cond ?brk sum_post 1 2) (ONil, ?st0)
      = Some (ONil, ?st0)" by simp
  have ct: "?E d_e sum_cond 1 (Clear 2 ?st0) = Ret (OBool True, ?st0)" by code_simp
  have tt: "x_IsTruthy DX (OBool True)" by (simp add: DX_def)
  have bb: "?E d_e ?brk 2 ?st0 = Ret (OBreak, d_count ?st0)" by code_simp
  have irb: "init_run ?E d_e ?init 1 d_for_state = Some ?st0" by (rule ir)
  have c2: "evalFor DX (0 + Suc 2) ?E d_e ?init sum_cond ?brk sum_post False False 0 d_state
       = Ret (ONil, d_count ?st0)"
    by (rule Q1 [THEN conjunct1, rule_format], intro conjI, rule fs, rule irb, rule p0, rule ct,
        simp, simp, rule tt, rule bb)
  have bi: "?E d_e (ABlock [AIdent ''i'']) 2 ?st0 = Ret (OInt 0, d_count ?st0)" by code_simp
  have po: "?E d_e sum_post 1 (d_count ?st0)
      = Ret (ONil, d_count (d_set ''i'' (OInt 1) d_for_state))" by code_simp
  have c3: "cond_pass DX ?E d_e sum_cond (ABlock [AIdent ''i'']) sum_post 1 2 (ONil, ?st0)
       = Some (OInt 0, d_count (d_set ''i'' (OInt 1) d_for_state))"
    by (rule Q3 [THEN conjunct1, rule_format], intro conjI, rule ct, simp, simp, rule tt,
        rule bi, simp, simp, simp add: sum_post_def, rule po, simp)
  have bc: "?E d_e ?cont 2 ?st0 = Ret (OContinue, d_count ?st0)" by code_simp
  have c4: "cond_pass DX ?E d_e sum_cond ?cont sum_post 1 2 (OInt 7, ?st0)
       = Some (OInt 7, d_count (d_set ''i'' (OInt 1) d_for_state))"
    by (rule Q3 [THEN conjunct2, rule_format], intro conjI, rule ct, simp, simp, rule tt,
        rule bc, simp add: sum_post_def, rule po, simp)
  show ?thesis
    by (intro conjI) (fact fs ir ps c1 ex v1 v2 c2 c3 c4)+
qed

subsection \<open>The loop scope is cleared in every iteration\<close>

text \<open>
  C7. \<open>evalFor\<close> makes the for scope as a child of the scope of the \<open>for\<close> and the
  loop scope as a child of the for scope (\<open>for_scopes\<close>), evaluates the init
  statement in the for scope (\<open>init_run\<close>), and runs each of the three loops with
  that loop scope; the iterator loop evaluates the iterated expression and runs its
  loop in the same scope. In every iteration, that is after any number \<open>j\<close> of
  complete passes that led from \<open>(lv0, st0)\<close> to the \<open>latestValue\<close> \<open>lv\<close> and
  the state \<open>st\<close>, whatever the loop scope holds in \<open>st\<close>:
  \<^item> the simple loop evaluates the body in the loop scope, in the state
    \<open>Clear s st\<close>; an ordinary value or a \<open>continue\<close> makes the pass complete and
    the loop goes on from the state that the body left, and a \<open>break\<close> ends the loop
    with \<open>latestValue\<close>;
  \<^item> the iterator loop asks the iterator for its next entry in the state
    \<open>Clear s st\<close>, declares the names in the loop scope and evaluates the body
    there; the loop ends with \<open>latestValue\<close> when the iterator is exhausted;
  \<^item> the condition loop evaluates the condition in the for scope, in the state
    \<open>Clear loopScope st\<close>, then the body in the loop scope and the post statement in
    the for scope; the loop ends with \<open>latestValue\<close> when the condition is falsy.
  So each loop, started with any entries \<open>es\<close> in the loop scope, runs as it does
  with none of them. \<open>Clear\<close> empties the one scope and keeps its parent link, every
  other scope (what was assigned in an outer scope stays), the context and the world.
  (\<open>Clear\<close> and \<open>NewChild\<close> are modelled from the spec.)

  In the witness the body of \<open>for { const x = 1; sum = sum + x; if sum < 2 { continue }
  else { break } }\<close> declares \<open>x\<close> in the loop scope in the first iteration; in the
  state that the first iteration left the body would fail (x is declared already), but
  the second iteration runs it in the cleared state, declares \<open>x\<close> again and ends
  the loop, and \<open>sum\<close>, which lives outside the loop scope, is 2. In the same way
  \<open>for k, v := range items { v }\<close> declares \<open>k\<close> and \<open>v\<close> anew for each of the
  two entries, and \<open>for i := 0; i < 2; i := i + 1 { const x = i }\<close> declares \<open>x\<close>
  twice. A loop scope that holds \<open>x = 0\<close> when the loop begins does not show it to
  the body.
\<close>

theorem loop_scope_cleared:
  "(for_scopes s0 st = (forScope, loopScope, stb)
      \<and> init_run (Evaluate X n) e init forScope stb = Some st0
    \<longrightarrow> evalFor X k (Evaluate X n) e init cond conseq post isSimple isIterator s0 st =
          (if isSimple then forLoop_simple X k (Evaluate X n) e conseq loopScope ONil st0
           else if isIterator
             then evalIteratorForLoop X k (Evaluate X n) e cond conseq loopScope st0
           else forLoop_cond X k (Evaluate X n) e cond conseq post forScope loopScope ONil st0))
   \<and> (for_scopes s0 st = (forScope, loopScope, stb)
    \<longrightarrow> forScope = length (scopes st) \<and> loopScope = Suc forScope
        \<and> sc_parent (scopes stb ! loopScope) = Some forScope
        \<and> sc_parent (scopes stb ! forScope) = Some s0
        \<and> sc_entries (scopes stb ! loopScope) = [] \<and> sc_entries (scopes stb ! forScope) = []
        \<and> take (length (scopes st)) (scopes stb) = scopes st)
   \<and> ((cond = AVar name iterExpr \<and> names = [name]
        \<or> cond = AMultiVar names iterExpr \<and> 1 \<le> length names \<and> length names \<le> 2)
      \<and> Evaluate X n e iterExpr s st = Ret (iterator, st1)
      \<and> \<not> IsError iterator \<and> iterator \<noteq> NoObject \<and> x_isIterator X iterator
    \<longrightarrow> evalIteratorForLoop X k (Evaluate X n) e cond conseq s st =
          forLoop_iter X k (Evaluate X n) e names conseq s iterator ONil st1)
   \<and> (passes j (simple_pass (Evaluate X n) e conseq s) (lv0, st0) = Some (lv, st)
      \<and> Evaluate X n e conseq s (Clear s st) = Ret (r, st')
      \<and> \<not> IsError r \<and> r \<noteq> OBreak \<and> Keyword r \<noteq> ''return''
    \<longrightarrow> simple_pass (Evaluate X n) e conseq s (lv, st)
            = Some (if r = OContinue then lv else r, st')
        \<and> forLoop_simple X (j + Suc k) (Evaluate X n) e conseq s lv0 st0 =
            forLoop_simple X k (Evaluate X n) e conseq s (if r = OContinue then lv else r) st')
   \<and> (passes j (simple_pass (Evaluate X n) e conseq s) (lv0, st0) = Some (lv, st)
      \<and> Evaluate X n e conseq s (Clear s st) = Ret (OBreak, st')
    \<longrightarrow> forLoop_simple X (j + Suc k) (Evaluate X n) e conseq s lv0 st0 = Ret (lv, st'))
   \<and> (passes j (iter_pass X (Evaluate X n) e names conseq s iterator) (lv0, st0) = Some (lv, st)
      \<and> x_Next X iterator (Clear s st) = (Some (key, val), st1)
      \<and> Declare s (names ! 0) key False st1 = Inr st2
      \<and> (if length names > 1 then Declare s (names ! 1) val False st2 else Inr st2) = Inr st3
      \<and> Evaluate X n e conseq s st3 = Ret (r, st')
      \<and> \<not> IsError r \<and> r \<noteq> OBreak \<and> Keyword r \<noteq> ''return''
    \<longrightarrow> iter_pass X (Evaluate X n) e names conseq s iterator (lv, st)
            = Some (if r = OContinue then lv else r, st')
        \<and> forLoop_iter X (j + Suc k) (Evaluate X n) e names conseq s iterator lv0 st0 =
            forLoop_iter X k (Evaluate X n) e names conseq s iterator
              (if r = OContinue then lv else r) st')
   \<and> (passes j (iter_pass X (Evaluate X n) e names conseq s iterator) (lv0, st0) = Some (lv, st)
      \<and> x_Next X iterator (Clear s st) = (None, st')
    \<longrightarrow> forLoop_iter X (j + Suc k) (Evaluate X n) e names conseq s iterator lv0 st0
          = Ret (lv, st'))
   \<and> (passes j (cond_pass X (Evaluate X n) e cond conseq post forScope loopScope) (lv0, st0)
          = Some (lv, st)
      \<and> Evaluate X n e cond forScope (Clear loopScope st) = Ret (c, st1)
      \<and> \<not> IsError c \<and> c \<noteq> NoObject \<and> x_IsTruthy X c
      \<and> Evaluate X n e conseq loopScope st1 = Ret (r, st2)
      \<and> \<not> IsError r \<and> r \<noteq> OBreak \<and> Keyword r \<noteq> ''return''
      \<and> (post = ANone \<and> st' = st2
          \<or> post \<noteq> ANone \<and> Evaluate X n e post forScope st2 = Ret (res, st') \<and> \<not> IsError res)
    \<longrightarrow> cond_pass X (Evaluate X n) e cond conseq post forScope loopScope (lv, st)
            = Some (if r = OContinue then lv else r, st')
        \<and> forLoop_cond X (j + Suc k) (Evaluate X n) e cond conseq post forScope loopScope lv0 st0 =
            forLoop_cond X k (Evaluate X n) e cond conseq post forScope loopScope
              (if r = OContinue then lv else r) st')
   \<and> (passes j (cond_pass X (Evaluate X n) e cond conseq post forScope loopScope) (lv0, st0)
          = Some (lv, st)
      \<and> Evaluate X n e cond forScope (Clear loopScope st) = Ret (c, st')
      \<and> \<not> IsError c \<and> c \<noteq> NoObject \<and> \<not> x_IsTruthy X c
    \<longrightarrow> forLoop_cond X (j + Suc k) (Evaluate X n) e cond conseq post forScope loopScope lv0 st0
          = Ret (lv, st'))
   \<and> forLoop_simple X k (Evaluate X n) e conseq s lv (with_entries s es st)
     = forLoop_simple X k (Evaluate X n) e conseq s lv st
   \<and> forLoop_iter X k (Evaluate X n) e names conseq s iterator lv (with_entries s es st)
     = forLoop_iter X k (Evaluate X n) e names conseq s iterator lv st
   \<and> forLoop_cond X k (Evaluate X n) e cond conseq post forScope s lv (with_entries s es st)
     = forLoop_cond X k (Evaluate X n) e cond conseq post forScope s lv st
   \<and> (s < length (scopes st)
    \<longrightarrow> sc_entries (scopes (Clear s st) ! s) = []
        \<and> sc_parent (scopes (Clear s st) ! s) = sc_parent (scopes st ! s)
        \<and> length (scopes (Clear s st)) = length (scopes st)
        \<and> (\<forall>t. t \<noteq> s \<longrightarrow> scopes (Clear s st) ! t = scopes st ! t)
        \<and> ctx_err (Clear s st) = ctx_err st \<and> world (Clear s st) = world st)"
proof (intro conjI impI allI; (elim conjE)?)
  show "evalFor X k (Evaluate X n) e init cond conseq post isSimple isIterator s0 st =
          (if isSimple then forLoop_simple X k (Evaluate X n) e conseq loopScope ONil st0
           else if isIterator
             then evalIteratorForLoop X k (Evaluate X n) e cond conseq loopScope st0
           else forLoop_cond X k (Evaluate X n) e cond conseq post forScope loopScope ONil st0)"
    if "for_scopes s0 st = (forScope, loopScope, stb)"
      "init_run (Evaluate X n) e init forScope stb = Some st0"
    by (simp add: evalFor_after_init [where ev = "Evaluate X n", OF that]
          evalSimpleForLoop_def)
  show "evalIteratorForLoop X k (Evaluate X n) e cond conseq s st =
          forLoop_iter X k (Evaluate X n) e names conseq s iterator ONil st1"
    if "cond = AVar name iterExpr \<and> names = [name]
        \<or> cond = AMultiVar names iterExpr \<and> 1 \<le> length names \<and> length names \<le> 2"
      "Evaluate X n e iterExpr s st = Ret (iterator, st1)"
      "\<not> IsError iterator" "iterator \<noteq> NoObject" "x_isIterator X iterator"
    using that by (rule evalIteratorForLoop_header [where ev = "Evaluate X n"])
  show "simple_pass (Evaluate X n) e conseq s (lv, st)
            = Some (if r = OContinue then lv else r, st')"
    if "Evaluate X n e conseq s (Clear s st) = Ret (r, st')"
      "\<not> IsError r" "r \<noteq> OBreak" "Keyword r \<noteq> ''return''"
    using that by (rule simple_pass_value [where ev = "Evaluate X n"])
  show "forLoop_simple X (j + Suc k) (Evaluate X n) e conseq s lv0 st0 =
            forLoop_simple X k (Evaluate X n) e conseq s (if r = OContinue then lv else r) st'"
    if "passes j (simple_pass (Evaluate X n) e conseq s) (lv0, st0) = Some (lv, st)"
      "Evaluate X n e conseq s (Clear s st) = Ret (r, st')"
      "\<not> IsError r" "r \<noteq> OBreak" "Keyword r \<noteq> ''return''"
    using that(1) simple_pass_value [where ev = "Evaluate X n", OF that(2-5)]
    by (rule forLoop_simple_next [where ev = "Evaluate X n"])
  show "forLoop_simple X (j + Suc k) (Evaluate X n) e conseq s lv0 st0 = Ret (lv, st')"
    if "passes j (simple_pass (Evaluate X n) e conseq s) (lv0, st0) = Some (lv, st)"
      "Evaluate X n e conseq s (Clear s st) = Ret (OBreak, st')"
    using that by (rule forLoop_simple_break [where ev = "Evaluate X n"])
  show "iter_pass X (Evaluate X n) e names conseq s iterator (lv, st)
            = Some (if r = OContinue then lv else r, st')"
    if "x_Next X iterator (Clear s st) = (Some (key, val), st1)"
      "Declare s (names ! 0) key False st1 = Inr st2"
      "(if length names > 1 then Declare s (names ! 1) val False st2 else Inr st2) = Inr st3"
      "Evaluate X n e conseq s st3 = Ret (r, st')"
      "\<not> IsError r" "r \<noteq> OBreak" "Keyword r \<noteq> ''return''"
    using that by (rule iter_pass_value [where ev = "Evaluate X n"])
  show "forLoop_iter X (j + Suc k) (Evaluate X n) e names conseq s iterator lv0 st0 =
            forLoop_iter X k (Evaluate X n) e names conseq s iterator
              (if r = OContinue then lv else r) st'"
    if "passes j (iter_pass X (Evaluate X n) e names conseq s iterator) (lv0, st0) = Some (lv, st)"
      "x_Next X iterator (Clear s st) = (Some (key, val), st1)"
      "Declare s (names ! 0) key False st1 = Inr st2"
      "(if length names > 1 then Declare s (names ! 1) val False st2 else Inr st2) = Inr st3"
      "Evaluate X n e conseq s st3 = Ret (r, st')"
      "\<not> IsError r" "r \<noteq> OBreak" "Keyword r \<noteq> ''return''"
    using that(1) iter_pass_value [where ev = "Evaluate X n", OF that(2-8)]
    by (rule forLoop_iter_next [where ev = "Evaluate X n"])
  show "forLoop_iter X (j + Suc k) (Evaluate X n) e names conseq s iterator lv0 st0
          = Ret (lv, st')"
    if "passes j (iter_pass X (Evaluate X n) e names conseq s iterator) (lv0, st0) = Some (lv, st)"
      "x_Next X iterator (Clear s st) = (None, st')"
    using that by (rule forLoop_iter_exhausted [where ev = "Evaluate X n"])
  show "cond_pass X (Evaluate X n) e cond conseq post forScope loopScope (lv, st)
            = Some (if r = OContinue then lv else r, st')"
    if "Evaluate X n e cond forScope (Clear loopScope st) = Ret (c, st1)"
      "\<not> IsError c" "c \<noteq> NoObject" "x_IsTruthy X c"
      "Evaluate X n e conseq loopScope st1 = Ret (r, st2)"
      "\<not> IsError r" "r \<noteq> OBreak" "Keyword r \<noteq> ''return''"
      "post = ANone \<and> st' = st2
          \<or> post \<noteq> ANone \<and> Evaluate X n e post forScope st2 = Ret (res, st') \<and> \<not> IsError res"
    using that(1-8) by (rule cond_pass_value [where ev = "Evaluate X n"]) (use that(9) in blast)
  show "forLoop_cond X (j + Suc k) (Evaluate X n) e cond conseq post forScope loopScope lv0 st0 =
            forLoop_cond X k (Evaluate X n) e cond conseq post forScope loopScope
              (if r = OContinue then lv else r) st'"
    if "passes j (cond_pass X (Evaluate X n) e cond conseq post forScope loopScope) (lv0, st0)
          = Some (lv, st)"
      "Evaluate X n e cond forScope (Clear loopScope st) = Ret (c, st1)"
      "\<not> IsError c" "c \<noteq> NoObject" "x_IsTruthy X c"
      "Evaluate X n e conseq loopScope st1 = Ret (r, st2)"
      "\<not> IsError r" "r \<noteq> OBreak" "Keyword r \<noteq> ''return''"
      "post = ANone \<and> st' = st2
          \<or> post \<noteq> ANone \<and> Evaluate X n e post forScope st2 = Ret (res, st') \<and> \<not> IsError res"
  proof -
    have "cond_pass X (Evaluate X n) e cond conseq post forScope loopScope (lv, st)
            = Some (if r = OContinue then lv else r, st')"
      using that(2-9) by (rule cond_pass_value [where ev = "Evaluate X n"]) (use that(10) in blast)
    with that(1) show ?thesis by (rule forLoop_cond_next [where ev = "Evaluate X n"])
  qed
  show "forLoop_cond X (j + Suc k) (Evaluate X n) e cond conseq post forScope loopScope lv0 st0
          = Ret (lv, st')"
    if "passes j (cond_pass X (Evaluate X n) e cond conseq post forScope loopScope) (lv0, st0)
          = Some (lv, st)"
      "Evaluate X n e cond forScope (Clear loopScope st) = Ret (c, st')"
      "\<not> IsError c" "c \<noteq> NoObject" "\<not> x_IsTruthy X c"
    using that by (rule forLoop_cond_falsy [where ev = "Evaluate X n"])
next
  assume "for_scopes s0 st = (forScope, loopScope, stb)"
  then have f: "forScope = length (scopes st)" and l: "loopScope = Suc (length (scopes st))"
    and b: "scopes stb = scopes st @
        [\<lparr>sc_name = ''for'', sc_parent = Some s0, sc_entries = []\<rparr>,
         \<lparr>sc_name = ''for-loop'', sc_parent = Some (length (scopes st)), sc_entries = []\<rparr>]"
    by (auto simp: for_scopes_eq)
  show "forScope = length (scopes st)" by (rule f)
  show "loopScope = Suc forScope" using f l by simp
  show "sc_parent (scopes stb ! loopScope) = Some forScope" using f l b by (simp add: nth_append)
  show "sc_parent (scopes stb ! forScope) = Some s0" using f b by (simp add: nth_append)
  show "sc_entries (scopes stb ! loopScope) = []" using l b by (simp add: nth_append)
  show "sc_entries (scopes stb ! forScope) = []" using f b by (simp add: nth_append)
  show "take (length (scopes st)) (scopes stb) = scopes st" using b by simp
qed (simp_all add: forLoop_simple_fresh forLoop_iter_fresh forLoop_cond_fresh Clear_def)

theorem loop_scope_cleared_witness:
  "for_scopes 0 d_state = (1, 2, d_for_state)
   \<and> sc_parent (scopes d_for_state ! 2) = Some 1
   \<and> sc_parent (scopes d_for_state ! 1) = Some 0
   \<and> Evaluate DX 6 d_e decl_body 2 (Clear 2 d_for_state)
       = Ret (OContinue,
           d_set ''sum'' (OInt 1) (with_entries 2 [(''x'', OInt 1, True)] (d_count d_for_state)))
   \<and> simple_pass (Evaluate DX 6) d_e decl_body 2 (ONil, d_for_state)
       = Some (ONil,
           d_set ''sum'' (OInt 1) (with_entries 2 [(''x'', OInt 1, True)] (d_count d_for_state)))
   \<and> Evaluate DX 6 d_e decl_body 2
         (d_set ''sum'' (OInt 1) (with_entries 2 [(''x'', OInt 1, True)] (d_count d_for_state)))
       = Ret (OError ''AlreadyDeclaredError: x'',
           d_count (d_set ''sum'' (OInt 1)
             (with_entries 2 [(''x'', OInt 1, True)] (d_count d_for_state))))
   \<and> sc_entries (scopes (Clear 2 (d_set ''sum'' (OInt 1)
         (with_entries 2 [(''x'', OInt 1, True)] (d_count d_for_state)))) ! 2) = []
   \<and> sc_parent (scopes (Clear 2 (d_set ''sum'' (OInt 1)
         (with_entries 2 [(''x'', OInt 1, True)] (d_count d_for_state)))) ! 2) = Some 1
   \<and> Evaluate DX 6 d_e decl_body 2 (Clear 2 (d_set ''sum'' (OInt 1)
         (with_entries 2 [(''x'', OInt 1, True)] (d_count d_for_state))))
       = Ret (OBreak, d_set ''sum'' (OInt 2)
           (with_entries 2 [(''x'', OInt 1, True)] (d_count (d_count d_for_state))))
   \<and> evalFor DX (1 + Suc 4) (Evaluate DX 6) d_e ANone ANone decl_body ANone True False 0 d_state
       = Ret (ONil, d_set ''sum'' (OInt 2)
           (with_entries 2 [(''x'', OInt 1, True)] (d_count (d_count d_for_state))))
   \<and> Evaluate DX 7 d_e decl_loop 0 d_state
       = Ret (ONil, d_set ''sum'' (OInt 2)
           (with_entries 2 [(''x'', OInt 1, True)] (d_count (d_count d_for_state))))
   \<and> passes 2 (iter_pass DX (Evaluate DX 6) d_e [''k'', ''v''] (ABlock [AIdent ''v'']) 2
         (OOther ''iterator'' 0)) (ONil, d_for_state)
       = Some (OString ''b'',
           with_entries 2 [(''k'', OInt 1, False), (''v'', OString ''b'', False)]
             (d_next 2 (d_count (d_count d_for_state))))
   \<and> evalFor DX (2 + Suc 3) (Evaluate DX 6) d_e ANone
         (AMultiVar [''k'', ''v''] (AIdent ''items'')) (ABlock [AIdent ''v'']) ANone False True
         0 d_state
       = Ret (OString ''b'', d_next 2 (d_count (d_count d_for_state)))
   \<and> Evaluate DX 7 d_e items_loop 0 d_state
       = Ret (OString ''b'', d_next 2 (d_count (d_count d_for_state)))
   \<and> passes 2 (cond_pass DX (Evaluate DX 6) d_e (AOther ''Infix'' ''<'' [AIdent ''i'', AInt 2])
         (ABlock [AOther ''Const'' ''x'' [AIdent ''i'']])
         (AVar ''i'' (AOther ''Infix'' ''+'' [AIdent ''i'', AInt 1])) 1 2)
         (ONil, d_set ''i'' (OInt 0) d_for_state)
       = Some (ONil, d_set ''i'' (OInt 2)
           (with_entries 2 [(''x'', OInt 1, True)] (d_count (d_count d_for_state))))
   \<and> evalFor DX (2 + Suc 3) (Evaluate DX 6) d_e (AVar ''i'' (AInt 0))
         (AOther ''Infix'' ''<'' [AIdent ''i'', AInt 2])
         (ABlock [AOther ''Const'' ''x'' [AIdent ''i'']])
         (AVar ''i'' (AOther ''Infix'' ''+'' [AIdent ''i'', AInt 1])) False False 0 d_state
       = Ret (ONil, d_set ''i'' (OInt 2) (d_count (d_count d_for_state)))
   \<and> Evaluate DX 7 d_e const_loop 0 d_state
       = Ret (ONil, d_set ''i'' (OInt 2) (d_count (d_count d_for_state)))
   \<and> Evaluate DX 6 d_e (AIdent ''x'') 2 (with_entries 2 [(''x'', OInt 0, True)] d_for_state)
       = Ret (OInt 0, with_entries 2 [(''x'', OInt 0, True)] d_for_state)
   \<and> forLoop_simple DX 3 (Evaluate DX 6) d_e (ABlock [AIdent ''x'']) 2 ONil
         (with_entries 2 [(''x'', OInt 0, True)] d_for_state)
       = Ret (OError ''name error: x'', d_count d_for_state)"
proof -
  let ?E = "Evaluate DX 6"
  let ?s1 = "d_set ''sum'' (OInt 1) (with_entries 2 [(''x'', OInt 1, True)] (d_count d_for_state))"
  let ?s2 = "d_set ''sum'' (OInt 2)
               (with_entries 2 [(''x'', OInt 1, True)] (d_count (d_count d_for_state)))"
  let ?it = "OOther ''iterator'' 0"
  let ?mv = "AMultiVar [''k'', ''v''] (AIdent ''items'')"
  let ?vb = "ABlock [AIdent ''v'']"
  let ?t2 = "with_entries 2 [(''k'', OInt 1, False), (''v'', OString ''b'', False)]
               (d_next 2 (d_count (d_count d_for_state)))"
  let ?t3 = "d_next 2 (d_count (d_count d_for_state))"
  let ?ci = "AVar ''i'' (AInt 0)"
  let ?cc = "AOther ''Infix'' ''<'' [AIdent ''i'', AInt 2]"
  let ?cb = "ABlock [AOther ''Const'' ''x'' [AIdent ''i'']]"
  let ?cp = "AVar ''i'' (AOther ''Infix'' ''+'' [AIdent ''i'', AInt 1])"
  let ?u0 = "d_set ''i'' (OInt 0) d_for_state"
  let ?u2 = "d_set ''i'' (OInt 2)
               (with_entries 2 [(''x'', OInt 1, True)] (d_count (d_count d_for_state)))"
  let ?u3 = "d_set ''i'' (OInt 2) (d_count (d_count d_for_state))"
  let ?w = "with_entries 2 [(''x'', OInt 0, True)] d_for_state"
  note P = loop_scope_cleared [where X = DX and n = 6 and e = d_e]
  note Q1 = P [THEN conjunct2] note Q2 = Q1 [THEN conjunct2] note Q3 = Q2 [THEN conjunct2]
  note Q4 = Q3 [THEN conjunct2] note Q5 = Q4 [THEN conjunct2] note Q6 = Q5 [THEN conjunct2]
  note Q7 = Q6 [THEN conjunct2] note Q8 = Q7 [THEN conjunct2] note Q9 = Q8 [THEN conjunct2]
  note Q10 = Q9 [THEN conjunct2] note Q11 = Q10 [THEN conjunct2] note Q12 = Q11 [THEN conjunct2]
  have fs: "for_scopes 0 d_state = (1, 2, d_for_state)"
    by (simp add: d_for_state_def for_scopes_eq d_state_def)
  note G = Q1 [THEN conjunct1, rule_format, OF fs]
  have g1: "sc_parent (scopes d_for_state ! 2) = Some 1" using G by blast
  have g2: "sc_parent (scopes d_for_state ! 1) = Some 0" using G by blast
  have p0: "\<And>pass x. passes 0 pass x = Some x" by simp
  have i0: "init_run ?E d_e ANone 1 d_for_state = Some d_for_state" by (simp add: init_run_def)
  have b1: "?E d_e decl_body 2 (Clear 2 d_for_state) = Ret (OContinue, ?s1)" by code_simp
  have sp: "simple_pass ?E d_e decl_body 2 (ONil, d_for_state)
              = Some (if OContinue = OContinue then ONil else OContinue, ?s1)"
    by (rule P [where j = 0 and ?lv0.0 = ONil and ?st0.0 = d_for_state and k = 0,
            THEN conjunct2, THEN conjunct2, THEN conjunct2, THEN conjunct1, rule_format,
            THEN conjunct1],
        intro conjI, rule p0, rule b1, simp, simp, simp)
  then have sp1: "simple_pass ?E d_e decl_body 2 (ONil, d_for_state) = Some (ONil, ?s1)"
    by simp
  have un: "?E d_e decl_body 2 ?s1 = Ret (OError ''AlreadyDeclaredError: x'', d_count ?s1)"
    by code_simp
  have l: "2 < length (scopes ?s1)" by code_simp
  note F = Q12 [rule_format, OF l]
  have e1: "sc_entries (scopes (Clear 2 ?s1) ! 2) = []" using F by blast
  have pa: "sc_parent (scopes ?s1 ! 2) = Some 1" by code_simp
  have e2: "sc_parent (scopes (Clear 2 ?s1) ! 2) = Some 1" using F pa by simp
  have b2: "?E d_e decl_body 2 (Clear 2 ?s1) = Ret (OBreak, ?s2)" by code_simp
  have p1: "passes 1 (simple_pass ?E d_e decl_body 2) (ONil, d_for_state) = Some (ONil, ?s1)"
    using sp1 by simp
  have lo: "forLoop_simple DX (1 + Suc 4) ?E d_e decl_body 2 ONil d_for_state = Ret (ONil, ?s2)"
    by (rule Q4 [THEN conjunct1, rule_format], intro conjI, rule p1, rule b2)
  have "evalFor DX (1 + Suc 4) ?E d_e ANone ANone decl_body ANone True False 0 d_state =
          (if True then forLoop_simple DX (1 + Suc 4) ?E d_e decl_body 2 ONil d_for_state
           else if False
             then evalIteratorForLoop DX (1 + Suc 4) ?E d_e ANone decl_body 2 d_for_state
           else forLoop_cond DX (1 + Suc 4) ?E d_e ANone decl_body ANone 1 2 ONil d_for_state)"
    by (rule P [THEN conjunct1, rule_format], intro conjI, rule fs, rule i0)
  then have f1: "evalFor DX (1 + Suc 4) ?E d_e ANone ANone decl_body ANone True False 0 d_state
      = Ret (ONil, ?s2)"
    by (simp only: lo if_True)
  have x1: "Evaluate DX 7 d_e decl_loop 0 d_state = Ret (ONil, ?s2)" by code_simp
  have p2: "passes 2 (iter_pass DX ?E d_e [''k'', ''v''] ?vb 2 ?it) (ONil, d_for_state)
      = Some (OString ''b'', ?t2)" by code_simp
  have nx: "x_Next DX ?it (Clear 2 ?t2) = (None, ?t3)" by code_simp
  have li: "forLoop_iter DX (2 + Suc 3) ?E d_e [''k'', ''v''] ?vb 2 ?it ONil d_for_state
      = Ret (OString ''b'', ?t3)"
    by (rule Q6 [THEN conjunct1, rule_format], intro conjI, rule p2, rule nx)
  have it: "?E d_e (AIdent ''items'') 2 d_for_state = Ret (?it, d_for_state)" by code_simp
  have isit: "x_isIterator DX ?it" by (simp add: DX_def)
  have hd: "evalIteratorForLoop DX (2 + Suc 3) ?E d_e ?mv ?vb 2 d_for_state
      = forLoop_iter DX (2 + Suc 3) ?E d_e [''k'', ''v''] ?vb 2 ?it ONil d_for_state"
    by (rule P [where cond = ?mv and names = "[''k'', ''v'']" and iterExpr = "AIdent ''items''"
            and name = "''k''", THEN conjunct2, THEN conjunct2, THEN conjunct1, rule_format],
        intro conjI, simp, rule it, simp, simp, rule isit)
  have "evalFor DX (2 + Suc 3) ?E d_e ANone ?mv ?vb ANone False True 0 d_state =
          (if False then forLoop_simple DX (2 + Suc 3) ?E d_e ?vb 2 ONil d_for_state
           else if True then evalIteratorForLoop DX (2 + Suc 3) ?E d_e ?mv ?vb 2 d_for_state
           else forLoop_cond DX (2 + Suc 3) ?E d_e ?mv ?vb ANone 1 2 ONil d_for_state)"
    by (rule P [THEN conjunct1, rule_format], intro conjI, rule fs, rule i0)
  then have f2: "evalFor DX (2 + Suc 3) ?E d_e ANone ?mv ?vb ANone False True 0 d_state
      = Ret (OString ''b'', ?t3)"
    by (simp only: hd li if_True if_False)
  have x2: "Evaluate DX 7 d_e items_loop 0 d_state = Ret (OString ''b'', ?t3)" by code_simp
  have i1: "init_run ?E d_e ?ci 1 d_for_state = Some ?u0" by code_simp
  have p3: "passes 2 (cond_pass DX ?E d_e ?cc ?cb ?cp 1 2) (ONil, ?u0) = Some (ONil, ?u2)"
    by code_simp
  have cf: "?E d_e ?cc 1 (Clear 2 ?u2) = Ret (OBool False, ?u3)" by code_simp
  have nt: "\<not> x_IsTruthy DX (OBool False)" by (simp add: DX_def)
  have lc: "forLoop_cond DX (2 + Suc 3) ?E d_e ?cc ?cb ?cp 1 2 ONil ?u0 = Ret (ONil, ?u3)"
    by (rule Q8 [THEN conjunct1, rule_format], intro conjI, rule p3, rule cf, simp, simp,
        rule nt)
  have "evalFor DX (2 + Suc 3) ?E d_e ?ci ?cc ?cb ?cp False False 0 d_state =
          (if False then forLoop_simple DX (2 + Suc 3) ?E d_e ?cb 2 ONil ?u0
           else if False then evalIteratorForLoop DX (2 + Suc 3) ?E d_e ?cc ?cb 2 ?u0
           else forLoop_cond DX (2 + Suc 3) ?E d_e ?cc ?cb ?cp 1 2 ONil ?u0)"
    by (rule P [THEN conjunct1, rule_format], intro conjI, rule fs, rule i1)
  then have f3: "evalFor DX (2 + Suc 3) ?E d_e ?ci ?cc ?cb ?cp False False 0 d_state
      = Ret (ONil, ?u3)"
    by (simp only: lc if_False)
  have x3: "Evaluate DX 7 d_e const_loop 0 d_state = Ret (ONil, ?u3)" by code_simp
  have v: "?E d_e (AIdent ''x'') 2 ?w = Ret (OInt 0, ?w)" by code_simp
  have a: "forLoop_simple DX 3 ?E d_e (ABlock [AIdent ''x'']) 2 ONil d_for_state
      = Ret (OError ''name error: x'', d_count d_for_state)" by code_simp
  have fr: "forLoop_simple DX 3 ?E d_e (ABlock [AIdent ''x'']) 2 ONil ?w
      = Ret (OError ''name error: x'', d_count d_for_state)"
    by (rule trans [OF Q9 [THEN conjunct1] a])
  show ?thesis
    by (intro conjI) (fact fs g1 g2 b1 sp1 un e1 e2 b2 f1 x1 p2 f2 x2 p3 f3 x3 v fr)+
qed

subsection \<open>Cancellation\<close>

text \<open>
  C8. Every call of \<open>Evaluate\<close> (at any fuel that lets it run at all) first checks the
  cancellation token: when the context is already cancelled, it returns the error that
  carries the cause \<open>ctx.Err()\<close>, with the state as it was, for every node, scope and
  evaluator: nothing is tracked, dispatched or evaluated. As the check is made by every
  recursive call, a construct whose sub-evaluation ends with the context cancelled
  evaluates no further sub-node: an \<open>if\<close> whose condition was evaluated to a value
  while the context got cancelled returns the cancellation error from the branch it
  enters, in the state the condition left.
\<close>

theorem Evaluate_checks_cancellation:
  "(ctx_err st = Some cause \<longrightarrow> Evaluate X (Suc k) e n s st = Ret (OError cause, st))
   \<and> (Evaluate X (Suc k) e cond s st = Ret (v, st1) \<and> ctx_err st1 = Some cause
        \<and> \<not> IsError v \<and> v \<noteq> NoObject
      \<longrightarrow> evalIf X (Evaluate X (Suc k)) e cond conseq alt s st =
            (if x_IsTruthy X v \<or> alt \<noteq> ANone then Ret (OError cause, st1)
             else Ret (ONil, st1)))"
  by (auto simp: Evaluate_body_def evalIf_def IsTruthy_def)

theorem Evaluate_checks_cancellation_witness:
  "ctx_err (d_state\<lparr>ctx_err := Some ''context canceled''\<rparr>) = Some ''context canceled''
   \<and> Evaluate DX (Suc 5) d_e sum_loop 0 (d_state\<lparr>ctx_err := Some ''context canceled''\<rparr>)
       = Ret (OError ''context canceled'', d_state\<lparr>ctx_err := Some ''context canceled''\<rparr>)
   \<and> Evaluate DX (Suc 5) d_e (ACall (AIdent ''cancel'') []) 0 d_state
       = Ret (OBool True, d_state\<lparr>ctx_err := Some ''context canceled'',
                world := (world d_state)\<lparr>d_calls := [(OBuiltin 5, [])]\<rparr>\<rparr>)
   \<and> evalIf DX (Evaluate DX (Suc 5)) d_e (ACall (AIdent ''cancel'') []) sum_body ANone 0 d_state
       = Ret (OError ''context canceled'', d_state\<lparr>ctx_err := Some ''context canceled'',
                world := (world d_state)\<lparr>d_calls := [(OBuiltin 5, [])]\<rparr>\<rparr>)"
proof -
  let ?c = "''context canceled''"
  let ?st1 = "d_state\<lparr>ctx_err := Some ?c, world := (world d_state)\<lparr>d_calls := [(OBuiltin 5, [])]\<rparr>\<rparr>"
  have a: "ctx_err (d_state\<lparr>ctx_err := Some ?c\<rparr>) = Some ?c" by simp
  have b: "Evaluate DX (Suc 5) d_e (ACall (AIdent ''cancel'') []) 0 d_state = Ret (OBool True, ?st1)"
    by code_simp
  have c: "ctx_err ?st1 = Some ?c" by simp
  have t: "x_IsTruthy DX (OBool True)" by (simp add: DX_def)
  from Evaluate_checks_cancellation [where st = "d_state\<lparr>ctx_err := Some ?c\<rparr>" and cause = ?c
      and X = DX and k = 5 and e = d_e and n = sum_loop and s = 0]
  have 1: "Evaluate DX (Suc 5) d_e sum_loop 0 (d_state\<lparr>ctx_err := Some ?c\<rparr>)
       = Ret (OError ?c, d_state\<lparr>ctx_err := Some ?c\<rparr>)" using a by blast
  from Evaluate_checks_cancellation [where cause = ?c and X = DX and k = 5 and e = d_e
      and cond = "ACall (AIdent ''cancel'') []" and s = 0 and st = d_state
      and v = "OBool True" and ?st1.0 = ?st1 and conseq = sum_body and alt = ANone]
  have 2: "evalIf DX (Evaluate DX (Suc 5)) d_e (ACall (AIdent ''cancel'') []) sum_body ANone 0 d_state
       = Ret (OError ?c, ?st1)" using b c t by simp
  show ?thesis using a b 1 2 by simp
qed

subsection \<open>String templates\<close>

text \<open>
  C9. The value of a templated string literal is the concatenation of the pieces that
  its fragments contribute, in the order of the fragments (\<open>contributions\<close>: a
  literal fragment its text; a variable fragment the empty text when its expression
  slot is absent, the raw text of a string result, and the representation of any other
  value), and an error from an embedded expression is the value of the whole literal.
  This holds when the literal has an expression slot for each of its variable
  fragments, as the parser makes it. A template of literal fragments only yields the
  concatenation of their texts, and a literal without a template its own text. In the
  witness the fragments \<open>"x="\<close>, a variable and \<open>"!"\<close> give \<open>x=3!\<close> when the
  expression has the value 3, \<open>x=!\<close> when the slot is absent, \<open>x=hi!\<close> for the
  string \<open>hi\<close>, and the error of the expression when it fails.
\<close>

theorem template_concatenation:
  "(length (filter IsVariable fragments) \<le> length exprs \<longrightarrow>
      evalStringLiteral X (Evaluate X n) v (Some fragments) exprs s st =
        bind (contributions X (Evaluate X n) exprs fragments 0 s st) (\<lambda>(r, st1).
          case r of
            Returned err \<Rightarrow> Ret (err, st1)
          | Proceed pieces \<Rightarrow> Ret (OString (concat pieces), st1)))
   \<and> (list_all (\<lambda>f. \<not> IsVariable f) fragments \<longrightarrow>
      evalStringLiteral X (Evaluate X n) v (Some fragments) exprs s st =
        Ret (OString (concat (map FragValue fragments)), st))
   \<and> evalStringLiteral X (Evaluate X n) v None exprs s st = Ret (OString v, st)"
proof (intro conjI impI)
  show "evalStringLiteral X (Evaluate X n) v (Some fragments) exprs s st =
        bind (contributions X (Evaluate X n) exprs fragments 0 s st) (\<lambda>(r, st1).
          case r of
            Returned err \<Rightarrow> Ret (err, st1)
          | Proceed pieces \<Rightarrow> Ret (OString (concat pieces), st1))"
    if "length (filter IsVariable fragments) \<le> length exprs"
    using that fragments_loop_contributions [of fragments 0 exprs X "Evaluate X n" "[]" s st]
    by (simp add: evalStringLiteral_def cong: flow.case_cong)
  show "evalStringLiteral X (Evaluate X n) v (Some fragments) exprs s st =
        Ret (OString (concat (map FragValue fragments)), st)"
    if a: "list_all (\<lambda>f. \<not> IsVariable f) fragments"
  proof -
    from a have "filter IsVariable fragments = []"
      by (induction fragments) simp_all
    then have "length (filter IsVariable fragments) + 0 \<le> length exprs" by simp
    from fragments_loop_contributions [OF this, of X "Evaluate X n" "[]" s st]
    show ?thesis
      by (simp add: evalStringLiteral_def contributions_literal [OF a])
  qed
  show "evalStringLiteral X (Evaluate X n) v None exprs s st = Ret (OString v, st)"
    by (simp add: evalStringLiteral_def)
qed

theorem template_concatenation_witness:
  "length (filter IsVariable x_template) \<le> length [AInt 3]
   \<and> contributions DX (Evaluate DX 6) [AInt 3] x_template 0 0 d_state
       = Ret (Proceed [''x='', ''3'', ''!''], d_state)
   \<and> evalStringLiteral DX (Evaluate DX 6) [] (Some x_template) [AInt 3] 0 d_state
       = Ret (OString ''x=3!'', d_state)
   \<and> contributions DX (Evaluate DX 6) [ANone] x_template 0 0 d_state
       = Ret (Proceed [''x='', [], ''!''], d_state)
   \<and> evalStringLiteral DX (Evaluate DX 6) [] (Some x_template) [ANone] 0 d_state
       = Ret (OString ''x=!'', d_state)
   \<and> evalStringLiteral DX (Evaluate DX 6) [] (Some x_template) [AIdent ''greeting''] 0
         (d_set ''greeting'' (OString ''hi'') d_state)
       = Ret (OString ''x=hi!'', d_set ''greeting'' (OString ''hi'') d_state)
   \<and> evalStringLiteral DX (Evaluate DX 6) [] (Some x_template) [error_call] 0 d_state
       = Ret (OError ''boom'', d_log (OBuiltin 2) [] d_state)
   \<and> Evaluate DX 7 d_e (AString [] (Some x_template) [AInt 3]) 0 d_state
       = Ret (OString ''x=3!'', d_state)
   \<and> evalStringLiteral DX (Evaluate DX 6) [] (Some [Fragment False ''a'', Fragment False ''b''])
         [] 0 d_state
       = Ret (OString ''ab'', d_state)"
proof -
  let ?E = "Evaluate DX 6"
  let ?g = "d_set ''greeting'' (OString ''hi'') d_state"
  note P = template_concatenation [where X = DX and n = 6 and v = "[]"
      and fragments = x_template and s = 0, THEN conjunct1, rule_format]
  have l: "\<And>x. length (filter IsVariable x_template) \<le> length [x]"
    by (simp add: x_template_def)
  have k1: "contributions DX ?E [AInt 3] x_template 0 0 d_state
       = Ret (Proceed [''x='', ''3'', ''!''], d_state)" by code_simp
  have c1: "evalStringLiteral DX ?E [] (Some x_template) [AInt 3] 0 d_state
       = Ret (OString ''x=3!'', d_state)"
    using P [OF l, of "AInt 3" d_state] k1 by simp
  have k2: "contributions DX ?E [ANone] x_template 0 0 d_state
       = Ret (Proceed [''x='', [], ''!''], d_state)" by code_simp
  have c2: "evalStringLiteral DX ?E [] (Some x_template) [ANone] 0 d_state
       = Ret (OString ''x=!'', d_state)"
    using P [OF l, of ANone d_state] k2 by simp
  have k3: "contributions DX ?E [AIdent ''greeting''] x_template 0 0 ?g
       = Ret (Proceed [''x='', ''hi'', ''!''], ?g)" by code_simp
  have c3: "evalStringLiteral DX ?E [] (Some x_template) [AIdent ''greeting''] 0 ?g
       = Ret (OString ''x=hi!'', ?g)"
    using P [OF l, of "AIdent ''greeting''" ?g] k3 by simp
  have k4: "contributions DX ?E [error_call] x_template 0 0 d_state
       = Ret (Returned (OError ''boom''), d_log (OBuiltin 2) [] d_state)" by code_simp
  have c4: "evalStringLiteral DX ?E [] (Some x_template) [error_call] 0 d_state
       = Ret (OError ''boom'', d_log (OBuiltin 2) [] d_state)"
    using P [OF l, of error_call d_state] k4 by simp
  have ex: "Evaluate DX 7 d_e (AString [] (Some x_template) [AInt 3]) 0 d_state
       = Ret (OString ''x=3!'', d_state)" by code_simp
  have "list_all (\<lambda>f. \<not> IsVariable f) [Fragment False ''a'', Fragment False ''b'']" by simp
  from template_concatenation [where X = DX and n = 6 and v = "[]" and exprs = "[]" and s = 0
      and st = d_state, THEN conjunct2, THEN conjunct1, rule_format, OF this]
  have c5: "evalStringLiteral DX ?E [] (Some [Fragment False ''a'', Fragment False ''b''])
         [] 0 d_state = Ret (OString ''ab'', d_state)" by simp
  show ?thesis
    by (intro conjI) (fact l k1 c1 k2 c2 c3 c4 ex c5)+
qed

subsection \<open>Equality of builtins\<close>

text \<open>
  C10. For every builtin \<open>b\<close> and every object \<open>other\<close>, \<open>b.Equals(other)\<close> is
  True exactly when \<open>other\<close> is the very builtin \<open>b\<close> (the same pointer) and
  False exactly when it is anything else; on two builtins the answer is the comparison
  of their addresses, so two distinct builtins are not equal even when the structs they
  point to in the heap \<open>h\<close> agree in every field (name, wrapped function, module).
\<close>

theorem Builtin_Equals_identity:
  "(Builtin_Equals b other = OBool True) = (other = OBuiltin b)
   \<and> (Builtin_Equals b other = OBool False) = (other \<noteq> OBuiltin b)
   \<and> Builtin_Equals b (OBuiltin b') = OBool (b' = b)
   \<and> (\<forall>h :: ref \<Rightarrow> Builtin.
         b \<noteq> b' \<and> h b = h b' \<longrightarrow> Builtin_Equals b (OBuiltin b') = OBool False)"
  by (auto simp: Builtin_Equals_def)

theorem Builtin_Equals_identity_witness:
  "(Builtin_Equals 0 (OBuiltin 0) = OBool True)
   \<and> (Builtin_Equals 0 (OString ''len'') = OBool False)
   \<and> (0::ref) \<noteq> 1
   \<and> (\<lambda>r::ref. NewBuiltin ''len'' 7) 0 = (\<lambda>r::ref. NewBuiltin ''len'' 7) 1
   \<and> Builtin_Equals 0 (OBuiltin 1) = OBool False"
  using Builtin_Equals_identity [of 0 "OBuiltin 0" 1]
    Builtin_Equals_identity [of 0 "OString ''len''" 1]
  by simp

end
